(* ===== verification/Iced_Prelude.thy ===== *)
theory Iced_Prelude
  imports Main "HOL-Library.Word"
begin

text \<open>
  Shared vocabulary of the iced-x86 model. Rust's fixed-width integers are words of
  their width (\<open>u8\<close> \<dots> \<open>u64\<close>); \<open>i32\<close> values, which the modelled code only
  produces by widening casts or small literals, are \<open>int\<close>;
  \<open>panic!\<close> is the left value of a sum type, and every packed bit field of the
  instruction is read and written through the two generic operations
  \<open>get_field\<close> and \<open>set_field\<close> below, whose lemmas (a field reads back what was
  written; a write leaves every disjoint field alone) carry the component proofs.
\<close>

unbundle bit_operations_syntax

type_synonym u8 = "8 word"
type_synonym u16 = "16 word"
type_synonym u32 = "32 word"
type_synonym u64 = "64 word"
type_synonym i32 = int

text \<open>
  A \<open>panic!("NYI")\<close> of the source is \<open>NYI\<close>; \<open>Overflow\<close> is the panic a debug build
  raises on an arithmetic overflow (\<open>attempt to subtract with overflow\<close>), and
  \<open>DivideByZero\<close> the one every build raises on an integer division by zero;
  \<open>IndexOutOfBounds\<close> is the bounds check of a slice or array index \<open>a[i]\<close>.
\<close>

datatype panic = NYI | Overflow | DivideByZero | IndexOutOfBounds

type_synonym 'a result = "panic + 'a"

text \<open>Sequencing of two fallible calls: the first panic, else the second call on the
  first result.\<close>

definition rbind :: "'a result \<Rightarrow> ('a \<Rightarrow> 'b result) \<Rightarrow> 'b result" where
  "rbind r f = (case r of Inl e \<Rightarrow> Inl e | Inr a \<Rightarrow> f a)"

named_theorems iced_field "equations putting a getter or setter into get_field/set_field form"
named_theorems iced_const "values of the source's bit-layout constants"

subsection \<open>Packed bit fields\<close>

text \<open>
  \<open>get_field s w x\<close> is the source's \<open>(x >> s) & m\<close> and \<open>set_field s w v x\<close> its
  \<open>(x & !(m << s)) | ((v & m) << s)\<close>, for the mask \<open>m = (1 << w) - 1\<close> of a field
  of \<open>w\<close> bits at bit \<open>s\<close>.
\<close>

definition get_field :: "nat \<Rightarrow> nat \<Rightarrow> 'a::len word \<Rightarrow> 'a word" where
  "get_field s w x = drop_bit s x AND mask w"

definition set_field :: "nat \<Rightarrow> nat \<Rightarrow> 'a::len word \<Rightarrow> 'a word \<Rightarrow> 'a word" where
  "set_field s w v x = (x AND NOT (push_bit s (mask w))) OR push_bit s (v AND mask w)"

lemma bit_set_field [iced_field]:
  "bit (set_field s w v (x::'a::len word)) n =
     (if s \<le> n \<and> n < s + w then bit v (n - s) \<and> n < LENGTH('a) else bit x n)"
  by (auto simp: set_field_def bit_simps dest: bit_imp_le_length)

lemma get_set_field_same [simp]:
  "s + w \<le> LENGTH('a) \<Longrightarrow>
   get_field s w (set_field s w v (x::'a::len word)) = take_bit w v"
  by (intro bit_word_eqI) (auto simp: get_field_def set_field_def bit_simps)

lemma get_set_field_other [simp]:
  "s + w \<le> s' \<or> s' + w' \<le> s \<Longrightarrow>
   get_field s' w' (set_field s w v (x::'a::len word)) = get_field s' w' x"
  by (intro bit_word_eqI)
    (auto simp: get_field_def set_field_def bit_simps dest: bit_imp_le_length)

lemma set_field_get_field:
  "set_field s w (get_field s w x) (x::'a::len word) = x"
  by (intro bit_word_eqI) (auto simp: get_field_def set_field_def bit_simps)

lemma set_field_set_field_same [simp]:
  "set_field s w v (set_field s w v' (x::'a::len word)) = set_field s w v x"
  by (intro bit_word_eqI) (auto simp: set_field_def bit_simps)

lemma set_field_commute:
  "s + w \<le> s' \<or> s' + w' \<le> s \<Longrightarrow>
   set_field s w v (set_field s' w' v' (x::'a::len word)) = set_field s' w' v' (set_field s w v x)"
  by (intro bit_word_eqI) (auto simp: set_field_def bit_simps)

lemma get_field_less:
  "unat (get_field s w (x::'a::len word)) < 2 ^ w"
proof -
  have "get_field s w x = take_bit w (drop_bit s x)"
    by (simp add: get_field_def take_bit_eq_mask)
  then show ?thesis
    by (simp add: unsigned_take_bit_eq)
qed

lemma get_field_0 [simp]: "get_field s w 0 = 0"
  by (simp add: get_field_def)

lemma bit_get_field:
  "bit (get_field s w (x::'a::len word)) n = (n < w \<and> bit x (s + n))"
  by (auto simp: get_field_def bit_simps dest: bit_imp_le_length)

text \<open>A one-bit flag: \<open>x & F != 0\<close>, \<open>x | F\<close> and \<open>x & !F\<close> for \<open>F = 1 << s\<close>.\<close>

lemma and_exp_neq_0:
  "((x::'a::len word) AND 2 ^ s \<noteq> 0) = bit x s"
  by (auto simp: bit_eq_iff [of _ 0] bit_simps dest: bit_imp_le_length)

lemma flag_update_field:
  "(if b then (x::'a::len word) OR 2 ^ s else x AND NOT (2 ^ s))
     = set_field s 1 (of_bool b) x"
  by (intro bit_word_eqI) (auto simp: set_field_def bit_simps)


text \<open>The literal shapes of the source, for a mask \<open>m\<close> and a flag \<open>f\<close> given as numerals.\<close>

lemma get_field_lit:
  "m = mask w \<Longrightarrow> drop_bit s x AND m = get_field s w (x::'a::len word)"
  by (simp add: get_field_def)

lemma set_field_lit:
  "m = mask w \<Longrightarrow>
   (x AND NOT (push_bit s m)) OR push_bit s (v AND m) = set_field s w v (x::'a::len word)"
  by (simp add: set_field_def)

lemma flag_bit:
  "f = 2 ^ s \<Longrightarrow> ((x::'a::len word) AND f \<noteq> 0) = bit x s"
  by (simp add: and_exp_neq_0)

lemma flag_set_field:
  "f = 2 ^ s \<Longrightarrow>
   (if b then (x::'a::len word) OR f else x AND NOT f) = set_field s 1 (of_bool b) x"
  by (simp only: flag_update_field)

lemma bit_set_field_same [simp]:
  "s < LENGTH('a) \<Longrightarrow> bit (set_field s 1 (of_bool b) (x::'a::len word)) s = b"
  by (simp add: bit_set_field)

lemma bit_set_field_other [simp]:
  "n < s \<or> s + w \<le> n \<Longrightarrow> bit (set_field s w v (x::'a::len word)) n = bit x n"
  by (auto simp: bit_set_field)

lemma unat_take_bit_of_nat:
  "n < 2 ^ w \<Longrightarrow> w \<le> LENGTH('a) \<Longrightarrow> unat (take_bit w (of_nat n :: 'a::len word)) = n"
proof -
  assume n: "n < 2 ^ w" and w: "w \<le> LENGTH('a)"
  have "n < 2 ^ LENGTH('a)"
    using n w by (meson order_less_le_trans power_increasing_iff one_less_numeral_iff semiring_norm(76))
  then show ?thesis
    using n by (simp add: unsigned_take_bit_eq unsigned_of_nat take_bit_nat_eq_self)
qed


lemma flag_or_set_field:
  "f = 2 ^ s \<Longrightarrow> (x::'a::len word) OR f = set_field s 1 1 x"
  by (intro bit_word_eqI) (auto simp: set_field_def bit_simps)

lemma flag_and_not_set_field:
  "f = 2 ^ s \<Longrightarrow> (x::'a::len word) AND NOT f = set_field s 1 0 x"
  by (intro bit_word_eqI) (auto simp: set_field_def bit_simps)

lemma and_push_bit_mask_eq_0:
  "((x::'a::len word) AND push_bit s (mask w) = 0) = (get_field s w x = 0)"
  by (auto simp: bit_eq_iff [of _ 0] bit_simps get_field_def dest: bit_imp_le_length)

lemma ucast_and_mask_len [simp]:
  "LENGTH('b) \<le> w \<Longrightarrow> (ucast (c::'b::len word) :: 'a::len word) AND mask w = ucast c"
  by (intro bit_word_eqI) (auto simp: bit_simps dest: bit_imp_le_length)

text \<open>
  The decoder's fast paths \<open>x | (v << s)\<close> write a field correctly only when it is
  still zero and the value fits.
\<close>

lemma or_push_bit_set_field:
  "get_field s w x = 0 \<Longrightarrow> take_bit w v = v \<Longrightarrow>
   (x::'a::len word) OR push_bit s v = set_field s w v x"
proof (intro bit_word_eqI)
  fix n
  assume z: "get_field s w x = 0" and t: "take_bit w v = v" and nl: "n < LENGTH('a)"
  have zx: "\<not> bit x n" if "s \<le> n" "n < s + w"
  proof
    assume b: "bit x n"
    then have "n < LENGTH('a)" by (rule bit_imp_le_length)
    with b that have "bit (get_field s w x) (n - s)"
      by (simp add: bit_get_field)
    with z show False by simp
  qed
  have tv: "w \<le> k \<Longrightarrow> \<not> bit v k" for k
    using t by (metis bit_take_bit_iff linorder_not_le)
  show "bit (x OR push_bit s v) n = bit (set_field s w v x) n"
  proof (cases "s \<le> n \<and> n < s + w")
    case True
    then show ?thesis
      using zx nl by (auto simp: set_field_def bit_simps)
  next
    case False
    have "s + w \<le> n \<Longrightarrow> \<not> bit v (n - s)"
      using tv [of "n - s"] by simp
    with False show ?thesis
      using nl by (auto simp: set_field_def bit_simps)
  qed
qed


lemma and_exp_eq_0:
  "((x::'a::len word) AND 2 ^ s = 0) = (\<not> bit x s)"
  using and_exp_neq_0 [of x s] by blast


lemma and_two_flags_neq_0:
  "((x::'a::len word) AND (2 ^ a OR 2 ^ b) \<noteq> 0) = (bit x a \<or> bit x b)"
proof -
  have "x AND (2 ^ a OR 2 ^ b) = (x AND 2 ^ a) OR (x AND 2 ^ b)"
    by (rule bit.conj_disj_distrib)
  then show ?thesis
    by (simp add: and_exp_neq_0 [symmetric] or_eq_0_iff del: bit.conj_disj_distrib)
qed

text \<open>Widening casts, and a field of a \<open>u16\<close> handled through \<open>as u32\<close>.\<close>

lemma get_field_ucast:
  "LENGTH('a) \<le> LENGTH('b) \<Longrightarrow>
   get_field s w (ucast (x::'a::len word) :: 'b::len word) = ucast (get_field s w x)"
  by (intro bit_word_eqI) (auto simp: get_field_def bit_simps dest: bit_imp_le_length)

lemma ucast_set_field_ucast:
  "LENGTH('a) \<le> LENGTH('b) \<Longrightarrow>
   (ucast (set_field s w v (ucast (x::'a::len word) :: 'b::len word)) :: 'a word) = set_field s w (ucast v) x"
  by (intro bit_word_eqI) (auto simp: set_field_def bit_simps dest: bit_imp_le_length)

lemma unat_ucast_widen:
  "LENGTH('a) \<le> LENGTH('b) \<Longrightarrow> unat (ucast (x::'a::len word) :: 'b::len word) = unat x"
proof -
  assume l: "LENGTH('a) \<le> LENGTH('b)"
  have "unat x < 2 ^ LENGTH('a)" by (rule unsigned_less)
  also have "(2::nat) ^ LENGTH('a) \<le> 2 ^ LENGTH('b)" using l by simp
  finally show ?thesis by (simp add: unsigned_ucast_eq take_bit_nat_eq_self)
qed

lemma uint_ucast_widen:
  "LENGTH('a) \<le> LENGTH('b) \<Longrightarrow> uint (ucast (x::'a::len word) :: 'b::len word) = uint x"
proof -
  assume l: "LENGTH('a) \<le> LENGTH('b)"
  have "uint x < 2 ^ LENGTH('a)" by (rule unsigned_less)
  also have "(2::int) ^ LENGTH('a) \<le> 2 ^ LENGTH('b)" using l by simp
  finally show ?thesis by (simp add: unsigned_ucast_eq take_bit_int_eq_self)
qed

lemma ucast_widen_eq_iff:
  "LENGTH('a) \<le> LENGTH('b) \<Longrightarrow> (ucast (x::'a::len word) :: 'b::len word) = ucast y \<longleftrightarrow> x = y"
  by (simp add: word_unat_eq_iff unat_ucast_widen)

lemma ucast_widen_le_iff:
  "LENGTH('a) \<le> LENGTH('b) \<Longrightarrow> (ucast (x::'a::len word) :: 'b::len word) \<le> ucast y \<longleftrightarrow> x \<le> y"
  by (simp add: word_le_nat_alt unat_ucast_widen)


lemma set_field_low_2:
  "v AND mask 2 = v \<Longrightarrow> set_field 0 2 v x = (x AND NOT (mask 2)) OR (v::'a::len word)"
  by (simp add: set_field_def)


lemma ucast_ucast_back:
  "LENGTH('a) \<le> LENGTH('b) \<Longrightarrow> ucast (ucast (x::'a::len word) :: 'b::len word) = x"
  by (intro bit_word_eqI) (auto simp: bit_simps dest: bit_imp_le_length)

lemma ucast_ucast_widen:
  "LENGTH('a) \<le> LENGTH('b) \<Longrightarrow>
   (ucast (ucast (x::'a::len word) :: 'b::len word) :: 'c::len word) = ucast x"
  by (intro bit_word_eqI) (auto simp: bit_simps dest: bit_imp_le_length)

text \<open>A 64-bit value kept as its low and high halves reads back whole.\<close>

lemma push_bit_32_halves:
  "push_bit 32 (ucast (ucast (drop_bit 32 v) :: u32)) OR ucast (ucast v :: u32) = (v::u64)"
  by (intro bit_word_eqI) (auto simp: bit_simps)

lemma rbind_Inr [simp]: "rbind (Inr a) f = f a"
  by (simp add: rbind_def)

lemma rbind_Inl [simp]: "rbind (Inl e) f = Inl e"
  by (simp add: rbind_def)


text \<open>Equality outside a field, and fast writes into a field that is still zero.\<close>

lemma set_field_eq_ignore:
  "((x XOR y) AND NOT (push_bit s (mask w)) = 0) = (set_field s w 0 x = set_field s w 0 (y::'a::len word))"
proof -
  have a: "\<not> n - s < w \<Longrightarrow> \<not> (s \<le> n \<and> n < s + w)" for n
    by arith
  have l: "((x XOR y) AND NOT (push_bit s (mask w)) = 0) =
      (\<forall>n. \<not> (s \<le> n \<and> n < s + w) \<longrightarrow> bit x n = bit y n)"
    by (auto simp: bit_eq_iff [of _ 0] bit_simps dest: bit_imp_le_length a)
  have r: "(set_field s w 0 x = set_field s w 0 y) =
      (\<forall>n. \<not> (s \<le> n \<and> n < s + w) \<longrightarrow> bit x n = bit y n)"
    by (auto simp: bit_eq_iff [of "set_field _ _ _ _"] bit_set_field dest: bit_imp_le_length)
  show ?thesis
    by (simp only: l r)
qed

lemma or_set_field_0:
  "get_field 0 w x = 0 \<Longrightarrow> take_bit w v = v \<Longrightarrow> (x::'a::len word) OR v = set_field 0 w v x"
  using or_push_bit_set_field [of 0 w x v] by simp

lemma take_bit_of_nat_small:
  "n < 2 ^ w \<Longrightarrow> take_bit w (of_nat n :: 'a::len word) = of_nat n"
  by (simp add: take_bit_of_nat take_bit_nat_eq_self)


text \<open>Truncation of a 64-bit sum, and the bound of a masked value.\<close>

lemma take_bit_word_add:
  "take_bit n (take_bit n a + take_bit n b) = take_bit n (a + (b::'a::len word))"
  by transfer (simp add: take_bit_add)

lemma and_mask_64 [simp]: "(x::u64) AND mask 64 = x"
  by (intro bit_word_eqI) (auto simp: bit_simps)

lemma unat_and_mask_less: "k \<le> 64 \<Longrightarrow> unat ((x::u64) AND mask k) < 2 ^ k"
proof -
  assume "k \<le> 64"
  have "unat (take_bit k x) < 2 ^ k"
    by (simp add: unsigned_take_bit_eq take_bit_nat_less_exp)
  then show ?thesis
    by (simp add: take_bit_eq_mask)
qed

end
