(* ===== verification/Register.thy ===== *)
theory Register
  imports Iced_Prelude
begin

text \<open>
  The register enumeration of \<open>register.rs\<close>. The Rust enum has 241 variants in a fixed
  order (\<open>None\<close>, the 8-, 16-, 32- and 64-bit general purpose registers, \<open>EIP\<close>,
  \<open>RIP\<close>, the segment registers, \<open>XMM0\<close>-\<open>ZMM31\<close>, \<open>K0\<close>-\<open>K7\<close>, \<open>BND0\<close>-\<open>BND3\<close>,
  \<open>CR0\<close>-\<open>CR15\<close>, \<open>DR0\<close>-\<open>DR15\<close>, \<open>ST0\<close>-\<open>ST7\<close>, \<open>MM0\<close>-\<open>MM7\<close>, \<open>TR0\<close>-\<open>TR7\<close>).
  Its values are stored as \<open>u8\<close> ordinals and turned back with \<open>transmute\<close>, and the
  only arithmetic on it (\<open>Register::add\<close>, \<open>Register::sub\<close>) is on ordinals, so the
  type is modelled as the ordinals \<open>0 .. NUMBER_OF_REGISTERS - 1\<close> (a \<^theory_text>\<open>typedef\<close>:
  every value of the type is a variant) with the generated enum body kept as the table
  of variant names, \<open>register_names\<close>. A \<^theory_text>\<open>datatype\<close> of 241 constructors is
  beyond what the datatype package builds in reasonable time.
\<close>

subsection \<open>The enumeration\<close>

definition NUMBER_OF_REGISTERS :: nat where
  "NUMBER_OF_REGISTERS = 241"

definition register_names :: "string list" where
  "register_names =
    [''None'', ''AL'', ''CL'', ''DL'', ''BL'', ''AH'', ''CH'', ''DH'', ''BH'', ''SPL'',
     ''BPL'', ''SIL'', ''DIL'', ''R8L'', ''R9L'', ''R10L'', ''R11L'', ''R12L'', ''R13L'', ''R14L'',
     ''R15L'', ''AX'', ''CX'', ''DX'', ''BX'', ''SP'', ''BP'', ''SI'', ''DI'', ''R8W'',
     ''R9W'', ''R10W'', ''R11W'', ''R12W'', ''R13W'', ''R14W'', ''R15W'', ''EAX'', ''ECX'', ''EDX'',
     ''EBX'', ''ESP'', ''EBP'', ''ESI'', ''EDI'', ''R8D'', ''R9D'', ''R10D'', ''R11D'', ''R12D'',
     ''R13D'', ''R14D'', ''R15D'', ''RAX'', ''RCX'', ''RDX'', ''RBX'', ''RSP'', ''RBP'', ''RSI'',
     ''RDI'', ''R8'', ''R9'', ''R10'', ''R11'', ''R12'', ''R13'', ''R14'', ''R15'', ''EIP'',
     ''RIP'', ''ES'', ''CS'', ''SS'', ''DS'', ''FS'', ''GS'', ''XMM0'', ''XMM1'', ''XMM2'',
     ''XMM3'', ''XMM4'', ''XMM5'', ''XMM6'', ''XMM7'', ''XMM8'', ''XMM9'', ''XMM10'', ''XMM11'', ''XMM12'',
     ''XMM13'', ''XMM14'', ''XMM15'', ''XMM16'', ''XMM17'', ''XMM18'', ''XMM19'', ''XMM20'', ''XMM21'', ''XMM22'',
     ''XMM23'', ''XMM24'', ''XMM25'', ''XMM26'', ''XMM27'', ''XMM28'', ''XMM29'', ''XMM30'', ''XMM31'', ''YMM0'',
     ''YMM1'', ''YMM2'', ''YMM3'', ''YMM4'', ''YMM5'', ''YMM6'', ''YMM7'', ''YMM8'', ''YMM9'', ''YMM10'',
     ''YMM11'', ''YMM12'', ''YMM13'', ''YMM14'', ''YMM15'', ''YMM16'', ''YMM17'', ''YMM18'', ''YMM19'', ''YMM20'',
     ''YMM21'', ''YMM22'', ''YMM23'', ''YMM24'', ''YMM25'', ''YMM26'', ''YMM27'', ''YMM28'', ''YMM29'', ''YMM30'',
     ''YMM31'', ''ZMM0'', ''ZMM1'', ''ZMM2'', ''ZMM3'', ''ZMM4'', ''ZMM5'', ''ZMM6'', ''ZMM7'', ''ZMM8'',
     ''ZMM9'', ''ZMM10'', ''ZMM11'', ''ZMM12'', ''ZMM13'', ''ZMM14'', ''ZMM15'', ''ZMM16'', ''ZMM17'', ''ZMM18'',
     ''ZMM19'', ''ZMM20'', ''ZMM21'', ''ZMM22'', ''ZMM23'', ''ZMM24'', ''ZMM25'', ''ZMM26'', ''ZMM27'', ''ZMM28'',
     ''ZMM29'', ''ZMM30'', ''ZMM31'', ''K0'', ''K1'', ''K2'', ''K3'', ''K4'', ''K5'', ''K6'',
     ''K7'', ''BND0'', ''BND1'', ''BND2'', ''BND3'', ''CR0'', ''CR1'', ''CR2'', ''CR3'', ''CR4'',
     ''CR5'', ''CR6'', ''CR7'', ''CR8'', ''CR9'', ''CR10'', ''CR11'', ''CR12'', ''CR13'', ''CR14'',
     ''CR15'', ''DR0'', ''DR1'', ''DR2'', ''DR3'', ''DR4'', ''DR5'', ''DR6'', ''DR7'', ''DR8'',
     ''DR9'', ''DR10'', ''DR11'', ''DR12'', ''DR13'', ''DR14'', ''DR15'', ''ST0'', ''ST1'', ''ST2'',
     ''ST3'', ''ST4'', ''ST5'', ''ST6'', ''ST7'', ''MM0'', ''MM1'', ''MM2'', ''MM3'', ''MM4'',
     ''MM5'', ''MM6'', ''MM7'', ''TR0'', ''TR1'', ''TR2'', ''TR3'', ''TR4'', ''TR5'', ''TR6'',
     ''TR7'']"

typedef Register = "{n::nat. n < NUMBER_OF_REGISTERS}"
  morphisms reg_ord Abs_Register
  by (rule exI [of _ 0]) (simp add: NUMBER_OF_REGISTERS_def)

definition register_name :: "Register \<Rightarrow> string" where
  "register_name r = register_names ! reg_ord r"

text \<open>\<open>Register::None\<close>; the name \<open>None\<close> belongs to \<open>option\<close> in HOL.\<close>

definition Reg_None :: Register where "Reg_None = Abs_Register 0"
definition AL :: Register where "AL = Abs_Register 1"
definition CL :: Register where "CL = Abs_Register 2"
definition DL :: Register where "DL = Abs_Register 3"
definition BH :: Register where "BH = Abs_Register 8"
definition R15L :: Register where "R15L = Abs_Register 20"
definition BX :: Register where "BX = Abs_Register 24"
definition SP :: Register where "SP = Abs_Register 25"
definition BP :: Register where "BP = Abs_Register 26"
definition SI :: Register where "SI = Abs_Register 27"
definition DI :: Register where "DI = Abs_Register 28"
definition EAX :: Register where "EAX = Abs_Register 37"
definition ECX :: Register where "ECX = Abs_Register 38"
definition EDX :: Register where "EDX = Abs_Register 39"
definition ESP :: Register where "ESP = Abs_Register 41"
definition EBP :: Register where "EBP = Abs_Register 42"
definition ESI :: Register where "ESI = Abs_Register 43"
definition EDI :: Register where "EDI = Abs_Register 44"
definition R15D :: Register where "R15D = Abs_Register 52"
definition RAX :: Register where "RAX = Abs_Register 53"
definition RSP :: Register where "RSP = Abs_Register 57"
definition RBP :: Register where "RBP = Abs_Register 58"
definition RSI :: Register where "RSI = Abs_Register 59"
definition RDI :: Register where "RDI = Abs_Register 60"
definition R15 :: Register where "R15 = Abs_Register 68"
definition EIP :: Register where "EIP = Abs_Register 69"
definition RIP :: Register where "RIP = Abs_Register 70"
definition ES :: Register where "ES = Abs_Register 71"
definition CS :: Register where "CS = Abs_Register 72"
definition SS :: Register where "SS = Abs_Register 73"
definition DS :: Register where "DS = Abs_Register 74"
definition FS :: Register where "FS = Abs_Register 75"
definition GS :: Register where "GS = Abs_Register 76"
definition XMM0 :: Register where "XMM0 = Abs_Register 77"
definition K0 :: Register where "K0 = Abs_Register 173"
definition K1 :: Register where "K1 = Abs_Register 174"
definition K3 :: Register where "K3 = Abs_Register 176"
definition K7 :: Register where "K7 = Abs_Register 180"
definition TR7 :: Register where "TR7 = Abs_Register 240"

text \<open>The enum is \<open>#[derive(Ord)]\<close>: registers compare by ordinal.\<close>

instantiation Register :: linorder
begin

definition less_eq_Register :: "Register \<Rightarrow> Register \<Rightarrow> bool" where
  "less_eq_Register r s \<longleftrightarrow> reg_ord r \<le> reg_ord s"

definition less_Register :: "Register \<Rightarrow> Register \<Rightarrow> bool" where
  "less_Register r s \<longleftrightarrow> reg_ord r < reg_ord s"

instance
  by standard (auto simp: less_eq_Register_def less_Register_def reg_ord_inject [symmetric])

end

subsection \<open>Storage as \<open>u8\<close>\<close>

text \<open>\<open>new_value as u8\<close> when a register is stored, \<open>transmute(u8)\<close> when it is read.\<close>

definition reg_to_u8 :: "Register \<Rightarrow> u8" where
  "reg_to_u8 r = of_nat (reg_ord r)"

definition reg_of_u8 :: "u8 \<Rightarrow> Register" where
  "reg_of_u8 b = Abs_Register (unat b)"

subsection \<open>Ordinal arithmetic: \<open>Register::add\<close>, \<open>Register::sub\<close>\<close>

text \<open>
  \<open>(self as u32).wrapping_add(rhs)\<close>, then a range check against
  \<open>NUMBER_OF_REGISTERS\<close>: in range, \<open>transmute(result as u8)\<close>; out of range,
  \<open>panic!("NYI")\<close>. The operator impls \<open>Register + i32\<close>, \<open>i32 + Register\<close>,
  \<open>Register + u32\<close>, \<open>+=\<close> (and the same for \<open>-\<close>) all call these two with
  \<open>rhs as u32\<close>, which keeps the bits of an \<open>i32\<close>.
\<close>

definition register_add :: "Register \<Rightarrow> u32 \<Rightarrow> Register result" where
  "register_add self rhs =
     (let result = (of_nat (reg_ord self) :: u32) + rhs in
      if result < of_nat NUMBER_OF_REGISTERS then Inr (Abs_Register (unat (ucast result :: u8)))
      else Inl NYI)"

definition register_sub :: "Register \<Rightarrow> u32 \<Rightarrow> Register result" where
  "register_sub self rhs =
     (let result = (of_nat (reg_ord self) :: u32) - rhs in
      if result < of_nat NUMBER_OF_REGISTERS then Inr (Abs_Register (unat (ucast result :: u8)))
      else Inl NYI)"

text \<open>The operator impls \<open>Register + i32\<close>, \<open>i32 + Register\<close>, \<open>u32 + Register\<close> and
  \<open>Register - i32\<close> (lines 299-322, 343-350) pass the offset \<open>as u32\<close>, which keeps the bits.\<close>

definition register_add_i32 :: "Register \<Rightarrow> i32 \<Rightarrow> Register result" where
  "register_add_i32 self rhs = register_add self (word_of_int rhs)"

definition i32_add_register :: "i32 \<Rightarrow> Register \<Rightarrow> Register result" where
  "i32_add_register self rhs = register_add rhs (word_of_int self)"

definition u32_add_register :: "u32 \<Rightarrow> Register \<Rightarrow> Register result" where
  "u32_add_register self rhs = register_add rhs self"

definition register_sub_i32 :: "Register \<Rightarrow> i32 \<Rightarrow> Register result" where
  "register_sub_i32 self rhs = register_sub self (word_of_int rhs)"

text \<open>\<open>Register + u32\<close> (323-330), \<open>Register - u32\<close> (351-358) and the compound assignments
  \<open>+=\<close>/\<open>-=\<close> (331-342, 359-370), which replace \<open>*self\<close> by the result: explicit state
  passing of the one register variable.\<close>

definition register_add_u32 :: "Register \<Rightarrow> u32 \<Rightarrow> Register result" where
  "register_add_u32 self rhs = register_add self rhs"

definition register_sub_u32 :: "Register \<Rightarrow> u32 \<Rightarrow> Register result" where
  "register_sub_u32 self rhs = register_sub self rhs"

definition register_add_assign_i32 :: "i32 \<Rightarrow> Register \<Rightarrow> Register result" where
  "register_add_assign_i32 rhs self = register_add self (word_of_int rhs)"

definition register_add_assign_u32 :: "u32 \<Rightarrow> Register \<Rightarrow> Register result" where
  "register_add_assign_u32 rhs self = register_add self rhs"

definition register_sub_assign_i32 :: "i32 \<Rightarrow> Register \<Rightarrow> Register result" where
  "register_sub_assign_i32 rhs self = register_sub self (word_of_int rhs)"

definition register_sub_assign_u32 :: "u32 \<Rightarrow> Register \<Rightarrow> Register result" where
  "register_sub_assign_u32 rhs self = register_sub self rhs"

text \<open>A straight-line sequence of compound assignments \<open>r += d\<close> / \<open>r -= d\<close> on one
  register variable, run left to right, each step panicking on its own range check. The
  integer reading \<open>assign_delta\<close> of each step and the range condition on every
  intermediate ordinal are the abstract counterpart.\<close>

datatype RegAssign = AddAssignI32 i32 | AddAssignU32 u32 | SubAssignI32 i32 | SubAssignU32 u32

primrec reg_assign_step :: "RegAssign \<Rightarrow> Register \<Rightarrow> Register result" where
  "reg_assign_step (AddAssignI32 d) r = register_add_assign_i32 d r"
| "reg_assign_step (AddAssignU32 d) r = register_add_assign_u32 d r"
| "reg_assign_step (SubAssignI32 d) r = register_sub_assign_i32 d r"
| "reg_assign_step (SubAssignU32 d) r = register_sub_assign_u32 d r"

fun reg_assign_run :: "RegAssign list \<Rightarrow> Register \<Rightarrow> Register result" where
  "reg_assign_run [] r = Inr r"
| "reg_assign_run (a # as) r = rbind (reg_assign_step a r) (reg_assign_run as)"

primrec assign_delta :: "RegAssign \<Rightarrow> int" where
  "assign_delta (AddAssignI32 d) = sint (word_of_int d :: u32)"
| "assign_delta (AddAssignU32 d) = sint d"
| "assign_delta (SubAssignI32 d) = - sint (word_of_int d :: u32)"
| "assign_delta (SubAssignU32 d) = - sint d"

fun ordinals_in_range :: "int \<Rightarrow> RegAssign list \<Rightarrow> bool" where
  "ordinals_in_range k [] = True"
| "ordinals_in_range k (a # as) =
     (0 \<le> k + assign_delta a \<and> k + assign_delta a < int NUMBER_OF_REGISTERS \<and>
      ordinals_in_range (k + assign_delta a) as)"

subsection \<open>Ordinals\<close>

lemma length_register_names: "length register_names = NUMBER_OF_REGISTERS"
  by (simp add: register_names_def NUMBER_OF_REGISTERS_def)

lemma reg_ord_less [simp]: "reg_ord r < NUMBER_OF_REGISTERS"
  using reg_ord by simp

lemma reg_ord_less_241 [simp]: "reg_ord r < 241"
  using reg_ord_less [of r] by (simp add: NUMBER_OF_REGISTERS_def)

lemma reg_ord_Abs [simp]: "n < 241 \<Longrightarrow> reg_ord (Abs_Register n) = n"
  by (simp add: Abs_Register_inverse NUMBER_OF_REGISTERS_def)

lemma Abs_Register_inject_241 [simp]:
  "n < 241 \<Longrightarrow> m < 241 \<Longrightarrow> (Abs_Register n = Abs_Register m) = (n = m)"
  by (simp add: Abs_Register_inject NUMBER_OF_REGISTERS_def)

lemma Abs_reg_ord [simp]: "Abs_Register (reg_ord r) = r"
  by (fact reg_ord_inverse)

lemma reg_ord_eq_iff: "(r = s) = (reg_ord r = reg_ord s)"
  by (simp add: reg_ord_inject)

text \<open>Every named constant is the variant of that name in the enum table.\<close>

lemma register_constants_named:
  "register_name Reg_None = ''None'' \<and>
   register_name AL = ''AL'' \<and>
   register_name CL = ''CL'' \<and>
   register_name DL = ''DL'' \<and>
   register_name BH = ''BH'' \<and>
   register_name R15L = ''R15L'' \<and>
   register_name BX = ''BX'' \<and>
   register_name SP = ''SP'' \<and>
   register_name BP = ''BP'' \<and>
   register_name SI = ''SI'' \<and>
   register_name DI = ''DI'' \<and>
   register_name EAX = ''EAX'' \<and>
   register_name ECX = ''ECX'' \<and>
   register_name EDX = ''EDX'' \<and>
   register_name ESP = ''ESP'' \<and>
   register_name EBP = ''EBP'' \<and>
   register_name ESI = ''ESI'' \<and>
   register_name EDI = ''EDI'' \<and>
   register_name R15D = ''R15D'' \<and>
   register_name RAX = ''RAX'' \<and>
   register_name RSP = ''RSP'' \<and>
   register_name RBP = ''RBP'' \<and>
   register_name RSI = ''RSI'' \<and>
   register_name RDI = ''RDI'' \<and>
   register_name R15 = ''R15'' \<and>
   register_name EIP = ''EIP'' \<and>
   register_name RIP = ''RIP'' \<and>
   register_name ES = ''ES'' \<and>
   register_name CS = ''CS'' \<and>
   register_name SS = ''SS'' \<and>
   register_name DS = ''DS'' \<and>
   register_name FS = ''FS'' \<and>
   register_name GS = ''GS'' \<and>
   register_name XMM0 = ''XMM0'' \<and>
   register_name K0 = ''K0'' \<and>
   register_name K1 = ''K1'' \<and>
   register_name K3 = ''K3'' \<and>
   register_name K7 = ''K7'' \<and>
   register_name TR7 = ''TR7''"
  by (simp add: register_name_def register_names_def Reg_None_def AL_def CL_def DL_def BH_def R15L_def BX_def SP_def BP_def SI_def DI_def EAX_def ECX_def EDX_def ESP_def EBP_def ESI_def EDI_def R15D_def RAX_def RSP_def RBP_def RSI_def RDI_def R15_def EIP_def RIP_def ES_def CS_def SS_def DS_def FS_def GS_def XMM0_def K0_def K1_def K3_def K7_def TR7_def)

subsection \<open>Storage and arithmetic\<close>

lemma unat_reg_to_u8 [simp]: "unat (reg_to_u8 r) = reg_ord r"
proof -
  have "reg_ord r < 256"
    using reg_ord_less_241 [of r] by linarith
  then show ?thesis
    by (simp add: reg_to_u8_def unat_of_nat)
qed

lemma reg_of_u8_to_u8 [simp]: "reg_of_u8 (reg_to_u8 r) = r"
  by (simp add: reg_of_u8_def)

lemma reg_to_u8_inj [simp]: "(reg_to_u8 r = reg_to_u8 s) = (r = s)"
  by (metis reg_of_u8_to_u8)


text \<open>
  The 32-bit wrap-around of \<open>wrapping_add\<close> and \<open>wrapping_sub\<close>, read through the
  signed value of the offset: the unsigned result is the signed sum modulo \<open>2^32\<close>.
\<close>

lemma uint_of_nat_plus_sint:
  "uint ((of_nat n :: u32) + d) = (int n + sint d) mod 2 ^ 32"
proof -
  have a: "uint d = sint d mod 2 ^ 32"
    by (simp add: uint_sint take_bit_eq_mod)
  have "uint ((of_nat n :: u32) + d) = (uint (of_nat n :: u32) + uint d) mod 2 ^ 32"
    by (simp add: uint_word_ariths take_bit_eq_mod)
  also have "uint (of_nat n :: u32) = int n mod 2 ^ 32"
    by (simp add: unsigned_of_nat take_bit_eq_mod zmod_int)
  finally show ?thesis
    using a by (simp add: mod_add_eq)
qed

lemma uint_of_nat_minus_sint:
  "uint ((of_nat n :: u32) - d) = (int n - sint d) mod 2 ^ 32"
proof -
  have a: "uint d = sint d mod 2 ^ 32"
    by (simp add: uint_sint take_bit_eq_mod)
  have "uint ((of_nat n :: u32) - d) = (uint (of_nat n :: u32) - uint d) mod 2 ^ 32"
    by (simp add: uint_word_ariths take_bit_eq_mod)
  also have "uint (of_nat n :: u32) = int n mod 2 ^ 32"
    by (simp add: unsigned_of_nat take_bit_eq_mod zmod_int)
  finally show ?thesis
    using a by (simp add: mod_diff_eq)
qed

lemma in_range_mod_2_32:
  fixes k :: int
  assumes "- (2 ^ 31) \<le> k" "k < 2 ^ 31 + 241"
  shows "(k mod 2 ^ 32 < 241) = (0 \<le> k \<and> k < 241)"
proof (cases "0 \<le> k")
  case True
  with assms have "k mod 2 ^ 32 = k" by (simp add: mod_pos_pos_trivial)
  then show ?thesis using True by simp
next
  case False
  have "k mod 2 ^ 32 = (k + 2 ^ 32) mod 2 ^ 32" by simp
  also have "\<dots> = k + 2 ^ 32"
    using False assms by (intro mod_pos_pos_trivial) simp_all
  finally show ?thesis using False assms by simp
qed

text \<open>The range check and conversion that \<open>add\<close> and \<open>sub\<close> share, on the signed sum.\<close>

lemma register_range_check:
  fixes res :: u32
  assumes u: "uint res = k mod 2 ^ 32" and kb1: "- (2 ^ 31) \<le> k" and kb2: "k < 2 ^ 31 + 241"
  shows "(if res < of_nat NUMBER_OF_REGISTERS then Inr (Abs_Register (unat (ucast res :: u8)))
          else Inl NYI)
       = (if 0 \<le> k \<and> k < int NUMBER_OF_REGISTERS then Inr (Abs_Register (nat k)) else Inl NYI)"
proof -
  have lt: "(res < of_nat NUMBER_OF_REGISTERS) = (0 \<le> k \<and> k < 241)"
  proof -
    have "(res < of_nat NUMBER_OF_REGISTERS) = (uint res < 241)"
      by (simp add: word_less_def NUMBER_OF_REGISTERS_def)
    then show ?thesis
      using in_range_mod_2_32 [OF kb1 kb2] u by simp
  qed
  show ?thesis
  proof (cases "0 \<le> k \<and> k < 241")
    case True
    then have "uint res = k"
      using u by (simp add: mod_pos_pos_trivial)
    then have "unat res = nat k"
      by (simp add: unat_eq_nat_uint)
    moreover have "nat k < 256"
      using True by linarith
    ultimately have "unat (ucast res :: u8) = nat k"
      by (simp add: unsigned_ucast_eq take_bit_eq_mod)
    with True lt show ?thesis
      by (simp add: NUMBER_OF_REGISTERS_def)
  next
    case False
    with lt show ?thesis
      by (simp add: NUMBER_OF_REGISTERS_def)
  qed
qed

lemma sint_u32_bounds: "- (2 ^ 31) \<le> sint (d::u32)" "sint (d::u32) < 2 ^ 31"
  using sint_ge [of d] sint_lt [of d] by simp_all

text \<open>\<open>Register::add\<close> reads its \<open>u32\<close> offset as signed: the register at the summed
  ordinal when that is in range, a panic otherwise.\<close>

lemma register_add_sint:
  "register_add r d =
     (let k = int (reg_ord r) + sint d in
      if 0 \<le> k \<and> k < int NUMBER_OF_REGISTERS then Inr (Abs_Register (nat k)) else Inl NYI)"
proof -
  have kb1: "- (2 ^ 31) \<le> int (reg_ord r) + sint d"
    using sint_u32_bounds(1) [of d] by linarith
  have kb2: "int (reg_ord r) + sint d < 2 ^ 31 + 241"
    using sint_u32_bounds(2) [of d] reg_ord_less_241 [of r] by linarith
  show ?thesis
    unfolding register_add_def Let_def
    by (rule register_range_check [OF uint_of_nat_plus_sint kb1 kb2])
qed

lemma register_sub_sint:
  "register_sub r d =
     (let k = int (reg_ord r) - sint d in
      if 0 \<le> k \<and> k < int NUMBER_OF_REGISTERS then Inr (Abs_Register (nat k)) else Inl NYI)"
proof -
  have kb1: "- (2 ^ 31) \<le> int (reg_ord r) - sint d"
    using sint_u32_bounds(2) [of d] by linarith
  have kb2: "int (reg_ord r) - sint d < 2 ^ 31 + 241"
    using sint_u32_bounds(1) [of d] reg_ord_less_241 [of r] by linarith
  show ?thesis
    unfolding register_sub_def Let_def
    by (rule register_range_check [OF uint_of_nat_minus_sint kb1 kb2])
qed

lemma sint_word_of_int_i32:
  "- (2 ^ 31) \<le> d \<Longrightarrow> d < 2 ^ 31 \<Longrightarrow> sint (word_of_int d :: u32) = d"
  by (simp add: int_word_sint mod_pos_pos_trivial)

lemma register_add_i32_eq:
  assumes "- (2 ^ 31) \<le> d" "d < 2 ^ 31"
  shows "register_add_i32 r d =
     (if 0 \<le> int (reg_ord r) + d \<and> int (reg_ord r) + d < int NUMBER_OF_REGISTERS
      then Inr (Abs_Register (nat (int (reg_ord r) + d))) else Inl NYI)"
  using sint_word_of_int_i32 [OF assms]
  by (simp add: register_add_i32_def register_add_sint Let_def)

lemma register_sub_i32_eq:
  assumes "- (2 ^ 31) \<le> d" "d < 2 ^ 31"
  shows "register_sub_i32 r d =
     (if 0 \<le> int (reg_ord r) - d \<and> int (reg_ord r) - d < int NUMBER_OF_REGISTERS
      then Inr (Abs_Register (nat (int (reg_ord r) - d))) else Inl NYI)"
  using sint_word_of_int_i32 [OF assms]
  by (simp add: register_sub_i32_def register_sub_sint Let_def)

text \<open>A result read as a register has the ordinal it was built from.\<close>

lemma reg_ord_Abs_int:
  "0 \<le> k \<Longrightarrow> k < int NUMBER_OF_REGISTERS \<Longrightarrow> int (reg_ord (Abs_Register (nat k))) = k"
  by (simp add: NUMBER_OF_REGISTERS_def)

lemma Abs_Register_int_eq:
  "(if 0 \<le> k \<and> k < int NUMBER_OF_REGISTERS then Inr (Abs_Register (nat k)) else Inl e) = Inr s
   \<longleftrightarrow> int (reg_ord s) = k"
proof (cases "0 \<le> k \<and> k < int NUMBER_OF_REGISTERS")
  case True
  then have "(Abs_Register (nat k) = s) = (reg_ord s = nat k)"
    by (auto simp: reg_ord_eq_iff NUMBER_OF_REGISTERS_def)
  with True show ?thesis by auto
next
  case False
  then show ?thesis
    using reg_ord_less [of s] by auto
qed

text \<open>C2. \<open>Register + i32\<close>: for every \<open>i32\<close> offset \<open>d\<close>, the result is the register
  \<open>s\<close> exactly when the ordinal of \<open>s\<close> is the ordinal of the operand plus \<open>d\<close>, and it is a
  panic exactly when that sum is not an ordinal: the sum never wraps to another register.\<close>

theorem register_add_i32_spec:
  assumes "- (2 ^ 31) \<le> d" "d < 2 ^ 31"
  shows "(register_add_i32 r d = Inr s \<longleftrightarrow> int (reg_ord s) = int (reg_ord r) + d) \<and>
         (register_add_i32 r d = Inl NYI \<longleftrightarrow>
            \<not> (0 \<le> int (reg_ord r) + d \<and> int (reg_ord r) + d < int NUMBER_OF_REGISTERS))"
  using Abs_Register_int_eq [of "int (reg_ord r) + d" NYI s]
  by (simp add: register_add_i32_eq [OF assms])

lemma register_add_i32_spec_witness:
  "(register_add_i32 AL 7 = Inr BH \<longleftrightarrow> int (reg_ord BH) = int (reg_ord AL) + 7) \<and>
   (register_add_i32 AL 7 = Inl NYI \<longleftrightarrow>
      \<not> (0 \<le> int (reg_ord AL) + 7 \<and> int (reg_ord AL) + 7 < int NUMBER_OF_REGISTERS))"
  using register_add_i32_spec [of 7 AL BH] by simp

text \<open>C36. \<open>Register::add\<close> with a \<open>u32\<close> offset: the wrapping 32-bit sum reads the
  offset as signed, so the result is \<open>s\<close> exactly when the ordinal of \<open>s\<close> is the
  operand's ordinal plus the signed value of the offset.\<close>

theorem register_add_signed:
  "register_add r d = Inr s \<longleftrightarrow> int (reg_ord s) = int (reg_ord r) + sint d"
  using Abs_Register_int_eq [of "int (reg_ord r) + sint d" NYI s]
  by (simp add: register_add_sint Let_def)

text \<open>C3. Shifting a register by an \<open>i32\<close> offset and back returns the register: \<open>-\<close>
  undoes a \<open>+\<close> that did not panic.\<close>

theorem register_add_sub_i32:
  assumes "- (2 ^ 31) \<le> d" "d < 2 ^ 31" "register_add_i32 r d = Inr s"
  shows "register_sub_i32 s d = Inr r"
proof -
  have in_range: "0 \<le> int (reg_ord r) + d \<and> int (reg_ord r) + d < int NUMBER_OF_REGISTERS"
    and s: "s = Abs_Register (nat (int (reg_ord r) + d))"
    using assms(3) register_add_i32_eq [OF assms(1,2), of r] by (auto split: if_splits)
  then have "int (reg_ord s) - d = int (reg_ord r)"
    by (simp add: reg_ord_Abs_int)
  then show ?thesis
    using register_sub_i32_eq [OF assms(1,2), of s] by simp
qed

lemma register_add_sub_i32_witness:
  "register_add_i32 EAX 1 = Inr ECX \<and> register_sub_i32 ECX 1 = Inr EAX"
proof -
  have add: "register_add_i32 EAX 1 = Inr ECX"
    using register_add_i32_eq [of 1 EAX]
    by (simp add: EAX_def ECX_def NUMBER_OF_REGISTERS_def)
  show ?thesis
    using add register_add_sub_i32 [of 1 EAX ECX, OF _ _ add] by simp
qed

subsection \<open>Operator impls and compound assignment\<close>

lemma reg_assign_step_delta:
  "reg_assign_step a r =
     (let k = int (reg_ord r) + assign_delta a in
      if 0 \<le> k \<and> k < int NUMBER_OF_REGISTERS then Inr (Abs_Register (nat k)) else Inl NYI)"
  by (cases a) (simp_all add: register_add_assign_i32_def register_add_assign_u32_def
      register_sub_assign_i32_def register_sub_assign_u32_def register_add_sint register_sub_sint)

text \<open>C13. A sequence of compound assignments \<open>r += d\<close> / \<open>r -= d\<close> on a register
  computes the register at the start ordinal plus the sum of the signed offsets, and
  panics exactly when some intermediate ordinal leaves 0..240 (each step checks its own
  range).\<close>

theorem reg_assign_run_ordinals:
  "reg_assign_run as r =
     (if ordinals_in_range (int (reg_ord r)) as
      then Inr (Abs_Register (nat (int (reg_ord r) + sum_list (map assign_delta as)))) else Inl NYI)"
proof (induction as arbitrary: r)
  case Nil
  then show ?case by simp
next
  case (Cons a as)
  show ?case
  proof (cases "0 \<le> int (reg_ord r) + assign_delta a \<and> int (reg_ord r) + assign_delta a < int NUMBER_OF_REGISTERS")
    case True
    then have "int (reg_ord (Abs_Register (nat (int (reg_ord r) + assign_delta a)))) = int (reg_ord r) + assign_delta a"
      by (simp add: reg_ord_Abs_int)
    with True show ?thesis
      by (simp add: reg_assign_step_delta Let_def Cons.IH algebra_simps)
  next
    case False
    then show ?thesis
      by (auto simp: reg_assign_step_delta Let_def)
  qed
qed

text \<open>Ordering matters: \<open>None - 1 + 1\<close> panics at the first step while
  \<open>None + 1 - 1\<close> is \<open>None\<close>; \<open>AL += 0xFFFF_FFFF\<close> wraps to \<open>None\<close> and then
  \<open>+= 2\<close> gives \<open>CL\<close>.\<close>

theorem reg_assign_order_matters:
  "reg_assign_run [SubAssignI32 1, AddAssignI32 1] Reg_None = Inl NYI \<and>
   reg_assign_run [AddAssignI32 1, SubAssignI32 1] Reg_None = Inr Reg_None \<and>
   reg_assign_run [AddAssignU32 0xFFFFFFFF, AddAssignI32 2] AL = Inr CL"
  by (simp add: reg_assign_run_ordinals NUMBER_OF_REGISTERS_def Reg_None_def AL_def CL_def)

text \<open>The \<open>u32\<close> operator forms agree with the \<open>i32\<close> forms on the signed reading
  of the offset: \<open>r + u\<close>, \<open>r - u\<close>, \<open>r += u\<close> and \<open>r -= u\<close> equal the \<open>i32\<close>
  operation with \<open>u as i32\<close>.\<close>

theorem register_u32_ops_signed:
  "register_add_u32 r u = register_add_i32 r (sint u) \<and> register_sub_u32 r u = register_sub_i32 r (sint u) \<and>
   register_add_assign_u32 u r = register_add_assign_i32 (sint u) r \<and>
   register_sub_assign_u32 u r = register_sub_assign_i32 (sint u) r"
  by (simp add: register_add_u32_def register_sub_u32_def register_add_i32_def register_sub_i32_def
      register_add_assign_u32_def register_add_assign_i32_def register_sub_assign_u32_def
      register_sub_assign_i32_def scast_eq [symmetric])

end
