(* ===== verification/MemorySize.thy ===== *)
theory MemorySize
  imports Register
begin

text \<open>
  The memory-operand sizes of \<open>memorysize.rs\<close>: the enumeration \<open>MemorySize\<close>
  (136 variants: scalars, segment pointers, FPU state blocks, packed vectors, and a
  final block of broadcast variants), the static table \<open>MEMORY_SIZE_INFOS\<close> that
  gives each variant's size, element size, element type, signedness and broadcast
  flag, the accessors of \<open>MemorySizeInfo\<close>, and those of \<open>MemorySize\<close>, which go
  through the table except \<open>is_broadcast\<close>, an ordinal comparison with
  \<open>FIRST_BROADCAST_MEMORY_SIZE\<close>. As for \<open>Register\<close>, the enum is the type of its
  ordinals with the generated body kept as a table of names.
\<close>

subsection \<open>The enumeration and the table\<close>

definition NUMBER_OF_MEMORY_SIZES :: nat where
  "NUMBER_OF_MEMORY_SIZES = 136"

definition memory_size_names :: "string list" where
  "memory_size_names =
    [''Unknown'', ''UInt8'', ''UInt16'', ''UInt32'', ''UInt52'', ''UInt64'',
     ''UInt128'', ''UInt256'', ''UInt512'', ''Int8'', ''Int16'', ''Int32'',
     ''Int64'', ''Int128'', ''Int256'', ''Int512'', ''SegPtr16'', ''SegPtr32'',
     ''SegPtr64'', ''WordOffset'', ''DwordOffset'', ''QwordOffset'', ''Bound16_WordWord'', ''Bound32_DwordDword'',
     ''Bnd32'', ''Bnd64'', ''Fword6'', ''Fword10'', ''Float16'', ''Float32'',
     ''Float64'', ''Float80'', ''Float128'', ''BFloat16'', ''FpuEnv14'', ''FpuEnv28'',
     ''FpuState94'', ''FpuState108'', ''Fxsave_512Byte'', ''Fxsave64_512Byte'', ''Xsave'', ''Xsave64'',
     ''Bcd'', ''Packed16_UInt8'', ''Packed16_Int8'', ''Packed32_UInt8'', ''Packed32_Int8'', ''Packed32_UInt16'',
     ''Packed32_Int16'', ''Packed32_BFloat16'', ''Packed64_UInt8'', ''Packed64_Int8'', ''Packed64_UInt16'', ''Packed64_Int16'',
     ''Packed64_UInt32'', ''Packed64_Int32'', ''Packed64_Float16'', ''Packed64_Float32'', ''Packed128_UInt8'', ''Packed128_Int8'',
     ''Packed128_UInt16'', ''Packed128_Int16'', ''Packed128_UInt32'', ''Packed128_Int32'', ''Packed128_UInt52'', ''Packed128_UInt64'',
     ''Packed128_Int64'', ''Packed128_Float16'', ''Packed128_Float32'', ''Packed128_Float64'', ''Packed128_2xBFloat16'', ''Packed256_UInt8'',
     ''Packed256_Int8'', ''Packed256_UInt16'', ''Packed256_Int16'', ''Packed256_UInt32'', ''Packed256_Int32'', ''Packed256_UInt52'',
     ''Packed256_UInt64'', ''Packed256_Int64'', ''Packed256_UInt128'', ''Packed256_Int128'', ''Packed256_Float16'', ''Packed256_Float32'',
     ''Packed256_Float64'', ''Packed256_Float128'', ''Packed256_2xBFloat16'', ''Packed512_UInt8'', ''Packed512_Int8'', ''Packed512_UInt16'',
     ''Packed512_Int16'', ''Packed512_UInt32'', ''Packed512_Int32'', ''Packed512_UInt52'', ''Packed512_UInt64'', ''Packed512_Int64'',
     ''Packed512_UInt128'', ''Packed512_Float32'', ''Packed512_Float64'', ''Packed512_2xBFloat16'', ''Broadcast64_UInt32'', ''Broadcast64_Int32'',
     ''Broadcast64_Float32'', ''Broadcast128_UInt32'', ''Broadcast128_Int32'', ''Broadcast128_UInt52'', ''Broadcast128_UInt64'', ''Broadcast128_Int64'',
     ''Broadcast128_Float32'', ''Broadcast128_Float64'', ''Broadcast256_UInt32'', ''Broadcast256_Int32'', ''Broadcast256_UInt52'', ''Broadcast256_UInt64'',
     ''Broadcast256_Int64'', ''Broadcast256_Float32'', ''Broadcast256_Float64'', ''Broadcast512_UInt32'', ''Broadcast512_Int32'', ''Broadcast512_UInt52'',
     ''Broadcast512_UInt64'', ''Broadcast512_Int64'', ''Broadcast512_Float32'', ''Broadcast512_Float64'', ''Broadcast128_2xInt16'', ''Broadcast256_2xInt16'',
     ''Broadcast512_2xInt16'', ''Broadcast128_2xUInt32'', ''Broadcast256_2xUInt32'', ''Broadcast512_2xUInt32'', ''Broadcast128_2xInt32'', ''Broadcast256_2xInt32'',
     ''Broadcast512_2xInt32'', ''Broadcast128_2xBFloat16'', ''Broadcast256_2xBFloat16'', ''Broadcast512_2xBFloat16'']"

typedef MemorySize = "{n::nat. n < NUMBER_OF_MEMORY_SIZES}"
  morphisms ms_ord Abs_MemorySize
  by (rule exI [of _ 0]) (simp add: NUMBER_OF_MEMORY_SIZES_def)

definition memory_size_name :: "MemorySize \<Rightarrow> string" where
  "memory_size_name m = memory_size_names ! ms_ord m"

text \<open>\<open>IcedConstants::FIRST_BROADCAST_MEMORY_SIZE\<close>, the variant \<open>Broadcast64_UInt32\<close>.\<close>

definition FIRST_BROADCAST_MEMORY_SIZE :: MemorySize where
  "FIRST_BROADCAST_MEMORY_SIZE = Abs_MemorySize 100"

instantiation MemorySize :: linorder
begin

definition less_eq_MemorySize :: "MemorySize \<Rightarrow> MemorySize \<Rightarrow> bool" where
  "less_eq_MemorySize a b \<longleftrightarrow> ms_ord a \<le> ms_ord b"

definition less_MemorySize :: "MemorySize \<Rightarrow> MemorySize \<Rightarrow> bool" where
  "less_MemorySize a b \<longleftrightarrow> ms_ord a < ms_ord b"

instance
  by standard (auto simp: less_eq_MemorySize_def less_MemorySize_def ms_ord_inject [symmetric])

end

text \<open>The struct \<open>MemorySizeInfo\<close>; \<open>memory_size\<close> and \<open>element_type\<close> hold ordinals.\<close>

record MemorySizeInfo =
  msi_size :: u16
  msi_element_size :: u16
  msi_memory_size :: u8
  msi_element_type :: u8
  msi_is_signed :: bool
  msi_is_broadcast :: bool

definition MEMORY_SIZE_INFOS :: "MemorySizeInfo list" where
  "MEMORY_SIZE_INFOS =
    [\<lparr>msi_size = 0, msi_element_size = 0, msi_memory_size = 0, msi_element_type = 0, msi_is_signed = False, msi_is_broadcast = False\<rparr>,
     \<lparr>msi_size = 1, msi_element_size = 1, msi_memory_size = 1, msi_element_type = 1, msi_is_signed = False, msi_is_broadcast = False\<rparr>,
     \<lparr>msi_size = 2, msi_element_size = 2, msi_memory_size = 2, msi_element_type = 2, msi_is_signed = False, msi_is_broadcast = False\<rparr>,
     \<lparr>msi_size = 4, msi_element_size = 4, msi_memory_size = 3, msi_element_type = 3, msi_is_signed = False, msi_is_broadcast = False\<rparr>,
     \<lparr>msi_size = 8, msi_element_size = 8, msi_memory_size = 4, msi_element_type = 4, msi_is_signed = False, msi_is_broadcast = False\<rparr>,
     \<lparr>msi_size = 8, msi_element_size = 8, msi_memory_size = 5, msi_element_type = 5, msi_is_signed = False, msi_is_broadcast = False\<rparr>,
     \<lparr>msi_size = 16, msi_element_size = 16, msi_memory_size = 6, msi_element_type = 6, msi_is_signed = False, msi_is_broadcast = False\<rparr>,
     \<lparr>msi_size = 32, msi_element_size = 32, msi_memory_size = 7, msi_element_type = 7, msi_is_signed = False, msi_is_broadcast = False\<rparr>,
     \<lparr>msi_size = 64, msi_element_size = 64, msi_memory_size = 8, msi_element_type = 8, msi_is_signed = False, msi_is_broadcast = False\<rparr>,
     \<lparr>msi_size = 1, msi_element_size = 1, msi_memory_size = 9, msi_element_type = 9, msi_is_signed = True, msi_is_broadcast = False\<rparr>,
     \<lparr>msi_size = 2, msi_element_size = 2, msi_memory_size = 10, msi_element_type = 10, msi_is_signed = True, msi_is_broadcast = False\<rparr>,
     \<lparr>msi_size = 4, msi_element_size = 4, msi_memory_size = 11, msi_element_type = 11, msi_is_signed = True, msi_is_broadcast = False\<rparr>,
     \<lparr>msi_size = 8, msi_element_size = 8, msi_memory_size = 12, msi_element_type = 12, msi_is_signed = True, msi_is_broadcast = False\<rparr>,
     \<lparr>msi_size = 16, msi_element_size = 16, msi_memory_size = 13, msi_element_type = 13, msi_is_signed = True, msi_is_broadcast = False\<rparr>,
     \<lparr>msi_size = 32, msi_element_size = 32, msi_memory_size = 14, msi_element_type = 14, msi_is_signed = True, msi_is_broadcast = False\<rparr>,
     \<lparr>msi_size = 64, msi_element_size = 64, msi_memory_size = 15, msi_element_type = 15, msi_is_signed = True, msi_is_broadcast = False\<rparr>,
     \<lparr>msi_size = 4, msi_element_size = 4, msi_memory_size = 16, msi_element_type = 16, msi_is_signed = False, msi_is_broadcast = False\<rparr>,
     \<lparr>msi_size = 6, msi_element_size = 6, msi_memory_size = 17, msi_element_type = 17, msi_is_signed = False, msi_is_broadcast = False\<rparr>,
     \<lparr>msi_size = 10, msi_element_size = 10, msi_memory_size = 18, msi_element_type = 18, msi_is_signed = False, msi_is_broadcast = False\<rparr>,
     \<lparr>msi_size = 2, msi_element_size = 2, msi_memory_size = 19, msi_element_type = 19, msi_is_signed = False, msi_is_broadcast = False\<rparr>,
     \<lparr>msi_size = 4, msi_element_size = 4, msi_memory_size = 20, msi_element_type = 20, msi_is_signed = False, msi_is_broadcast = False\<rparr>,
     \<lparr>msi_size = 8, msi_element_size = 8, msi_memory_size = 21, msi_element_type = 21, msi_is_signed = False, msi_is_broadcast = False\<rparr>,
     \<lparr>msi_size = 4, msi_element_size = 4, msi_memory_size = 22, msi_element_type = 22, msi_is_signed = False, msi_is_broadcast = False\<rparr>,
     \<lparr>msi_size = 8, msi_element_size = 8, msi_memory_size = 23, msi_element_type = 23, msi_is_signed = False, msi_is_broadcast = False\<rparr>,
     \<lparr>msi_size = 8, msi_element_size = 8, msi_memory_size = 24, msi_element_type = 24, msi_is_signed = False, msi_is_broadcast = False\<rparr>,
     \<lparr>msi_size = 16, msi_element_size = 16, msi_memory_size = 25, msi_element_type = 25, msi_is_signed = False, msi_is_broadcast = False\<rparr>,
     \<lparr>msi_size = 6, msi_element_size = 6, msi_memory_size = 26, msi_element_type = 26, msi_is_signed = False, msi_is_broadcast = False\<rparr>,
     \<lparr>msi_size = 10, msi_element_size = 10, msi_memory_size = 27, msi_element_type = 27, msi_is_signed = False, msi_is_broadcast = False\<rparr>,
     \<lparr>msi_size = 2, msi_element_size = 2, msi_memory_size = 28, msi_element_type = 28, msi_is_signed = True, msi_is_broadcast = False\<rparr>,
     \<lparr>msi_size = 4, msi_element_size = 4, msi_memory_size = 29, msi_element_type = 29, msi_is_signed = True, msi_is_broadcast = False\<rparr>,
     \<lparr>msi_size = 8, msi_element_size = 8, msi_memory_size = 30, msi_element_type = 30, msi_is_signed = True, msi_is_broadcast = False\<rparr>,
     \<lparr>msi_size = 10, msi_element_size = 10, msi_memory_size = 31, msi_element_type = 31, msi_is_signed = True, msi_is_broadcast = False\<rparr>,
     \<lparr>msi_size = 16, msi_element_size = 16, msi_memory_size = 32, msi_element_type = 32, msi_is_signed = True, msi_is_broadcast = False\<rparr>,
     \<lparr>msi_size = 2, msi_element_size = 2, msi_memory_size = 33, msi_element_type = 33, msi_is_signed = True, msi_is_broadcast = False\<rparr>,
     \<lparr>msi_size = 14, msi_element_size = 14, msi_memory_size = 34, msi_element_type = 34, msi_is_signed = False, msi_is_broadcast = False\<rparr>,
     \<lparr>msi_size = 28, msi_element_size = 28, msi_memory_size = 35, msi_element_type = 35, msi_is_signed = False, msi_is_broadcast = False\<rparr>,
     \<lparr>msi_size = 94, msi_element_size = 94, msi_memory_size = 36, msi_element_type = 36, msi_is_signed = False, msi_is_broadcast = False\<rparr>,
     \<lparr>msi_size = 108, msi_element_size = 108, msi_memory_size = 37, msi_element_type = 37, msi_is_signed = False, msi_is_broadcast = False\<rparr>,
     \<lparr>msi_size = 512, msi_element_size = 512, msi_memory_size = 38, msi_element_type = 38, msi_is_signed = False, msi_is_broadcast = False\<rparr>,
     \<lparr>msi_size = 512, msi_element_size = 512, msi_memory_size = 39, msi_element_type = 39, msi_is_signed = False, msi_is_broadcast = False\<rparr>,
     \<lparr>msi_size = 0, msi_element_size = 0, msi_memory_size = 40, msi_element_type = 40, msi_is_signed = False, msi_is_broadcast = False\<rparr>,
     \<lparr>msi_size = 0, msi_element_size = 0, msi_memory_size = 41, msi_element_type = 41, msi_is_signed = False, msi_is_broadcast = False\<rparr>,
     \<lparr>msi_size = 10, msi_element_size = 10, msi_memory_size = 42, msi_element_type = 42, msi_is_signed = True, msi_is_broadcast = False\<rparr>,
     \<lparr>msi_size = 2, msi_element_size = 1, msi_memory_size = 43, msi_element_type = 1, msi_is_signed = False, msi_is_broadcast = False\<rparr>,
     \<lparr>msi_size = 2, msi_element_size = 1, msi_memory_size = 44, msi_element_type = 9, msi_is_signed = True, msi_is_broadcast = False\<rparr>,
     \<lparr>msi_size = 4, msi_element_size = 1, msi_memory_size = 45, msi_element_type = 1, msi_is_signed = False, msi_is_broadcast = False\<rparr>,
     \<lparr>msi_size = 4, msi_element_size = 1, msi_memory_size = 46, msi_element_type = 9, msi_is_signed = True, msi_is_broadcast = False\<rparr>,
     \<lparr>msi_size = 4, msi_element_size = 2, msi_memory_size = 47, msi_element_type = 2, msi_is_signed = False, msi_is_broadcast = False\<rparr>,
     \<lparr>msi_size = 4, msi_element_size = 2, msi_memory_size = 48, msi_element_type = 10, msi_is_signed = True, msi_is_broadcast = False\<rparr>,
     \<lparr>msi_size = 4, msi_element_size = 2, msi_memory_size = 49, msi_element_type = 33, msi_is_signed = True, msi_is_broadcast = False\<rparr>,
     \<lparr>msi_size = 8, msi_element_size = 1, msi_memory_size = 50, msi_element_type = 1, msi_is_signed = False, msi_is_broadcast = False\<rparr>,
     \<lparr>msi_size = 8, msi_element_size = 1, msi_memory_size = 51, msi_element_type = 9, msi_is_signed = True, msi_is_broadcast = False\<rparr>,
     \<lparr>msi_size = 8, msi_element_size = 2, msi_memory_size = 52, msi_element_type = 2, msi_is_signed = False, msi_is_broadcast = False\<rparr>,
     \<lparr>msi_size = 8, msi_element_size = 2, msi_memory_size = 53, msi_element_type = 10, msi_is_signed = True, msi_is_broadcast = False\<rparr>,
     \<lparr>msi_size = 8, msi_element_size = 4, msi_memory_size = 54, msi_element_type = 3, msi_is_signed = False, msi_is_broadcast = False\<rparr>,
     \<lparr>msi_size = 8, msi_element_size = 4, msi_memory_size = 55, msi_element_type = 11, msi_is_signed = True, msi_is_broadcast = False\<rparr>,
     \<lparr>msi_size = 8, msi_element_size = 2, msi_memory_size = 56, msi_element_type = 28, msi_is_signed = True, msi_is_broadcast = False\<rparr>,
     \<lparr>msi_size = 8, msi_element_size = 4, msi_memory_size = 57, msi_element_type = 29, msi_is_signed = True, msi_is_broadcast = False\<rparr>,
     \<lparr>msi_size = 16, msi_element_size = 1, msi_memory_size = 58, msi_element_type = 1, msi_is_signed = False, msi_is_broadcast = False\<rparr>,
     \<lparr>msi_size = 16, msi_element_size = 1, msi_memory_size = 59, msi_element_type = 9, msi_is_signed = True, msi_is_broadcast = False\<rparr>,
     \<lparr>msi_size = 16, msi_element_size = 2, msi_memory_size = 60, msi_element_type = 2, msi_is_signed = False, msi_is_broadcast = False\<rparr>,
     \<lparr>msi_size = 16, msi_element_size = 2, msi_memory_size = 61, msi_element_type = 10, msi_is_signed = True, msi_is_broadcast = False\<rparr>,
     \<lparr>msi_size = 16, msi_element_size = 4, msi_memory_size = 62, msi_element_type = 3, msi_is_signed = False, msi_is_broadcast = False\<rparr>,
     \<lparr>msi_size = 16, msi_element_size = 4, msi_memory_size = 63, msi_element_type = 11, msi_is_signed = True, msi_is_broadcast = False\<rparr>,
     \<lparr>msi_size = 16, msi_element_size = 8, msi_memory_size = 64, msi_element_type = 4, msi_is_signed = False, msi_is_broadcast = False\<rparr>,
     \<lparr>msi_size = 16, msi_element_size = 8, msi_memory_size = 65, msi_element_type = 5, msi_is_signed = False, msi_is_broadcast = False\<rparr>,
     \<lparr>msi_size = 16, msi_element_size = 8, msi_memory_size = 66, msi_element_type = 12, msi_is_signed = True, msi_is_broadcast = False\<rparr>,
     \<lparr>msi_size = 16, msi_element_size = 2, msi_memory_size = 67, msi_element_type = 28, msi_is_signed = True, msi_is_broadcast = False\<rparr>,
     \<lparr>msi_size = 16, msi_element_size = 4, msi_memory_size = 68, msi_element_type = 29, msi_is_signed = True, msi_is_broadcast = False\<rparr>,
     \<lparr>msi_size = 16, msi_element_size = 8, msi_memory_size = 69, msi_element_type = 30, msi_is_signed = True, msi_is_broadcast = False\<rparr>,
     \<lparr>msi_size = 16, msi_element_size = 4, msi_memory_size = 70, msi_element_type = 49, msi_is_signed = True, msi_is_broadcast = False\<rparr>,
     \<lparr>msi_size = 32, msi_element_size = 1, msi_memory_size = 71, msi_element_type = 1, msi_is_signed = False, msi_is_broadcast = False\<rparr>,
     \<lparr>msi_size = 32, msi_element_size = 1, msi_memory_size = 72, msi_element_type = 9, msi_is_signed = True, msi_is_broadcast = False\<rparr>,
     \<lparr>msi_size = 32, msi_element_size = 2, msi_memory_size = 73, msi_element_type = 2, msi_is_signed = False, msi_is_broadcast = False\<rparr>,
     \<lparr>msi_size = 32, msi_element_size = 2, msi_memory_size = 74, msi_element_type = 10, msi_is_signed = True, msi_is_broadcast = False\<rparr>,
     \<lparr>msi_size = 32, msi_element_size = 4, msi_memory_size = 75, msi_element_type = 3, msi_is_signed = False, msi_is_broadcast = False\<rparr>,
     \<lparr>msi_size = 32, msi_element_size = 4, msi_memory_size = 76, msi_element_type = 11, msi_is_signed = True, msi_is_broadcast = False\<rparr>,
     \<lparr>msi_size = 32, msi_element_size = 8, msi_memory_size = 77, msi_element_type = 4, msi_is_signed = False, msi_is_broadcast = False\<rparr>,
     \<lparr>msi_size = 32, msi_element_size = 8, msi_memory_size = 78, msi_element_type = 5, msi_is_signed = False, msi_is_broadcast = False\<rparr>,
     \<lparr>msi_size = 32, msi_element_size = 8, msi_memory_size = 79, msi_element_type = 12, msi_is_signed = True, msi_is_broadcast = False\<rparr>,
     \<lparr>msi_size = 32, msi_element_size = 16, msi_memory_size = 80, msi_element_type = 6, msi_is_signed = False, msi_is_broadcast = False\<rparr>,
     \<lparr>msi_size = 32, msi_element_size = 16, msi_memory_size = 81, msi_element_type = 13, msi_is_signed = True, msi_is_broadcast = False\<rparr>,
     \<lparr>msi_size = 32, msi_element_size = 2, msi_memory_size = 82, msi_element_type = 28, msi_is_signed = True, msi_is_broadcast = False\<rparr>,
     \<lparr>msi_size = 32, msi_element_size = 4, msi_memory_size = 83, msi_element_type = 29, msi_is_signed = True, msi_is_broadcast = False\<rparr>,
     \<lparr>msi_size = 32, msi_element_size = 8, msi_memory_size = 84, msi_element_type = 30, msi_is_signed = True, msi_is_broadcast = False\<rparr>,
     \<lparr>msi_size = 32, msi_element_size = 16, msi_memory_size = 85, msi_element_type = 32, msi_is_signed = True, msi_is_broadcast = False\<rparr>,
     \<lparr>msi_size = 32, msi_element_size = 4, msi_memory_size = 86, msi_element_type = 49, msi_is_signed = True, msi_is_broadcast = False\<rparr>,
     \<lparr>msi_size = 64, msi_element_size = 1, msi_memory_size = 87, msi_element_type = 1, msi_is_signed = False, msi_is_broadcast = False\<rparr>,
     \<lparr>msi_size = 64, msi_element_size = 1, msi_memory_size = 88, msi_element_type = 9, msi_is_signed = True, msi_is_broadcast = False\<rparr>,
     \<lparr>msi_size = 64, msi_element_size = 2, msi_memory_size = 89, msi_element_type = 2, msi_is_signed = False, msi_is_broadcast = False\<rparr>,
     \<lparr>msi_size = 64, msi_element_size = 2, msi_memory_size = 90, msi_element_type = 10, msi_is_signed = True, msi_is_broadcast = False\<rparr>,
     \<lparr>msi_size = 64, msi_element_size = 4, msi_memory_size = 91, msi_element_type = 3, msi_is_signed = False, msi_is_broadcast = False\<rparr>,
     \<lparr>msi_size = 64, msi_element_size = 4, msi_memory_size = 92, msi_element_type = 11, msi_is_signed = True, msi_is_broadcast = False\<rparr>,
     \<lparr>msi_size = 64, msi_element_size = 8, msi_memory_size = 93, msi_element_type = 4, msi_is_signed = False, msi_is_broadcast = False\<rparr>,
     \<lparr>msi_size = 64, msi_element_size = 8, msi_memory_size = 94, msi_element_type = 5, msi_is_signed = False, msi_is_broadcast = False\<rparr>,
     \<lparr>msi_size = 64, msi_element_size = 8, msi_memory_size = 95, msi_element_type = 12, msi_is_signed = True, msi_is_broadcast = False\<rparr>,
     \<lparr>msi_size = 64, msi_element_size = 16, msi_memory_size = 96, msi_element_type = 6, msi_is_signed = False, msi_is_broadcast = False\<rparr>,
     \<lparr>msi_size = 64, msi_element_size = 4, msi_memory_size = 97, msi_element_type = 29, msi_is_signed = True, msi_is_broadcast = False\<rparr>,
     \<lparr>msi_size = 64, msi_element_size = 8, msi_memory_size = 98, msi_element_type = 30, msi_is_signed = True, msi_is_broadcast = False\<rparr>,
     \<lparr>msi_size = 64, msi_element_size = 4, msi_memory_size = 99, msi_element_type = 49, msi_is_signed = True, msi_is_broadcast = False\<rparr>,
     \<lparr>msi_size = 4, msi_element_size = 4, msi_memory_size = 100, msi_element_type = 3, msi_is_signed = False, msi_is_broadcast = True\<rparr>,
     \<lparr>msi_size = 4, msi_element_size = 4, msi_memory_size = 101, msi_element_type = 11, msi_is_signed = True, msi_is_broadcast = True\<rparr>,
     \<lparr>msi_size = 4, msi_element_size = 4, msi_memory_size = 102, msi_element_type = 29, msi_is_signed = True, msi_is_broadcast = True\<rparr>,
     \<lparr>msi_size = 4, msi_element_size = 4, msi_memory_size = 103, msi_element_type = 3, msi_is_signed = False, msi_is_broadcast = True\<rparr>,
     \<lparr>msi_size = 4, msi_element_size = 4, msi_memory_size = 104, msi_element_type = 11, msi_is_signed = True, msi_is_broadcast = True\<rparr>,
     \<lparr>msi_size = 8, msi_element_size = 8, msi_memory_size = 105, msi_element_type = 4, msi_is_signed = False, msi_is_broadcast = True\<rparr>,
     \<lparr>msi_size = 8, msi_element_size = 8, msi_memory_size = 106, msi_element_type = 5, msi_is_signed = False, msi_is_broadcast = True\<rparr>,
     \<lparr>msi_size = 8, msi_element_size = 8, msi_memory_size = 107, msi_element_type = 12, msi_is_signed = True, msi_is_broadcast = True\<rparr>,
     \<lparr>msi_size = 4, msi_element_size = 4, msi_memory_size = 108, msi_element_type = 29, msi_is_signed = True, msi_is_broadcast = True\<rparr>,
     \<lparr>msi_size = 8, msi_element_size = 8, msi_memory_size = 109, msi_element_type = 30, msi_is_signed = True, msi_is_broadcast = True\<rparr>,
     \<lparr>msi_size = 4, msi_element_size = 4, msi_memory_size = 110, msi_element_type = 3, msi_is_signed = False, msi_is_broadcast = True\<rparr>,
     \<lparr>msi_size = 4, msi_element_size = 4, msi_memory_size = 111, msi_element_type = 11, msi_is_signed = True, msi_is_broadcast = True\<rparr>,
     \<lparr>msi_size = 8, msi_element_size = 8, msi_memory_size = 112, msi_element_type = 4, msi_is_signed = False, msi_is_broadcast = True\<rparr>,
     \<lparr>msi_size = 8, msi_element_size = 8, msi_memory_size = 113, msi_element_type = 5, msi_is_signed = False, msi_is_broadcast = True\<rparr>,
     \<lparr>msi_size = 8, msi_element_size = 8, msi_memory_size = 114, msi_element_type = 12, msi_is_signed = True, msi_is_broadcast = True\<rparr>,
     \<lparr>msi_size = 4, msi_element_size = 4, msi_memory_size = 115, msi_element_type = 29, msi_is_signed = True, msi_is_broadcast = True\<rparr>,
     \<lparr>msi_size = 8, msi_element_size = 8, msi_memory_size = 116, msi_element_type = 30, msi_is_signed = True, msi_is_broadcast = True\<rparr>,
     \<lparr>msi_size = 4, msi_element_size = 4, msi_memory_size = 117, msi_element_type = 3, msi_is_signed = False, msi_is_broadcast = True\<rparr>,
     \<lparr>msi_size = 4, msi_element_size = 4, msi_memory_size = 118, msi_element_type = 11, msi_is_signed = True, msi_is_broadcast = True\<rparr>,
     \<lparr>msi_size = 8, msi_element_size = 8, msi_memory_size = 119, msi_element_type = 4, msi_is_signed = False, msi_is_broadcast = True\<rparr>,
     \<lparr>msi_size = 8, msi_element_size = 8, msi_memory_size = 120, msi_element_type = 5, msi_is_signed = False, msi_is_broadcast = True\<rparr>,
     \<lparr>msi_size = 8, msi_element_size = 8, msi_memory_size = 121, msi_element_type = 12, msi_is_signed = True, msi_is_broadcast = True\<rparr>,
     \<lparr>msi_size = 4, msi_element_size = 4, msi_memory_size = 122, msi_element_type = 29, msi_is_signed = True, msi_is_broadcast = True\<rparr>,
     \<lparr>msi_size = 8, msi_element_size = 8, msi_memory_size = 123, msi_element_type = 30, msi_is_signed = True, msi_is_broadcast = True\<rparr>,
     \<lparr>msi_size = 4, msi_element_size = 2, msi_memory_size = 124, msi_element_type = 10, msi_is_signed = True, msi_is_broadcast = True\<rparr>,
     \<lparr>msi_size = 4, msi_element_size = 2, msi_memory_size = 125, msi_element_type = 10, msi_is_signed = True, msi_is_broadcast = True\<rparr>,
     \<lparr>msi_size = 4, msi_element_size = 2, msi_memory_size = 126, msi_element_type = 10, msi_is_signed = True, msi_is_broadcast = True\<rparr>,
     \<lparr>msi_size = 8, msi_element_size = 4, msi_memory_size = 127, msi_element_type = 3, msi_is_signed = False, msi_is_broadcast = True\<rparr>,
     \<lparr>msi_size = 8, msi_element_size = 4, msi_memory_size = 128, msi_element_type = 3, msi_is_signed = False, msi_is_broadcast = True\<rparr>,
     \<lparr>msi_size = 8, msi_element_size = 4, msi_memory_size = 129, msi_element_type = 3, msi_is_signed = False, msi_is_broadcast = True\<rparr>,
     \<lparr>msi_size = 8, msi_element_size = 4, msi_memory_size = 130, msi_element_type = 11, msi_is_signed = True, msi_is_broadcast = True\<rparr>,
     \<lparr>msi_size = 8, msi_element_size = 4, msi_memory_size = 131, msi_element_type = 11, msi_is_signed = True, msi_is_broadcast = True\<rparr>,
     \<lparr>msi_size = 8, msi_element_size = 4, msi_memory_size = 132, msi_element_type = 11, msi_is_signed = True, msi_is_broadcast = True\<rparr>,
     \<lparr>msi_size = 4, msi_element_size = 2, msi_memory_size = 133, msi_element_type = 33, msi_is_signed = True, msi_is_broadcast = True\<rparr>,
     \<lparr>msi_size = 4, msi_element_size = 2, msi_memory_size = 134, msi_element_type = 33, msi_is_signed = True, msi_is_broadcast = True\<rparr>,
     \<lparr>msi_size = 4, msi_element_size = 2, msi_memory_size = 135, msi_element_type = 33, msi_is_signed = True, msi_is_broadcast = True\<rparr>]"

subsection \<open>\<open>MemorySizeInfo\<close> accessors\<close>

definition info_memory_size :: "MemorySizeInfo \<Rightarrow> MemorySize" where
  "info_memory_size i = Abs_MemorySize (unat (msi_memory_size i))"

definition info_size :: "MemorySizeInfo \<Rightarrow> i32" where
  "info_size i = uint (msi_size i)"

definition info_element_size :: "MemorySizeInfo \<Rightarrow> i32" where
  "info_element_size i = uint (msi_element_size i)"

definition info_element_type :: "MemorySizeInfo \<Rightarrow> MemorySize" where
  "info_element_type i = Abs_MemorySize (unat (msi_element_type i))"

definition info_is_signed :: "MemorySizeInfo \<Rightarrow> bool" where
  "info_is_signed i = msi_is_signed i"

definition info_is_broadcast :: "MemorySizeInfo \<Rightarrow> bool" where
  "info_is_broadcast i = msi_is_broadcast i"

definition info_is_packed :: "MemorySizeInfo \<Rightarrow> bool" where
  "info_is_packed i \<longleftrightarrow> msi_element_size i < msi_size i"

text \<open>
  \<open>element_count\<close> divides only when the two sizes differ (\<open>element_size\<close> can be 0,
  and then so is \<open>size\<close>); an \<open>i32\<close> division by zero would panic.
\<close>

definition info_element_count :: "MemorySizeInfo \<Rightarrow> i32 result" where
  "info_element_count i =
     (if msi_element_size i = msi_size i then Inr 1
      else if msi_element_size i = 0 then Inl DivideByZero
      else Inr (uint (msi_size i) div uint (msi_element_size i)))"

subsection \<open>\<open>MemorySize\<close> accessors\<close>

definition info :: "MemorySize \<Rightarrow> MemorySizeInfo" where
  "info m = MEMORY_SIZE_INFOS ! ms_ord m"

definition ms_size :: "MemorySize \<Rightarrow> i32" where
  "ms_size m = info_size (info m)"

definition ms_element_size :: "MemorySize \<Rightarrow> i32" where
  "ms_element_size m = info_element_size (info m)"

definition ms_element_type :: "MemorySize \<Rightarrow> MemorySize" where
  "ms_element_type m = info_element_type (info m)"

definition info_element_type_info :: "MemorySizeInfo \<Rightarrow> MemorySizeInfo" where
  "info_element_type_info i = info (info_element_type i)"

definition ms_is_signed :: "MemorySize \<Rightarrow> bool" where
  "ms_is_signed m = info_is_signed (info m)"

definition ms_is_packed :: "MemorySize \<Rightarrow> bool" where
  "ms_is_packed m = info_is_packed (info m)"

definition ms_element_count :: "MemorySize \<Rightarrow> i32 result" where
  "ms_element_count m = info_element_count (info m)"

definition ms_is_broadcast :: "MemorySize \<Rightarrow> bool" where
  "ms_is_broadcast m \<longleftrightarrow> FIRST_BROADCAST_MEMORY_SIZE \<le> m"

subsection \<open>Ordinals\<close>

lemma ms_ord_less_136 [simp]: "ms_ord m < 136"
  using ms_ord [of m] by (simp add: NUMBER_OF_MEMORY_SIZES_def)

lemma ms_ord_Abs [simp]: "n < 136 \<Longrightarrow> ms_ord (Abs_MemorySize n) = n"
  by (simp add: Abs_MemorySize_inverse NUMBER_OF_MEMORY_SIZES_def)

lemma length_MEMORY_SIZE_INFOS: "length MEMORY_SIZE_INFOS = NUMBER_OF_MEMORY_SIZES"
  by (simp add: MEMORY_SIZE_INFOS_def NUMBER_OF_MEMORY_SIZES_def)

lemma length_memory_size_names: "length memory_size_names = NUMBER_OF_MEMORY_SIZES"
  by (simp add: memory_size_names_def NUMBER_OF_MEMORY_SIZES_def)


subsection \<open>The table is consistent\<close>

text \<open>Facts of every row, checked by evaluating the table.\<close>

lemma MEMORY_SIZE_INFOS_rows:
  "list_all2 (\<lambda>i x. unat (msi_memory_size x) = i \<and> unat (msi_element_type x) < 136 \<and>
       msi_element_size x \<le> msi_size x \<and> msi_is_broadcast x = (100 \<le> i))
     [0..<136] MEMORY_SIZE_INFOS"
  by code_simp

lemma MEMORY_SIZE_INFOS_elements:
  "list_all (\<lambda>x. msi_element_size x = msi_size (MEMORY_SIZE_INFOS ! unat (msi_element_type x)) \<and>
       msi_is_signed x = msi_is_signed (MEMORY_SIZE_INFOS ! unat (msi_element_type x)) \<and>
       \<not> msi_is_broadcast (MEMORY_SIZE_INFOS ! unat (msi_element_type x)) \<and>
       (msi_element_size x = msi_size x \<or> (msi_element_size x \<noteq> 0 \<and>
         uint (msi_size x) mod uint (msi_element_size x) = 0)))
     MEMORY_SIZE_INFOS"
  by code_simp

lemma info_row:
  assumes "list_all2 P [0..<136] MEMORY_SIZE_INFOS"
  shows "P (ms_ord m) (info m)"
proof -
  have "ms_ord m < length [0..<136]" by simp
  from list_all2_nthD [OF assms this] show ?thesis
    by (simp add: info_def)
qed

lemma info_in_table: "info m \<in> set MEMORY_SIZE_INFOS"
  using length_MEMORY_SIZE_INFOS by (simp add: info_def NUMBER_OF_MEMORY_SIZES_def)

lemma info_facts:
  "unat (msi_memory_size (info m)) = ms_ord m"
  "unat (msi_element_type (info m)) < 136"
  "msi_element_size (info m) \<le> msi_size (info m)"
  "msi_is_broadcast (info m) = (100 \<le> ms_ord m)"
  using info_row [OF MEMORY_SIZE_INFOS_rows, of m] by simp_all

lemma info_element_type_eq:
  "info (ms_element_type m) = MEMORY_SIZE_INFOS ! unat (msi_element_type (info m))"
  using info_facts(2) [of m]
  by (simp add: ms_element_type_def info_element_type_def info_def)

lemma info_element_facts:
  "msi_element_size (info m) = msi_size (info (ms_element_type m))"
  "msi_is_signed (info m) = msi_is_signed (info (ms_element_type m))"
  "\<not> msi_is_broadcast (info (ms_element_type m))"
  "msi_element_size (info m) = msi_size (info m) \<or>
     (msi_element_size (info m) \<noteq> 0 \<and> uint (msi_size (info m)) mod uint (msi_element_size (info m)) = 0)"
proof -
  from MEMORY_SIZE_INFOS_elements info_in_table [of m]
  have e: "msi_element_size (info m) = msi_size (info (ms_element_type m)) \<and>
       msi_is_signed (info m) = msi_is_signed (info (ms_element_type m)) \<and>
       \<not> msi_is_broadcast (info (ms_element_type m)) \<and>
       (msi_element_size (info m) = msi_size (info m) \<or> (msi_element_size (info m) \<noteq> 0 \<and>
         uint (msi_size (info m)) mod uint (msi_element_size (info m)) = 0))"
    unfolding list_all_iff info_element_type_eq by blast
  then show "msi_element_size (info m) = msi_size (info (ms_element_type m))"
    and "msi_is_signed (info m) = msi_is_signed (info (ms_element_type m))"
    and "\<not> msi_is_broadcast (info (ms_element_type m))"
    and "msi_element_size (info m) = msi_size (info m) \<or>
     (msi_element_size (info m) \<noteq> 0 \<and> uint (msi_size (info m)) mod uint (msi_element_size (info m)) = 0)"
    by blast+
qed

text \<open>The table is indexed by ordinal: the row of a variant names that variant.\<close>

theorem info_memory_size_info: "info_memory_size (info m) = m"
  using info_facts(1) [of m] by (simp add: info_memory_size_def ms_ord_inverse)

text \<open>C18. \<open>is_broadcast\<close>, an ordinal comparison with \<open>FIRST_BROADCAST_MEMORY_SIZE\<close>,
  agrees with the \<open>is_broadcast\<close> flag of the table for every variant.\<close>

theorem ms_is_broadcast_table: "ms_is_broadcast m = info_is_broadcast (info m)"
  using info_facts(4) [of m]
  by (simp add: ms_is_broadcast_def info_is_broadcast_def less_eq_MemorySize_def
      FIRST_BROADCAST_MEMORY_SIZE_def)

text \<open>An element is never larger than the memory location.\<close>

theorem ms_element_size_le_size: "ms_element_size m \<le> ms_size m"
  using info_facts(3) [of m]
  by (simp add: ms_element_size_def ms_size_def info_element_size_def info_size_def word_le_def)

text \<open>C30. \<open>element_count\<close> never divides by zero: it is 1 for a variant that is not
  packed and \<open>size / element_size\<close> for a packed one, and the division is exact.\<close>

theorem ms_element_count_exact:
  "\<exists>n. ms_element_count m = Inr n \<and> n * ms_element_size m = ms_size m \<and>
       n = (if ms_is_packed m then ms_size m div ms_element_size m else 1)"
proof (cases "msi_element_size (info m) = msi_size (info m)")
  case True
  then show ?thesis
    by (simp add: ms_element_count_def info_element_count_def ms_element_size_def ms_size_def
        info_element_size_def info_size_def ms_is_packed_def info_is_packed_def)
next
  case False
  with info_element_facts(4) [of m]
  have nz: "msi_element_size (info m) \<noteq> 0"
    and dvd: "uint (msi_size (info m)) mod uint (msi_element_size (info m)) = 0"
    by auto
  have lt: "msi_element_size (info m) < msi_size (info m)"
    using False info_facts(3) [of m] by simp
  show ?thesis
    using False nz dvd lt
    by (simp add: ms_element_count_def info_element_count_def ms_element_size_def ms_size_def
        info_element_size_def info_size_def ms_is_packed_def info_is_packed_def mult.commute
        dvd_eq_mod_eq_0 [symmetric])
qed

lemma MEMORY_SIZE_INFOS_self_element:
  "list_all2 (\<lambda>i x. (unat (msi_element_type x) = i) =
       (\<not> msi_element_size x < msi_size x \<and> \<not> 100 \<le> i))
     [0..<136] MEMORY_SIZE_INFOS"
  by code_simp

lemma ms_element_type_self:
  "(ms_element_type m = m) = (\<not> ms_is_packed m \<and> \<not> ms_is_broadcast m)"
proof -
  have "(ms_element_type m = m) = (unat (msi_element_type (info m)) = ms_ord m)"
    using info_facts(2) [of m]
    by (auto simp: ms_element_type_def info_element_type_def ms_ord_inject [symmetric])
  then show ?thesis
    using info_row [OF MEMORY_SIZE_INFOS_self_element, of m]
    by (simp add: ms_is_packed_def info_is_packed_def ms_is_broadcast_def less_eq_MemorySize_def
        FIRST_BROADCAST_MEMORY_SIZE_def)
qed
text \<open>C37. The element type of a variant has the variant's element size as its size and
  the variant's signedness, and is never a broadcast type; it is the variant itself exactly
  when the variant is neither packed nor broadcast. So for the non-packed broadcast variants
  the element type is the scalar type, not the variant as the doc comments of
  \<open>element_type\<close> say.\<close>

theorem ms_element_type_consistent:
  "ms_size (ms_element_type m) = ms_element_size m \<and>
   ms_is_signed (ms_element_type m) = ms_is_signed m \<and>
   \<not> ms_is_broadcast (ms_element_type m) \<and>
   (ms_element_type m = m \<longleftrightarrow> \<not> ms_is_packed m \<and> \<not> ms_is_broadcast m)"
  using info_element_facts(1-3) [of m] info_facts(4) [of "ms_element_type m"] ms_element_type_self [of m]
  by (simp add: ms_size_def ms_element_size_def info_size_def info_element_size_def
      ms_is_signed_def info_is_signed_def ms_is_broadcast_def info_is_broadcast_def
      less_eq_MemorySize_def FIRST_BROADCAST_MEMORY_SIZE_def)


end
