(* ===== verification/Iced_Enums.thy ===== *)
theory Iced_Enums
  imports Iced_Prelude
begin

text \<open>
  The small enumerations \<open>instruction.rs\<close> stores in its packed fields but that are
  generated outside this slice of the repository (\<open>OpKind\<close>, \<open>CodeSize\<close>,
  \<open>RoundingControl\<close>), modelled from the spec: a datatype in the generator's order,
  the ordinal a value is stored as (\<open>new_value as u32\<close>), and the value an ordinal is
  read back as (\<open>transmute\<close>). \<open>transmute\<close> of an ordinal that names no variant is
  undefined behaviour in Rust; here it is the unspecified \<open>xs ! n\<close> out of range.
  \<open>Code\<close> has several thousand variants and is kept as its 13-bit ordinal
  (\<open>CodeFlags::CODE_BITS\<close>).
\<close>

datatype OpKind =
    Register | NearBranch16 | NearBranch32 | NearBranch64 | FarBranch16 | FarBranch32
  | Immediate8 | Immediate8_2nd | Immediate16 | Immediate32 | Immediate64
  | Immediate8to16 | Immediate8to32 | Immediate8to64 | Immediate32to64
  | MemorySegSI | MemorySegESI | MemorySegRSI | MemorySegDI | MemorySegEDI | MemorySegRDI
  | MemoryESDI | MemoryESEDI | MemoryESRDI | Memory64 | Memory

definition op_kinds :: "OpKind list" where
  "op_kinds =
    [Register, NearBranch16, NearBranch32, NearBranch64, FarBranch16, FarBranch32,
     Immediate8, Immediate8_2nd, Immediate16, Immediate32, Immediate64,
     Immediate8to16, Immediate8to32, Immediate8to64, Immediate32to64,
     MemorySegSI, MemorySegESI, MemorySegRSI, MemorySegDI, MemorySegEDI, MemorySegRDI,
     MemoryESDI, MemoryESEDI, MemoryESRDI, Memory64, Memory]"

fun opkind_ord :: "OpKind \<Rightarrow> nat" where
  "opkind_ord Register = 0" | "opkind_ord NearBranch16 = 1" | "opkind_ord NearBranch32 = 2"
| "opkind_ord NearBranch64 = 3" | "opkind_ord FarBranch16 = 4" | "opkind_ord FarBranch32 = 5"
| "opkind_ord Immediate8 = 6" | "opkind_ord Immediate8_2nd = 7" | "opkind_ord Immediate16 = 8"
| "opkind_ord Immediate32 = 9" | "opkind_ord Immediate64 = 10" | "opkind_ord Immediate8to16 = 11"
| "opkind_ord Immediate8to32 = 12" | "opkind_ord Immediate8to64 = 13"
| "opkind_ord Immediate32to64 = 14" | "opkind_ord MemorySegSI = 15"
| "opkind_ord MemorySegESI = 16" | "opkind_ord MemorySegRSI = 17" | "opkind_ord MemorySegDI = 18"
| "opkind_ord MemorySegEDI = 19" | "opkind_ord MemorySegRDI = 20" | "opkind_ord MemoryESDI = 21"
| "opkind_ord MemoryESEDI = 22" | "opkind_ord MemoryESRDI = 23" | "opkind_ord Memory64 = 24"
| "opkind_ord Memory = 25"

definition opkind_of_ord :: "nat \<Rightarrow> OpKind" where
  "opkind_of_ord n = op_kinds ! n"

datatype CodeSize = Unknown | Code16 | Code32 | Code64

fun codesize_ord :: "CodeSize \<Rightarrow> nat" where
  "codesize_ord Unknown = 0" | "codesize_ord Code16 = 1" | "codesize_ord Code32 = 2"
| "codesize_ord Code64 = 3"

definition codesize_of_ord :: "nat \<Rightarrow> CodeSize" where
  "codesize_of_ord n = [Unknown, Code16, Code32, Code64] ! n"

text \<open>\<open>RoundingControl::None\<close> is \<open>RC_None\<close>: \<open>None\<close> belongs to \<open>option\<close>.\<close>

datatype RoundingControl = RC_None | RoundToNearest | RoundDown | RoundUp | RoundTowardZero

fun rc_ord :: "RoundingControl \<Rightarrow> nat" where
  "rc_ord RC_None = 0" | "rc_ord RoundToNearest = 1" | "rc_ord RoundDown = 2"
| "rc_ord RoundUp = 3" | "rc_ord RoundTowardZero = 4"

definition rc_of_ord :: "nat \<Rightarrow> RoundingControl" where
  "rc_of_ord n = [RC_None, RoundToNearest, RoundDown, RoundUp, RoundTowardZero] ! n"

type_synonym Code = "13 word"

lemma opkind_ord_less [simp]: "opkind_ord k < 26"
  by (cases k) simp_all

lemma opkind_of_ord_ord [simp]: "opkind_of_ord (opkind_ord k) = k"
  by (cases k) (simp_all add: opkind_of_ord_def op_kinds_def)

lemma opkind_ord_inj [simp]: "(opkind_ord a = opkind_ord b) = (a = b)"
  by (metis opkind_of_ord_ord)

lemma codesize_ord_less [simp]: "codesize_ord c < 4"
  by (cases c) simp_all

lemma codesize_of_ord_ord [simp]: "codesize_of_ord (codesize_ord c) = c"
  by (cases c) (simp_all add: codesize_of_ord_def)

lemma rc_ord_less [simp]: "rc_ord r < 5"
  by (cases r) simp_all

lemma rc_of_ord_ord [simp]: "rc_of_ord (rc_ord r) = r"
  by (cases r) (simp_all add: rc_of_ord_def)

end
