(* ===== verification/Instruction.thy ===== *)
theory Instruction
  imports Register Iced_Enums
begin

text \<open>
  The instruction value of \<open>instruction.rs\<close> (lines 31-636, 1392-1530, 2074-2090):
  the bit layout constants \<open>MemoryFlags\<close>, \<open>OpKindFlags\<close> and \<open>CodeFlags\<close>, the
  struct \<open>Instruction\<close> as a record of its twelve machine-integer fields, and the
  accessors of the fields packed into \<open>code_flags\<close> and \<open>op_kind_flags\<close>: code,
  length, code size, prefixes, operand kinds, opmask, masking mode, rounding control,
  suppress-all-exceptions, declare-data length; the instruction pointer views of
  \<open>next_rip\<close>; and the two equalities. Each setter returns the updated record (the
  source's \<open>&mut self\<close>); a setter that can panic returns a \<open>result\<close>.
\<close>

unbundle bit_operations_syntax

subsection \<open>Bit layout\<close>

definition MemoryFlags_SCALE_MASK :: u32 where "MemoryFlags_SCALE_MASK = 3"
definition MemoryFlags_DISPL_SIZE_SHIFT :: nat where "MemoryFlags_DISPL_SIZE_SHIFT = 2"
definition MemoryFlags_DISPL_SIZE_MASK :: u32 where "MemoryFlags_DISPL_SIZE_MASK = 7"
definition MemoryFlags_SEGMENT_PREFIX_SHIFT :: nat where "MemoryFlags_SEGMENT_PREFIX_SHIFT = 5"
definition MemoryFlags_SEGMENT_PREFIX_MASK :: u32 where "MemoryFlags_SEGMENT_PREFIX_MASK = 7"
definition MemoryFlags_BROADCAST :: u32 where "MemoryFlags_BROADCAST = 0x8000"

definition OpKindFlags_OP_KIND_BITS :: nat where "OpKindFlags_OP_KIND_BITS = 5"
definition OpKindFlags_OP_KIND_MASK :: u32 where
  "OpKindFlags_OP_KIND_MASK = push_bit OpKindFlags_OP_KIND_BITS 1 - 1"
definition OpKindFlags_OP1_KIND_SHIFT :: nat where "OpKindFlags_OP1_KIND_SHIFT = 5"
definition OpKindFlags_OP2_KIND_SHIFT :: nat where "OpKindFlags_OP2_KIND_SHIFT = 10"
definition OpKindFlags_OP3_KIND_SHIFT :: nat where "OpKindFlags_OP3_KIND_SHIFT = 15"
definition OpKindFlags_DATA_LENGTH_MASK :: u32 where "OpKindFlags_DATA_LENGTH_MASK = 0xF"
definition OpKindFlags_DATA_LENGTH_SHIFT :: nat where "OpKindFlags_DATA_LENGTH_SHIFT = 20"
definition OpKindFlags_CODE_SIZE_MASK :: u32 where "OpKindFlags_CODE_SIZE_MASK = 3"
definition OpKindFlags_CODE_SIZE_SHIFT :: nat where "OpKindFlags_CODE_SIZE_SHIFT = 30"
definition OpKindFlags_EQUALS_IGNORE_MASK :: u32 where
  "OpKindFlags_EQUALS_IGNORE_MASK = push_bit OpKindFlags_CODE_SIZE_SHIFT OpKindFlags_CODE_SIZE_MASK"

definition CodeFlags_CODE_BITS :: nat where "CodeFlags_CODE_BITS = 13"
definition CodeFlags_CODE_MASK :: u32 where
  "CodeFlags_CODE_MASK = push_bit CodeFlags_CODE_BITS 1 - 1"
definition CodeFlags_ROUNDING_CONTROL_MASK :: u32 where "CodeFlags_ROUNDING_CONTROL_MASK = 7"
definition CodeFlags_ROUNDING_CONTROL_SHIFT :: nat where "CodeFlags_ROUNDING_CONTROL_SHIFT = 13"
definition CodeFlags_OPMASK_MASK :: u32 where "CodeFlags_OPMASK_MASK = 7"
definition CodeFlags_OPMASK_SHIFT :: nat where "CodeFlags_OPMASK_SHIFT = 16"
definition CodeFlags_INSTR_LENGTH_MASK :: u32 where "CodeFlags_INSTR_LENGTH_MASK = 0xF"
definition CodeFlags_INSTR_LENGTH_SHIFT :: nat where "CodeFlags_INSTR_LENGTH_SHIFT = 19"
definition CodeFlags_SUPPRESS_ALL_EXCEPTIONS :: u32 where
  "CodeFlags_SUPPRESS_ALL_EXCEPTIONS = 0x02000000"
definition CodeFlags_ZEROING_MASKING :: u32 where "CodeFlags_ZEROING_MASKING = 0x04000000"
definition CodeFlags_XACQUIRE_PREFIX :: u32 where "CodeFlags_XACQUIRE_PREFIX = 0x08000000"
definition CodeFlags_XRELEASE_PREFIX :: u32 where "CodeFlags_XRELEASE_PREFIX = 0x10000000"
definition CodeFlags_REPE_PREFIX :: u32 where "CodeFlags_REPE_PREFIX = 0x20000000"
definition CodeFlags_REPNE_PREFIX :: u32 where "CodeFlags_REPNE_PREFIX = 0x40000000"
definition CodeFlags_LOCK_PREFIX :: u32 where "CodeFlags_LOCK_PREFIX = 0x80000000"
definition CodeFlags_EQUALS_IGNORE_MASK :: u32 where
  "CodeFlags_EQUALS_IGNORE_MASK = push_bit CodeFlags_INSTR_LENGTH_SHIFT CodeFlags_INSTR_LENGTH_MASK"

subsection \<open>The struct\<close>

record Instruction =
  next_rip :: u64
  code_flags :: u32
  op_kind_flags :: u32
  immediate :: u32
  mem_displ :: u32
  memory_flags :: u16
  mem_base_reg :: u8
  mem_index_reg :: u8
  reg0 :: u8
  reg1 :: u8
  reg2 :: u8
  reg3 :: u8

text \<open>\<open>Instruction::new()\<close> is \<open>Default::default()\<close>: every field zero.\<close>

definition instruction_new :: Instruction where
  "instruction_new =
     \<lparr>next_rip = 0, code_flags = 0, op_kind_flags = 0, immediate = 0, mem_displ = 0,
      memory_flags = 0, mem_base_reg = 0, mem_index_reg = 0, reg0 = 0, reg1 = 0, reg2 = 0,
      reg3 = 0\<rparr>"

definition eq_all_bits :: "Instruction \<Rightarrow> Instruction \<Rightarrow> bool" where
  "eq_all_bits self other \<longleftrightarrow>
     next_rip self = next_rip other
     \<and> code_flags self = code_flags other
     \<and> op_kind_flags self = op_kind_flags other
     \<and> immediate self = immediate other
     \<and> mem_displ self = mem_displ other
     \<and> memory_flags self = memory_flags other
     \<and> mem_base_reg self = mem_base_reg other
     \<and> mem_index_reg self = mem_index_reg other
     \<and> reg0 self = reg0 other
     \<and> reg1 self = reg1 other
     \<and> reg2 self = reg2 other
     \<and> reg3 self = reg3 other"

text \<open>\<open>impl PartialEq for Instruction\<close>.\<close>

definition instruction_eq :: "Instruction \<Rightarrow> Instruction \<Rightarrow> bool" where
  "instruction_eq self other \<longleftrightarrow>
     (code_flags self XOR code_flags other) AND NOT CodeFlags_EQUALS_IGNORE_MASK = 0
     \<and> (op_kind_flags self XOR op_kind_flags other) AND NOT OpKindFlags_EQUALS_IGNORE_MASK = 0
     \<and> immediate self = immediate other
     \<and> mem_displ self = mem_displ other
     \<and> memory_flags self = memory_flags other
     \<and> mem_base_reg self = mem_base_reg other
     \<and> mem_index_reg self = mem_index_reg other
     \<and> reg0 self = reg0 other
     \<and> reg1 self = reg1 other
     \<and> reg2 self = reg2 other
     \<and> reg3 self = reg3 other"

subsection \<open>Length, code size, code\<close>

definition len :: "Instruction \<Rightarrow> i32" where
  "len self =
     uint (drop_bit CodeFlags_INSTR_LENGTH_SHIFT (code_flags self) AND CodeFlags_INSTR_LENGTH_MASK)"

definition set_len :: "i32 \<Rightarrow> Instruction \<Rightarrow> Instruction" where
  "set_len new_value self =
     self\<lparr>code_flags :=
       (code_flags self AND NOT (push_bit CodeFlags_INSTR_LENGTH_SHIFT CodeFlags_INSTR_LENGTH_MASK))
       OR push_bit CodeFlags_INSTR_LENGTH_SHIFT (word_of_int new_value AND CodeFlags_INSTR_LENGTH_MASK)\<rparr>"

definition internal_set_len :: "u32 \<Rightarrow> Instruction \<Rightarrow> Instruction" where
  "internal_set_len new_value self =
     self\<lparr>code_flags := code_flags self OR push_bit CodeFlags_INSTR_LENGTH_SHIFT new_value\<rparr>"

definition code_size :: "Instruction \<Rightarrow> CodeSize" where
  "code_size self =
     codesize_of_ord
       (unat (drop_bit OpKindFlags_CODE_SIZE_SHIFT (op_kind_flags self) AND OpKindFlags_CODE_SIZE_MASK))"

definition set_code_size :: "CodeSize \<Rightarrow> Instruction \<Rightarrow> Instruction" where
  "set_code_size new_value self =
     self\<lparr>op_kind_flags :=
       (op_kind_flags self AND NOT (push_bit OpKindFlags_CODE_SIZE_SHIFT OpKindFlags_CODE_SIZE_MASK))
       OR push_bit OpKindFlags_CODE_SIZE_SHIFT (of_nat (codesize_ord new_value) AND OpKindFlags_CODE_SIZE_MASK)\<rparr>"

definition internal_set_code_size :: "CodeSize \<Rightarrow> Instruction \<Rightarrow> Instruction" where
  "internal_set_code_size new_value self =
     self\<lparr>op_kind_flags :=
       op_kind_flags self OR push_bit OpKindFlags_CODE_SIZE_SHIFT (of_nat (codesize_ord new_value))\<rparr>"

definition code :: "Instruction \<Rightarrow> Code" where
  "code self = ucast (code_flags self AND CodeFlags_CODE_MASK)"

definition set_code :: "Code \<Rightarrow> Instruction \<Rightarrow> Instruction" where
  "set_code new_value self =
     self\<lparr>code_flags := (code_flags self AND NOT CodeFlags_CODE_MASK) OR ucast new_value\<rparr>"

definition internal_set_code :: "Code \<Rightarrow> Instruction \<Rightarrow> Instruction" where
  "internal_set_code new_value self = self\<lparr>code_flags := code_flags self OR ucast new_value\<rparr>"

definition internal_set_code_no_check :: "Code \<Rightarrow> Instruction \<Rightarrow> Instruction" where
  "internal_set_code_no_check new_value self =
     self\<lparr>code_flags := (code_flags self AND NOT CodeFlags_CODE_MASK) OR ucast new_value\<rparr>"

subsection \<open>Instruction pointer\<close>

text \<open>
  The source subtracts and adds with plain \<open>-\<close> and \<open>+\<close>: a release build wraps, which
  is what is modelled; a debug build panics on the same overflow.
\<close>

definition ip16 :: "Instruction \<Rightarrow> u16" where
  "ip16 self = ucast (next_rip self) - word_of_int (len self)"

definition set_ip16 :: "u16 \<Rightarrow> Instruction \<Rightarrow> Instruction" where
  "set_ip16 new_value self = self\<lparr>next_rip := ucast new_value + word_of_int (len self)\<rparr>"

definition ip32 :: "Instruction \<Rightarrow> u32" where
  "ip32 self = ucast (next_rip self) - word_of_int (len self)"

definition set_ip32 :: "u32 \<Rightarrow> Instruction \<Rightarrow> Instruction" where
  "set_ip32 new_value self = self\<lparr>next_rip := ucast new_value + word_of_int (len self)\<rparr>"

definition ip :: "Instruction \<Rightarrow> u64" where
  "ip self = next_rip self - word_of_int (len self)"

definition set_ip :: "u64 \<Rightarrow> Instruction \<Rightarrow> Instruction" where
  "set_ip new_value self = self\<lparr>next_rip := new_value + word_of_int (len self)\<rparr>"

definition next_ip16 :: "Instruction \<Rightarrow> u16" where
  "next_ip16 self = ucast (next_rip self)"

definition set_next_ip16 :: "u16 \<Rightarrow> Instruction \<Rightarrow> Instruction" where
  "set_next_ip16 new_value self = self\<lparr>next_rip := ucast new_value\<rparr>"

definition next_ip32 :: "Instruction \<Rightarrow> u32" where
  "next_ip32 self = ucast (next_rip self)"

definition set_next_ip32 :: "u32 \<Rightarrow> Instruction \<Rightarrow> Instruction" where
  "set_next_ip32 new_value self = self\<lparr>next_rip := ucast new_value\<rparr>"

definition next_ip :: "Instruction \<Rightarrow> u64" where
  "next_ip self = next_rip self"

definition set_next_ip :: "u64 \<Rightarrow> Instruction \<Rightarrow> Instruction" where
  "set_next_ip new_value self = self\<lparr>next_rip := new_value\<rparr>"

subsection \<open>Prefixes\<close>

definition internal_has_repe_prefix_has_xrelease_prefix :: "Instruction \<Rightarrow> bool" where
  "internal_has_repe_prefix_has_xrelease_prefix self \<longleftrightarrow>
     code_flags self AND (CodeFlags_REPE_PREFIX OR CodeFlags_XRELEASE_PREFIX) \<noteq> 0"

definition internal_has_repne_prefix_has_xacquire_prefix :: "Instruction \<Rightarrow> bool" where
  "internal_has_repne_prefix_has_xacquire_prefix self \<longleftrightarrow>
     code_flags self AND (CodeFlags_REPNE_PREFIX OR CodeFlags_XACQUIRE_PREFIX) \<noteq> 0"

definition internal_has_repe_or_repne_prefix :: "Instruction \<Rightarrow> bool" where
  "internal_has_repe_or_repne_prefix self \<longleftrightarrow>
     code_flags self AND (CodeFlags_REPE_PREFIX OR CodeFlags_REPNE_PREFIX) \<noteq> 0"

definition has_xacquire_prefix :: "Instruction \<Rightarrow> bool" where
  "has_xacquire_prefix self \<longleftrightarrow> code_flags self AND CodeFlags_XACQUIRE_PREFIX \<noteq> 0"

definition set_has_xacquire_prefix :: "bool \<Rightarrow> Instruction \<Rightarrow> Instruction" where
  "set_has_xacquire_prefix new_value self =
     (if new_value then self\<lparr>code_flags := code_flags self OR CodeFlags_XACQUIRE_PREFIX\<rparr>
      else self\<lparr>code_flags := code_flags self AND NOT CodeFlags_XACQUIRE_PREFIX\<rparr>)"

definition internal_set_has_xacquire_prefix :: "Instruction \<Rightarrow> Instruction" where
  "internal_set_has_xacquire_prefix self = self\<lparr>code_flags := code_flags self OR CodeFlags_XACQUIRE_PREFIX\<rparr>"

definition has_xrelease_prefix :: "Instruction \<Rightarrow> bool" where
  "has_xrelease_prefix self \<longleftrightarrow> code_flags self AND CodeFlags_XRELEASE_PREFIX \<noteq> 0"

definition set_has_xrelease_prefix :: "bool \<Rightarrow> Instruction \<Rightarrow> Instruction" where
  "set_has_xrelease_prefix new_value self =
     (if new_value then self\<lparr>code_flags := code_flags self OR CodeFlags_XRELEASE_PREFIX\<rparr>
      else self\<lparr>code_flags := code_flags self AND NOT CodeFlags_XRELEASE_PREFIX\<rparr>)"

definition internal_set_has_xrelease_prefix :: "Instruction \<Rightarrow> Instruction" where
  "internal_set_has_xrelease_prefix self = self\<lparr>code_flags := code_flags self OR CodeFlags_XRELEASE_PREFIX\<rparr>"

text \<open>\<open>has_rep_prefix\<close> and \<open>set_has_rep_prefix\<close> read and write the REPE bit.\<close>

definition has_rep_prefix :: "Instruction \<Rightarrow> bool" where
  "has_rep_prefix self \<longleftrightarrow> code_flags self AND CodeFlags_REPE_PREFIX \<noteq> 0"

definition set_has_rep_prefix :: "bool \<Rightarrow> Instruction \<Rightarrow> Instruction" where
  "set_has_rep_prefix new_value self =
     (if new_value then self\<lparr>code_flags := code_flags self OR CodeFlags_REPE_PREFIX\<rparr>
      else self\<lparr>code_flags := code_flags self AND NOT CodeFlags_REPE_PREFIX\<rparr>)"

definition has_repe_prefix :: "Instruction \<Rightarrow> bool" where
  "has_repe_prefix self \<longleftrightarrow> code_flags self AND CodeFlags_REPE_PREFIX \<noteq> 0"

definition set_has_repe_prefix :: "bool \<Rightarrow> Instruction \<Rightarrow> Instruction" where
  "set_has_repe_prefix new_value self =
     (if new_value then self\<lparr>code_flags := code_flags self OR CodeFlags_REPE_PREFIX\<rparr>
      else self\<lparr>code_flags := code_flags self AND NOT CodeFlags_REPE_PREFIX\<rparr>)"

definition internal_set_has_repe_prefix :: "Instruction \<Rightarrow> Instruction" where
  "internal_set_has_repe_prefix self = self\<lparr>code_flags := code_flags self OR CodeFlags_REPE_PREFIX\<rparr>"

definition internal_clear_has_repe_prefix :: "Instruction \<Rightarrow> Instruction" where
  "internal_clear_has_repe_prefix self = self\<lparr>code_flags := code_flags self AND NOT CodeFlags_REPE_PREFIX\<rparr>"

definition has_repne_prefix :: "Instruction \<Rightarrow> bool" where
  "has_repne_prefix self \<longleftrightarrow> code_flags self AND CodeFlags_REPNE_PREFIX \<noteq> 0"

definition set_has_repne_prefix :: "bool \<Rightarrow> Instruction \<Rightarrow> Instruction" where
  "set_has_repne_prefix new_value self =
     (if new_value then self\<lparr>code_flags := code_flags self OR CodeFlags_REPNE_PREFIX\<rparr>
      else self\<lparr>code_flags := code_flags self AND NOT CodeFlags_REPNE_PREFIX\<rparr>)"

definition internal_set_has_repne_prefix :: "Instruction \<Rightarrow> Instruction" where
  "internal_set_has_repne_prefix self = self\<lparr>code_flags := code_flags self OR CodeFlags_REPNE_PREFIX\<rparr>"

definition internal_clear_has_repne_prefix :: "Instruction \<Rightarrow> Instruction" where
  "internal_clear_has_repne_prefix self = self\<lparr>code_flags := code_flags self AND NOT CodeFlags_REPNE_PREFIX\<rparr>"

definition has_lock_prefix :: "Instruction \<Rightarrow> bool" where
  "has_lock_prefix self \<longleftrightarrow> code_flags self AND CodeFlags_LOCK_PREFIX \<noteq> 0"

definition set_has_lock_prefix :: "bool \<Rightarrow> Instruction \<Rightarrow> Instruction" where
  "set_has_lock_prefix new_value self =
     (if new_value then self\<lparr>code_flags := code_flags self OR CodeFlags_LOCK_PREFIX\<rparr>
      else self\<lparr>code_flags := code_flags self AND NOT CodeFlags_LOCK_PREFIX\<rparr>)"

definition internal_set_has_lock_prefix :: "Instruction \<Rightarrow> Instruction" where
  "internal_set_has_lock_prefix self = self\<lparr>code_flags := code_flags self OR CodeFlags_LOCK_PREFIX\<rparr>"

definition internal_clear_has_lock_prefix :: "Instruction \<Rightarrow> Instruction" where
  "internal_clear_has_lock_prefix self = self\<lparr>code_flags := code_flags self AND NOT CodeFlags_LOCK_PREFIX\<rparr>"

subsection \<open>Operand kinds\<close>

definition op0_kind :: "Instruction \<Rightarrow> OpKind" where
  "op0_kind self = opkind_of_ord (unat (op_kind_flags self AND OpKindFlags_OP_KIND_MASK))"

definition set_op0_kind :: "OpKind \<Rightarrow> Instruction \<Rightarrow> Instruction" where
  "set_op0_kind new_value self =
     self\<lparr>op_kind_flags := (op_kind_flags self AND NOT OpKindFlags_OP_KIND_MASK)
        OR (of_nat (opkind_ord new_value) AND OpKindFlags_OP_KIND_MASK)\<rparr>"

definition internal_set_op0_kind :: "OpKind \<Rightarrow> Instruction \<Rightarrow> Instruction" where
  "internal_set_op0_kind new_value self =
     self\<lparr>op_kind_flags := op_kind_flags self OR of_nat (opkind_ord new_value)\<rparr>"

text \<open>The source's name: it tests whether operand 0 or operand 1 is not a register.\<close>

definition internal_op0_is_not_reg_or_op0_is_not_reg :: "Instruction \<Rightarrow> bool" where
  "internal_op0_is_not_reg_or_op0_is_not_reg self \<longleftrightarrow>
     op_kind_flags self AND (OpKindFlags_OP_KIND_MASK
       OR push_bit OpKindFlags_OP1_KIND_SHIFT OpKindFlags_OP_KIND_MASK) \<noteq> 0"

definition op1_kind :: "Instruction \<Rightarrow> OpKind" where
  "op1_kind self =
     opkind_of_ord (unat (drop_bit OpKindFlags_OP1_KIND_SHIFT (op_kind_flags self) AND OpKindFlags_OP_KIND_MASK))"

definition set_op1_kind :: "OpKind \<Rightarrow> Instruction \<Rightarrow> Instruction" where
  "set_op1_kind new_value self =
     self\<lparr>op_kind_flags :=
       (op_kind_flags self AND NOT (push_bit OpKindFlags_OP1_KIND_SHIFT OpKindFlags_OP_KIND_MASK))
       OR push_bit OpKindFlags_OP1_KIND_SHIFT (of_nat (opkind_ord new_value) AND OpKindFlags_OP_KIND_MASK)\<rparr>"

definition internal_set_op1_kind :: "OpKind \<Rightarrow> Instruction \<Rightarrow> Instruction" where
  "internal_set_op1_kind new_value self =
     self\<lparr>op_kind_flags := op_kind_flags self OR push_bit OpKindFlags_OP1_KIND_SHIFT (of_nat (opkind_ord new_value))\<rparr>"

definition op2_kind :: "Instruction \<Rightarrow> OpKind" where
  "op2_kind self =
     opkind_of_ord (unat (drop_bit OpKindFlags_OP2_KIND_SHIFT (op_kind_flags self) AND OpKindFlags_OP_KIND_MASK))"

definition set_op2_kind :: "OpKind \<Rightarrow> Instruction \<Rightarrow> Instruction" where
  "set_op2_kind new_value self =
     self\<lparr>op_kind_flags :=
       (op_kind_flags self AND NOT (push_bit OpKindFlags_OP2_KIND_SHIFT OpKindFlags_OP_KIND_MASK))
       OR push_bit OpKindFlags_OP2_KIND_SHIFT (of_nat (opkind_ord new_value) AND OpKindFlags_OP_KIND_MASK)\<rparr>"

definition internal_set_op2_kind :: "OpKind \<Rightarrow> Instruction \<Rightarrow> Instruction" where
  "internal_set_op2_kind new_value self =
     self\<lparr>op_kind_flags := op_kind_flags self OR push_bit OpKindFlags_OP2_KIND_SHIFT (of_nat (opkind_ord new_value))\<rparr>"

definition op3_kind :: "Instruction \<Rightarrow> OpKind" where
  "op3_kind self =
     opkind_of_ord (unat (drop_bit OpKindFlags_OP3_KIND_SHIFT (op_kind_flags self) AND OpKindFlags_OP_KIND_MASK))"

definition set_op3_kind :: "OpKind \<Rightarrow> Instruction \<Rightarrow> Instruction" where
  "set_op3_kind new_value self =
     self\<lparr>op_kind_flags :=
       (op_kind_flags self AND NOT (push_bit OpKindFlags_OP3_KIND_SHIFT OpKindFlags_OP_KIND_MASK))
       OR push_bit OpKindFlags_OP3_KIND_SHIFT (of_nat (opkind_ord new_value) AND OpKindFlags_OP_KIND_MASK)\<rparr>"

definition internal_set_op3_kind :: "OpKind \<Rightarrow> Instruction \<Rightarrow> Instruction" where
  "internal_set_op3_kind new_value self =
     self\<lparr>op_kind_flags := op_kind_flags self OR push_bit OpKindFlags_OP3_KIND_SHIFT (of_nat (opkind_ord new_value))\<rparr>"

text \<open>Operand 4 has no storage: its kind is always \<open>Immediate8\<close>.\<close>

definition op4_kind :: "Instruction \<Rightarrow> OpKind" where
  "op4_kind self = Immediate8"

definition set_op4_kind :: "OpKind \<Rightarrow> Instruction \<Rightarrow> Instruction result" where
  "set_op4_kind new_value self = (if new_value \<noteq> Immediate8 then Inl NYI else Inr self)"

definition internal_set_op4_kind :: "OpKind \<Rightarrow> Instruction \<Rightarrow> Instruction result" where
  "internal_set_op4_kind new_value self = (if new_value \<noteq> Immediate8 then Inl NYI else Inr self)"

definition op_kind :: "Instruction \<Rightarrow> i32 \<Rightarrow> OpKind result" where
  "op_kind self operand =
     (if operand = 0 then Inr (op0_kind self)
      else if operand = 1 then Inr (op1_kind self)
      else if operand = 2 then Inr (op2_kind self)
      else if operand = 3 then Inr (op3_kind self)
      else if operand = 4 then Inr (op4_kind self)
      else Inl NYI)"

definition set_op_kind :: "i32 \<Rightarrow> OpKind \<Rightarrow> Instruction \<Rightarrow> Instruction result" where
  "set_op_kind operand op_kind_v self =
     (if operand = 0 then Inr (set_op0_kind op_kind_v self)
      else if operand = 1 then Inr (set_op1_kind op_kind_v self)
      else if operand = 2 then Inr (set_op2_kind op_kind_v self)
      else if operand = 3 then Inr (set_op3_kind op_kind_v self)
      else if operand = 4 then set_op4_kind op_kind_v self
      else Inl NYI)"

subsection \<open>Opmask, masking, rounding, exceptions\<close>

text \<open>The stored opmask is 0 for none, else \<open>r\<close> for \<open>K0 + r\<close>.\<close>

definition opmask :: "Instruction \<Rightarrow> Register" where
  "opmask self =
     (let r = drop_bit CodeFlags_OPMASK_SHIFT (code_flags self) AND CodeFlags_OPMASK_MASK in
      if r = 0 then Reg_None else Abs_Register (unat (ucast (r + of_nat (reg_ord K0)) :: u8)))"

definition set_opmask :: "Register \<Rightarrow> Instruction \<Rightarrow> Instruction" where
  "set_opmask new_value self =
     (let r = if new_value = Reg_None then 0
              else (of_nat (reg_ord new_value) - of_nat (reg_ord K0)) AND CodeFlags_OPMASK_MASK in
      self\<lparr>code_flags := (code_flags self AND NOT (push_bit CodeFlags_OPMASK_SHIFT CodeFlags_OPMASK_MASK))
        OR push_bit CodeFlags_OPMASK_SHIFT r\<rparr>)"

definition internal_opmask :: "Instruction \<Rightarrow> u32" where
  "internal_opmask self = drop_bit CodeFlags_OPMASK_SHIFT (code_flags self) AND CodeFlags_OPMASK_MASK"

definition internal_set_opmask :: "u32 \<Rightarrow> Instruction \<Rightarrow> Instruction" where
  "internal_set_opmask new_value self =
     self\<lparr>code_flags := code_flags self OR push_bit CodeFlags_OPMASK_SHIFT new_value\<rparr>"

definition has_opmask :: "Instruction \<Rightarrow> bool" where
  "has_opmask self \<longleftrightarrow>
     code_flags self AND push_bit CodeFlags_OPMASK_SHIFT CodeFlags_OPMASK_MASK \<noteq> 0"

definition zeroing_masking :: "Instruction \<Rightarrow> bool" where
  "zeroing_masking self \<longleftrightarrow> code_flags self AND CodeFlags_ZEROING_MASKING \<noteq> 0"

definition set_zeroing_masking :: "bool \<Rightarrow> Instruction \<Rightarrow> Instruction" where
  "set_zeroing_masking new_value self =
     (if new_value then self\<lparr>code_flags := code_flags self OR CodeFlags_ZEROING_MASKING\<rparr>
      else self\<lparr>code_flags := code_flags self AND NOT CodeFlags_ZEROING_MASKING\<rparr>)"

definition internal_set_zeroing_masking :: "Instruction \<Rightarrow> Instruction" where
  "internal_set_zeroing_masking self =
     self\<lparr>code_flags := code_flags self OR CodeFlags_ZEROING_MASKING\<rparr>"

definition merging_masking :: "Instruction \<Rightarrow> bool" where
  "merging_masking self \<longleftrightarrow> code_flags self AND CodeFlags_ZEROING_MASKING = 0"

definition set_merging_masking :: "bool \<Rightarrow> Instruction \<Rightarrow> Instruction" where
  "set_merging_masking new_value self =
     (if new_value then self\<lparr>code_flags := code_flags self AND NOT CodeFlags_ZEROING_MASKING\<rparr>
      else self\<lparr>code_flags := code_flags self OR CodeFlags_ZEROING_MASKING\<rparr>)"

definition rounding_control :: "Instruction \<Rightarrow> RoundingControl" where
  "rounding_control self =
     rc_of_ord (unat (drop_bit CodeFlags_ROUNDING_CONTROL_SHIFT (code_flags self)
       AND CodeFlags_ROUNDING_CONTROL_MASK))"

definition set_rounding_control :: "RoundingControl \<Rightarrow> Instruction \<Rightarrow> Instruction" where
  "set_rounding_control new_value self =
     self\<lparr>code_flags :=
       (code_flags self AND NOT (push_bit CodeFlags_ROUNDING_CONTROL_SHIFT CodeFlags_ROUNDING_CONTROL_MASK))
       OR push_bit CodeFlags_ROUNDING_CONTROL_SHIFT (of_nat (rc_ord new_value) AND CodeFlags_ROUNDING_CONTROL_MASK)\<rparr>"

definition internal_set_rounding_control :: "u32 \<Rightarrow> Instruction \<Rightarrow> Instruction" where
  "internal_set_rounding_control new_value self =
     self\<lparr>code_flags := code_flags self OR push_bit CodeFlags_ROUNDING_CONTROL_SHIFT new_value\<rparr>"

definition suppress_all_exceptions :: "Instruction \<Rightarrow> bool" where
  "suppress_all_exceptions self \<longleftrightarrow> code_flags self AND CodeFlags_SUPPRESS_ALL_EXCEPTIONS \<noteq> 0"

definition set_suppress_all_exceptions :: "bool \<Rightarrow> Instruction \<Rightarrow> Instruction" where
  "set_suppress_all_exceptions new_value self =
     (if new_value then self\<lparr>code_flags := code_flags self OR CodeFlags_SUPPRESS_ALL_EXCEPTIONS\<rparr>
      else self\<lparr>code_flags := code_flags self AND NOT CodeFlags_SUPPRESS_ALL_EXCEPTIONS\<rparr>)"

definition internal_set_suppress_all_exceptions :: "Instruction \<Rightarrow> Instruction" where
  "internal_set_suppress_all_exceptions self =
     self\<lparr>code_flags := code_flags self OR CodeFlags_SUPPRESS_ALL_EXCEPTIONS\<rparr>"

subsection \<open>Declare-data length\<close>

text \<open>The element count of a \<open>db\<close>/\<open>dw\<close>/\<open>dd\<close>/\<open>dq\<close> directive, stored minus one.\<close>

definition declare_data_len :: "Instruction \<Rightarrow> i32" where
  "declare_data_len self =
     uint (drop_bit OpKindFlags_DATA_LENGTH_SHIFT (op_kind_flags self) AND OpKindFlags_DATA_LENGTH_MASK) + 1"

definition set_declare_data_len :: "i32 \<Rightarrow> Instruction \<Rightarrow> Instruction" where
  "set_declare_data_len new_value self =
     self\<lparr>op_kind_flags :=
       (op_kind_flags self AND NOT (push_bit OpKindFlags_DATA_LENGTH_SHIFT OpKindFlags_DATA_LENGTH_MASK))
       OR push_bit OpKindFlags_DATA_LENGTH_SHIFT (word_of_int (new_value - 1) AND OpKindFlags_DATA_LENGTH_MASK)\<rparr>"

definition internal_set_declare_data_len :: "u32 \<Rightarrow> Instruction \<Rightarrow> Instruction" where
  "internal_set_declare_data_len new_value self =
     self\<lparr>op_kind_flags := op_kind_flags self OR push_bit OpKindFlags_DATA_LENGTH_SHIFT (new_value - 1)\<rparr>"

subsection \<open>The accessors as bit fields\<close>

lemma layout_masks:
  "MemoryFlags_SCALE_MASK = mask 2" "MemoryFlags_DISPL_SIZE_MASK = mask 3"
  "MemoryFlags_SEGMENT_PREFIX_MASK = mask 3" "OpKindFlags_OP_KIND_MASK = mask 5"
  "OpKindFlags_DATA_LENGTH_MASK = mask 4" "OpKindFlags_CODE_SIZE_MASK = mask 2"
  "CodeFlags_CODE_MASK = mask 13" "CodeFlags_ROUNDING_CONTROL_MASK = mask 3"
  "CodeFlags_OPMASK_MASK = mask 3" "CodeFlags_INSTR_LENGTH_MASK = mask 4"
  by (simp_all add: MemoryFlags_SCALE_MASK_def MemoryFlags_DISPL_SIZE_MASK_def
      MemoryFlags_SEGMENT_PREFIX_MASK_def OpKindFlags_OP_KIND_MASK_def OpKindFlags_OP_KIND_BITS_def
      OpKindFlags_DATA_LENGTH_MASK_def OpKindFlags_CODE_SIZE_MASK_def CodeFlags_CODE_MASK_def
      CodeFlags_CODE_BITS_def CodeFlags_ROUNDING_CONTROL_MASK_def CodeFlags_OPMASK_MASK_def
      CodeFlags_INSTR_LENGTH_MASK_def mask_eq_exp_minus_1)

lemma layout_flags:
  "MemoryFlags_BROADCAST = 2 ^ 15" "CodeFlags_SUPPRESS_ALL_EXCEPTIONS = 2 ^ 25"
  "CodeFlags_ZEROING_MASKING = 2 ^ 26" "CodeFlags_XACQUIRE_PREFIX = 2 ^ 27"
  "CodeFlags_XRELEASE_PREFIX = 2 ^ 28" "CodeFlags_REPE_PREFIX = 2 ^ 29"
  "CodeFlags_REPNE_PREFIX = 2 ^ 30" "CodeFlags_LOCK_PREFIX = 2 ^ 31"
  by (simp_all add: MemoryFlags_BROADCAST_def CodeFlags_SUPPRESS_ALL_EXCEPTIONS_def
      CodeFlags_ZEROING_MASKING_def CodeFlags_XACQUIRE_PREFIX_def CodeFlags_XRELEASE_PREFIX_def
      CodeFlags_REPE_PREFIX_def CodeFlags_REPNE_PREFIX_def CodeFlags_LOCK_PREFIX_def)

lemmas layout_shifts =
  MemoryFlags_DISPL_SIZE_SHIFT_def MemoryFlags_SEGMENT_PREFIX_SHIFT_def
  OpKindFlags_OP1_KIND_SHIFT_def OpKindFlags_OP2_KIND_SHIFT_def OpKindFlags_OP3_KIND_SHIFT_def
  OpKindFlags_DATA_LENGTH_SHIFT_def OpKindFlags_CODE_SIZE_SHIFT_def
  CodeFlags_ROUNDING_CONTROL_SHIFT_def CodeFlags_OPMASK_SHIFT_def CodeFlags_INSTR_LENGTH_SHIFT_def

lemmas layout = layout_masks layout_flags layout_shifts

lemma has_xacquire_prefix_field [iced_field]: "has_xacquire_prefix i = bit (code_flags i) 27"
  by (simp only: has_xacquire_prefix_def layout and_exp_neq_0)

lemma set_has_xacquire_prefix_field [iced_field]:
  "set_has_xacquire_prefix b i = i\<lparr>code_flags := set_field 27 1 (of_bool b) (code_flags i)\<rparr>"
  by (cases b) (simp_all only: set_has_xacquire_prefix_def layout if_True if_False of_bool_eq
      flag_or_set_field [OF refl] flag_and_not_set_field [OF refl])

lemma has_xrelease_prefix_field [iced_field]: "has_xrelease_prefix i = bit (code_flags i) 28"
  by (simp only: has_xrelease_prefix_def layout and_exp_neq_0)

lemma set_has_xrelease_prefix_field [iced_field]:
  "set_has_xrelease_prefix b i = i\<lparr>code_flags := set_field 28 1 (of_bool b) (code_flags i)\<rparr>"
  by (cases b) (simp_all only: set_has_xrelease_prefix_def layout if_True if_False of_bool_eq
      flag_or_set_field [OF refl] flag_and_not_set_field [OF refl])

lemma has_rep_prefix_field [iced_field]: "has_rep_prefix i = bit (code_flags i) 29"
  by (simp only: has_rep_prefix_def layout and_exp_neq_0)

lemma set_has_rep_prefix_field [iced_field]:
  "set_has_rep_prefix b i = i\<lparr>code_flags := set_field 29 1 (of_bool b) (code_flags i)\<rparr>"
  by (cases b) (simp_all only: set_has_rep_prefix_def layout if_True if_False of_bool_eq
      flag_or_set_field [OF refl] flag_and_not_set_field [OF refl])

lemma has_repe_prefix_field [iced_field]: "has_repe_prefix i = bit (code_flags i) 29"
  by (simp only: has_repe_prefix_def layout and_exp_neq_0)

lemma set_has_repe_prefix_field [iced_field]:
  "set_has_repe_prefix b i = i\<lparr>code_flags := set_field 29 1 (of_bool b) (code_flags i)\<rparr>"
  by (cases b) (simp_all only: set_has_repe_prefix_def layout if_True if_False of_bool_eq
      flag_or_set_field [OF refl] flag_and_not_set_field [OF refl])

lemma has_repne_prefix_field [iced_field]: "has_repne_prefix i = bit (code_flags i) 30"
  by (simp only: has_repne_prefix_def layout and_exp_neq_0)

lemma set_has_repne_prefix_field [iced_field]:
  "set_has_repne_prefix b i = i\<lparr>code_flags := set_field 30 1 (of_bool b) (code_flags i)\<rparr>"
  by (cases b) (simp_all only: set_has_repne_prefix_def layout if_True if_False of_bool_eq
      flag_or_set_field [OF refl] flag_and_not_set_field [OF refl])

lemma has_lock_prefix_field [iced_field]: "has_lock_prefix i = bit (code_flags i) 31"
  by (simp only: has_lock_prefix_def layout and_exp_neq_0)

lemma set_has_lock_prefix_field [iced_field]:
  "set_has_lock_prefix b i = i\<lparr>code_flags := set_field 31 1 (of_bool b) (code_flags i)\<rparr>"
  by (cases b) (simp_all only: set_has_lock_prefix_def layout if_True if_False of_bool_eq
      flag_or_set_field [OF refl] flag_and_not_set_field [OF refl])

lemma op0_kind_field [iced_field]:
  "op0_kind i = opkind_of_ord (unat (get_field 0 5 (op_kind_flags i)))"
  by (simp only: op0_kind_def layout get_field_def drop_bit_0 id_apply)

lemma set_op0_kind_field [iced_field]:
  "set_op0_kind k i = i\<lparr>op_kind_flags := set_field 0 5 (of_nat (opkind_ord k)) (op_kind_flags i)\<rparr>"
  by (simp only: set_op0_kind_def layout set_field_def push_bit_0_id id_apply)

lemma op1_kind_field [iced_field]:
  "op1_kind i = opkind_of_ord (unat (get_field 5 5 (op_kind_flags i)))"
  by (simp only: op1_kind_def layout get_field_def)

lemma set_op1_kind_field [iced_field]:
  "set_op1_kind k i = i\<lparr>op_kind_flags := set_field 5 5 (of_nat (opkind_ord k)) (op_kind_flags i)\<rparr>"
  by (simp only: set_op1_kind_def layout set_field_def)

lemma op2_kind_field [iced_field]:
  "op2_kind i = opkind_of_ord (unat (get_field 10 5 (op_kind_flags i)))"
  by (simp only: op2_kind_def layout get_field_def)

lemma set_op2_kind_field [iced_field]:
  "set_op2_kind k i = i\<lparr>op_kind_flags := set_field 10 5 (of_nat (opkind_ord k)) (op_kind_flags i)\<rparr>"
  by (simp only: set_op2_kind_def layout set_field_def)

lemma op3_kind_field [iced_field]:
  "op3_kind i = opkind_of_ord (unat (get_field 15 5 (op_kind_flags i)))"
  by (simp only: op3_kind_def layout get_field_def)

lemma set_op3_kind_field [iced_field]:
  "set_op3_kind k i = i\<lparr>op_kind_flags := set_field 15 5 (of_nat (opkind_ord k)) (op_kind_flags i)\<rparr>"
  by (simp only: set_op3_kind_def layout set_field_def)

lemma code_field [iced_field]: "code i = ucast (get_field 0 13 (code_flags i))"
  by (simp only: code_def layout get_field_def drop_bit_0 id_apply)

lemma set_code_field [iced_field]:
  "set_code c i = i\<lparr>code_flags := set_field 0 13 (ucast c) (code_flags i)\<rparr>"
proof -
  have "(ucast c :: u32) AND mask 13 = ucast c" by simp
  then show ?thesis
    by (simp only: set_code_def layout set_field_def push_bit_0_id id_apply)
qed

lemma opmask_field [iced_field]:
  "opmask i = (let r = get_field 16 3 (code_flags i) in
     if r = 0 then Reg_None else Abs_Register (unat r + reg_ord K0))"
proof -
  have eq: "unat (ucast (r + of_nat (reg_ord K0)) :: u8) = unat r + reg_ord K0"
    if "unat r < 8" for r :: u32
    using that by (simp add: K0_def unsigned_ucast_eq take_bit_eq_mod unat_word_ariths unat_of_nat)
  have "unat (get_field 16 3 (code_flags i)) < 8"
    using get_field_less [of 16 3 "code_flags i"] by simp
  then show ?thesis
    unfolding opmask_def layout get_field_def [symmetric] Let_def by (simp add: eq)
qed

lemma set_opmask_field [iced_field]:
  "set_opmask r i = i\<lparr>code_flags := set_field 16 3
     (if r = Reg_None then 0 else of_nat (reg_ord r) - of_nat (reg_ord K0)) (code_flags i)\<rparr>"
  by (simp add: set_opmask_def layout set_field_def Let_def and.assoc)

lemma has_opmask_field [iced_field]: "has_opmask i = (get_field 16 3 (code_flags i) \<noteq> 0)"
  by (simp only: has_opmask_def layout and_push_bit_mask_eq_0)


lemma internal_opmask_field [iced_field]: "internal_opmask i = get_field 16 3 (code_flags i)"
  by (simp only: internal_opmask_def layout get_field_def)

lemma internal_set_code_no_check_field [iced_field]:
  "internal_set_code_no_check c i = set_code c i"
  by (simp only: internal_set_code_no_check_def set_code_def)

lemma len_field [iced_field]: "len i = uint (get_field 19 4 (code_flags i))"
  by (simp only: len_def layout get_field_def)

lemma set_len_field [iced_field]:
  "set_len v i = i\<lparr>code_flags := set_field 19 4 (word_of_int v) (code_flags i)\<rparr>"
  by (simp only: set_len_def layout set_field_def)

lemma code_size_field [iced_field]:
  "code_size i = codesize_of_ord (unat (get_field 30 2 (op_kind_flags i)))"
  by (simp only: code_size_def layout get_field_def)

lemma set_code_size_field [iced_field]:
  "set_code_size c i = i\<lparr>op_kind_flags := set_field 30 2 (of_nat (codesize_ord c)) (op_kind_flags i)\<rparr>"
  by (simp only: set_code_size_def layout set_field_def)

lemma zeroing_masking_field [iced_field]: "zeroing_masking i = bit (code_flags i) 26"
  by (simp only: zeroing_masking_def layout and_exp_neq_0)

lemma merging_masking_field [iced_field]: "merging_masking i = (\<not> bit (code_flags i) 26)"
  by (simp only: merging_masking_def layout and_exp_eq_0)

lemma set_zeroing_masking_field [iced_field]:
  "set_zeroing_masking b i = i\<lparr>code_flags := set_field 26 1 (of_bool b) (code_flags i)\<rparr>"
  by (cases b) (simp_all only: set_zeroing_masking_def layout if_True if_False of_bool_eq
      flag_or_set_field [OF refl] flag_and_not_set_field [OF refl])

lemma set_merging_masking_field [iced_field]:
  "set_merging_masking b i = i\<lparr>code_flags := set_field 26 1 (of_bool (\<not> b)) (code_flags i)\<rparr>"
  by (cases b) (simp_all only: set_merging_masking_def layout if_True if_False of_bool_eq
      not_True_eq_False not_False_eq_True flag_or_set_field [OF refl] flag_and_not_set_field [OF refl])

lemma suppress_all_exceptions_field [iced_field]:
  "suppress_all_exceptions i = bit (code_flags i) 25"
  by (simp only: suppress_all_exceptions_def layout and_exp_neq_0)

lemma set_suppress_all_exceptions_field [iced_field]:
  "set_suppress_all_exceptions b i = i\<lparr>code_flags := set_field 25 1 (of_bool b) (code_flags i)\<rparr>"
  by (cases b) (simp_all only: set_suppress_all_exceptions_def layout if_True if_False of_bool_eq
      flag_or_set_field [OF refl] flag_and_not_set_field [OF refl])

lemma rounding_control_field [iced_field]:
  "rounding_control i = rc_of_ord (unat (get_field 13 3 (code_flags i)))"
  by (simp only: rounding_control_def layout get_field_def)

lemma set_rounding_control_field [iced_field]:
  "set_rounding_control rc i = i\<lparr>code_flags := set_field 13 3 (of_nat (rc_ord rc)) (code_flags i)\<rparr>"
  by (simp only: set_rounding_control_def layout set_field_def)

lemma declare_data_len_field [iced_field]:
  "declare_data_len i = uint (get_field 20 4 (op_kind_flags i)) + 1"
  by (simp only: declare_data_len_def layout get_field_def)

lemma set_declare_data_len_field [iced_field]:
  "set_declare_data_len v i = i\<lparr>op_kind_flags := set_field 20 4 (word_of_int (v - 1)) (op_kind_flags i)\<rparr>"
  by (simp only: set_declare_data_len_def layout set_field_def)

lemma internal_has_repe_prefix_has_xrelease_prefix_field [iced_field]:
  "internal_has_repe_prefix_has_xrelease_prefix i = (bit (code_flags i) 29 \<or> bit (code_flags i) 28)"
  by (simp only: internal_has_repe_prefix_has_xrelease_prefix_def layout and_two_flags_neq_0)

lemma internal_has_repne_prefix_has_xacquire_prefix_field [iced_field]:
  "internal_has_repne_prefix_has_xacquire_prefix i = (bit (code_flags i) 30 \<or> bit (code_flags i) 27)"
  by (simp only: internal_has_repne_prefix_has_xacquire_prefix_def layout and_two_flags_neq_0)

end
