(* ===== verification/Instruction_Memory.thy ===== *)
theory Instruction_Memory
  imports Instruction
begin

text \<open>
  The accessors of \<open>instruction.rs\<close> lines 638-1390: the memory-operand fields packed
  into the 16-bit \<open>memory_flags\<close> (segment override, displacement size, index scale,
  broadcast), the memory displacement, the shared 32+32-bit payload
  \<open>immediate\<close>/\<open>mem_displ\<close> read as immediates, branch targets and 64-bit addresses,
  the base, index and operand register slots, and the dispatchers by operand number
  \<open>immediate\<close>, \<open>set_immediate_*\<close>, \<open>op_register\<close>, \<open>set_op_register\<close>, which panic
  on an operand number or kind they do not handle. Signed Rust results (\<open>i16\<close>,
  \<open>i32\<close>, \<open>i64\<close>) are \<open>int\<close>; \<open>x as u64\<close> of such a value is \<open>word_of_int x\<close>,
  and \<open>v as i8 as u32\<close> sign-extends, which is \<open>scast\<close>.
\<close>

unbundle bit_operations_syntax

type_synonym i16 = int
type_synonym i64 = int

subsection \<open>Segment override, effective segment\<close>

text \<open>The stored value is 0 for none and \<open>k + 1\<close> for the segment register \<open>ES + k\<close>.\<close>

definition segment_prefix :: "Instruction \<Rightarrow> Register" where
  "segment_prefix self =
     (let index = (drop_bit MemoryFlags_SEGMENT_PREFIX_SHIFT (ucast (memory_flags self))
                   AND MemoryFlags_SEGMENT_PREFIX_MASK) - 1 in
      if index < 6 then Abs_Register (unat (ucast (of_nat (reg_ord ES) + index) :: u8))
      else Reg_None)"

definition set_segment_prefix :: "Register \<Rightarrow> Instruction \<Rightarrow> Instruction" where
  "set_segment_prefix new_value self =
     (let enc_value = if new_value = Reg_None then 0
                      else ((of_nat (reg_ord new_value) - of_nat (reg_ord ES)) + 1)
                           AND MemoryFlags_SEGMENT_PREFIX_MASK in
      self\<lparr>memory_flags := ucast
        ((ucast (memory_flags self) AND NOT (push_bit MemoryFlags_SEGMENT_PREFIX_SHIFT MemoryFlags_SEGMENT_PREFIX_MASK))
         OR push_bit MemoryFlags_SEGMENT_PREFIX_SHIFT enc_value)\<rparr>)"

definition memory_base :: "Instruction \<Rightarrow> Register" where
  "memory_base self = reg_of_u8 (mem_base_reg self)"

definition memory_segment :: "Instruction \<Rightarrow> Register" where
  "memory_segment self =
     (let seg_reg = segment_prefix self in
      if seg_reg \<noteq> Reg_None then seg_reg
      else if memory_base self \<in> {BP, EBP, ESP, RBP, RSP} then SS else DS)"

subsection \<open>Displacement size, broadcast, index scale\<close>

definition memory_displ_size :: "Instruction \<Rightarrow> i32" where
  "memory_displ_size self =
     (let size = drop_bit MemoryFlags_DISPL_SIZE_SHIFT (ucast (memory_flags self)) AND MemoryFlags_DISPL_SIZE_MASK in
      if size \<le> 2 then uint size else if size = 3 then 4 else 8)"

definition set_memory_displ_size :: "i32 \<Rightarrow> Instruction \<Rightarrow> Instruction" where
  "set_memory_displ_size new_value self =
     (let enc_value = (if new_value = 0 then 0 else if new_value = 1 then 1 else if new_value = 2 then 2
                       else if new_value = 4 then 3 else 4) :: u32 in
      self\<lparr>memory_flags := ucast
        ((ucast (memory_flags self) AND NOT (push_bit MemoryFlags_DISPL_SIZE_SHIFT MemoryFlags_DISPL_SIZE_MASK))
         OR push_bit MemoryFlags_DISPL_SIZE_SHIFT enc_value)\<rparr>)"

definition internal_set_memory_displ_size :: "u16 \<Rightarrow> Instruction \<Rightarrow> Instruction" where
  "internal_set_memory_displ_size new_value self =
     self\<lparr>memory_flags := memory_flags self OR push_bit MemoryFlags_DISPL_SIZE_SHIFT new_value\<rparr>"

definition is_broadcast :: "Instruction \<Rightarrow> bool" where
  "is_broadcast self \<longleftrightarrow> memory_flags self AND ucast MemoryFlags_BROADCAST \<noteq> 0"

definition set_is_broadcast :: "bool \<Rightarrow> Instruction \<Rightarrow> Instruction" where
  "set_is_broadcast new_value self =
     (if new_value then self\<lparr>memory_flags := memory_flags self OR ucast MemoryFlags_BROADCAST\<rparr>
      else self\<lparr>memory_flags := memory_flags self AND NOT (ucast MemoryFlags_BROADCAST)\<rparr>)"

definition internal_set_is_broadcast :: "Instruction \<Rightarrow> Instruction" where
  "internal_set_is_broadcast self =
     self\<lparr>memory_flags := memory_flags self OR ucast MemoryFlags_BROADCAST\<rparr>"

definition memory_index_scale :: "Instruction \<Rightarrow> i32" where
  "memory_index_scale self = push_bit (unat (ucast (memory_flags self) AND MemoryFlags_SCALE_MASK)) 1"

text \<open>Any value other than 1, 2 and 4 selects \<open>*8\<close> (a \<open>debug_assert!\<close> checks for 8).\<close>

definition set_memory_index_scale :: "i32 \<Rightarrow> Instruction \<Rightarrow> Instruction" where
  "set_memory_index_scale new_value self =
     (if new_value = 1 then self\<lparr>memory_flags := memory_flags self AND NOT 3\<rparr>
      else if new_value = 2 then
        self\<lparr>memory_flags := (memory_flags self AND NOT (ucast MemoryFlags_SCALE_MASK)) OR 1\<rparr>
      else if new_value = 4 then
        self\<lparr>memory_flags := (memory_flags self AND NOT (ucast MemoryFlags_SCALE_MASK)) OR 2\<rparr>
      else self\<lparr>memory_flags := memory_flags self OR 3\<rparr>)"

definition internal_get_memory_index_scale :: "Instruction \<Rightarrow> i32" where
  "internal_get_memory_index_scale self = uint (memory_flags self AND ucast MemoryFlags_SCALE_MASK)"

definition internal_set_memory_index_scale :: "i32 \<Rightarrow> Instruction \<Rightarrow> Instruction" where
  "internal_set_memory_index_scale new_value self =
     self\<lparr>memory_flags := memory_flags self OR word_of_int new_value\<rparr>"

subsection \<open>Displacement\<close>

definition memory_displacement :: "Instruction \<Rightarrow> u32" where
  "memory_displacement self = mem_displ self"

definition set_memory_displacement :: "u32 \<Rightarrow> Instruction \<Rightarrow> Instruction" where
  "set_memory_displacement new_value self = self\<lparr>mem_displ := new_value\<rparr>"

definition memory_displacement64 :: "Instruction \<Rightarrow> u64" where
  "memory_displacement64 self = scast (mem_displ self)"

subsection \<open>The payload as immediates\<close>

definition immediate8 :: "Instruction \<Rightarrow> u8" where
  "immediate8 self = ucast (immediate self)"

definition set_immediate8 :: "u8 \<Rightarrow> Instruction \<Rightarrow> Instruction" where
  "set_immediate8 new_value self = self\<lparr>immediate := ucast new_value\<rparr>"

definition internal_set_immediate8 :: "u32 \<Rightarrow> Instruction \<Rightarrow> Instruction" where
  "internal_set_immediate8 new_value self = self\<lparr>immediate := new_value\<rparr>"

definition immediate8_2nd :: "Instruction \<Rightarrow> u8" where
  "immediate8_2nd self = ucast (mem_displ self)"

definition set_immediate8_2nd :: "u8 \<Rightarrow> Instruction \<Rightarrow> Instruction" where
  "set_immediate8_2nd new_value self = self\<lparr>mem_displ := ucast new_value\<rparr>"

definition internal_set_immediate8_2nd :: "u32 \<Rightarrow> Instruction \<Rightarrow> Instruction" where
  "internal_set_immediate8_2nd new_value self = self\<lparr>mem_displ := new_value\<rparr>"

definition immediate16 :: "Instruction \<Rightarrow> u16" where
  "immediate16 self = ucast (immediate self)"

definition set_immediate16 :: "u16 \<Rightarrow> Instruction \<Rightarrow> Instruction" where
  "set_immediate16 new_value self = self\<lparr>immediate := ucast new_value\<rparr>"

definition internal_set_immediate16 :: "u32 \<Rightarrow> Instruction \<Rightarrow> Instruction" where
  "internal_set_immediate16 new_value self = self\<lparr>immediate := new_value\<rparr>"

definition immediate32 :: "Instruction \<Rightarrow> u32" where
  "immediate32 self = immediate self"

definition set_immediate32 :: "u32 \<Rightarrow> Instruction \<Rightarrow> Instruction" where
  "set_immediate32 new_value self = self\<lparr>immediate := new_value\<rparr>"

definition immediate64 :: "Instruction \<Rightarrow> u64" where
  "immediate64 self = push_bit 32 (ucast (mem_displ self)) OR ucast (immediate self)"

definition set_immediate64 :: "u64 \<Rightarrow> Instruction \<Rightarrow> Instruction" where
  "set_immediate64 new_value self =
     self\<lparr>immediate := ucast new_value, mem_displ := ucast (drop_bit 32 new_value)\<rparr>"

definition internal_set_immediate64_lo :: "u32 \<Rightarrow> Instruction \<Rightarrow> Instruction" where
  "internal_set_immediate64_lo new_value self = self\<lparr>immediate := new_value\<rparr>"

definition internal_set_immediate64_hi :: "u32 \<Rightarrow> Instruction \<Rightarrow> Instruction" where
  "internal_set_immediate64_hi new_value self = self\<lparr>mem_displ := new_value\<rparr>"

definition immediate8to16 :: "Instruction \<Rightarrow> i16" where
  "immediate8to16 self = sint (ucast (immediate self) :: 8 word)"

definition set_immediate8to16 :: "i16 \<Rightarrow> Instruction \<Rightarrow> Instruction" where
  "set_immediate8to16 new_value self = self\<lparr>immediate := scast (word_of_int new_value :: 8 word)\<rparr>"

definition immediate8to32 :: "Instruction \<Rightarrow> i32" where
  "immediate8to32 self = sint (ucast (immediate self) :: 8 word)"

definition set_immediate8to32 :: "i32 \<Rightarrow> Instruction \<Rightarrow> Instruction" where
  "set_immediate8to32 new_value self = self\<lparr>immediate := scast (word_of_int new_value :: 8 word)\<rparr>"

definition immediate8to64 :: "Instruction \<Rightarrow> i64" where
  "immediate8to64 self = sint (ucast (immediate self) :: 8 word)"

definition set_immediate8to64 :: "i64 \<Rightarrow> Instruction \<Rightarrow> Instruction" where
  "set_immediate8to64 new_value self = self\<lparr>immediate := scast (word_of_int new_value :: 8 word)\<rparr>"

definition immediate32to64 :: "Instruction \<Rightarrow> i64" where
  "immediate32to64 self = sint (immediate self)"

definition set_immediate32to64 :: "i64 \<Rightarrow> Instruction \<Rightarrow> Instruction" where
  "set_immediate32to64 new_value self = self\<lparr>immediate := word_of_int new_value\<rparr>"

subsection \<open>The payload as addresses and branch targets\<close>

definition memory_address64 :: "Instruction \<Rightarrow> u64" where
  "memory_address64 self = push_bit 32 (ucast (mem_displ self)) OR ucast (immediate self)"

definition set_memory_address64 :: "u64 \<Rightarrow> Instruction \<Rightarrow> Instruction" where
  "set_memory_address64 new_value self =
     self\<lparr>immediate := ucast new_value, mem_displ := ucast (drop_bit 32 new_value)\<rparr>"

definition internal_set_memory_address64_lo :: "u32 \<Rightarrow> Instruction \<Rightarrow> Instruction" where
  "internal_set_memory_address64_lo new_value self = self\<lparr>immediate := new_value\<rparr>"

definition internal_set_memory_address64_hi :: "u32 \<Rightarrow> Instruction \<Rightarrow> Instruction" where
  "internal_set_memory_address64_hi new_value self = self\<lparr>mem_displ := new_value\<rparr>"

definition near_branch16 :: "Instruction \<Rightarrow> u16" where
  "near_branch16 self = ucast (immediate self)"

definition set_near_branch16 :: "u16 \<Rightarrow> Instruction \<Rightarrow> Instruction" where
  "set_near_branch16 new_value self = self\<lparr>immediate := ucast new_value\<rparr>"

definition internal_set_near_branch16 :: "u32 \<Rightarrow> Instruction \<Rightarrow> Instruction" where
  "internal_set_near_branch16 new_value self = self\<lparr>immediate := new_value\<rparr>"

definition near_branch32 :: "Instruction \<Rightarrow> u32" where
  "near_branch32 self = immediate self"

definition set_near_branch32 :: "u32 \<Rightarrow> Instruction \<Rightarrow> Instruction" where
  "set_near_branch32 new_value self = self\<lparr>immediate := new_value\<rparr>"

definition near_branch64 :: "Instruction \<Rightarrow> u64" where
  "near_branch64 self = push_bit 32 (ucast (mem_displ self)) OR ucast (immediate self)"

definition set_near_branch64 :: "u64 \<Rightarrow> Instruction \<Rightarrow> Instruction" where
  "set_near_branch64 new_value self =
     self\<lparr>immediate := ucast new_value, mem_displ := ucast (drop_bit 32 new_value)\<rparr>"

definition near_branch_target :: "Instruction \<Rightarrow> u64" where
  "near_branch_target self =
     (case op0_kind self of
        NearBranch16 \<Rightarrow> ucast (near_branch16 self)
      | NearBranch32 \<Rightarrow> ucast (near_branch32 self)
      | NearBranch64 \<Rightarrow> near_branch64 self
      | _ \<Rightarrow> 0)"

definition far_branch16 :: "Instruction \<Rightarrow> u16" where
  "far_branch16 self = ucast (immediate self)"

definition set_far_branch16 :: "u16 \<Rightarrow> Instruction \<Rightarrow> Instruction" where
  "set_far_branch16 new_value self = self\<lparr>immediate := ucast new_value\<rparr>"

definition internal_set_far_branch16 :: "u32 \<Rightarrow> Instruction \<Rightarrow> Instruction" where
  "internal_set_far_branch16 new_value self = self\<lparr>immediate := new_value\<rparr>"

definition far_branch32 :: "Instruction \<Rightarrow> u32" where
  "far_branch32 self = immediate self"

definition set_far_branch32 :: "u32 \<Rightarrow> Instruction \<Rightarrow> Instruction" where
  "set_far_branch32 new_value self = self\<lparr>immediate := new_value\<rparr>"

definition far_branch_selector :: "Instruction \<Rightarrow> u16" where
  "far_branch_selector self = ucast (mem_displ self)"

definition set_far_branch_selector :: "u16 \<Rightarrow> Instruction \<Rightarrow> Instruction" where
  "set_far_branch_selector new_value self = self\<lparr>mem_displ := ucast new_value\<rparr>"

definition internal_set_far_branch_selector :: "u32 \<Rightarrow> Instruction \<Rightarrow> Instruction" where
  "internal_set_far_branch_selector new_value self = self\<lparr>mem_displ := new_value\<rparr>"

subsection \<open>Register slots\<close>

definition set_memory_base :: "Register \<Rightarrow> Instruction \<Rightarrow> Instruction" where
  "set_memory_base new_value self = self\<lparr>mem_base_reg := reg_to_u8 new_value\<rparr>"

definition internal_set_memory_base :: "Register \<Rightarrow> Instruction \<Rightarrow> Instruction" where
  "internal_set_memory_base new_value self = self\<lparr>mem_base_reg := reg_to_u8 new_value\<rparr>"

definition memory_index :: "Instruction \<Rightarrow> Register" where
  "memory_index self = reg_of_u8 (mem_index_reg self)"

definition set_memory_index :: "Register \<Rightarrow> Instruction \<Rightarrow> Instruction" where
  "set_memory_index new_value self = self\<lparr>mem_index_reg := reg_to_u8 new_value\<rparr>"

definition internal_set_memory_index :: "Register \<Rightarrow> Instruction \<Rightarrow> Instruction" where
  "internal_set_memory_index new_value self = self\<lparr>mem_index_reg := reg_to_u8 new_value\<rparr>"

definition op0_register :: "Instruction \<Rightarrow> Register" where
  "op0_register self = reg_of_u8 (reg0 self)"

definition set_op0_register :: "Register \<Rightarrow> Instruction \<Rightarrow> Instruction" where
  "set_op0_register new_value self = self\<lparr>reg0 := reg_to_u8 new_value\<rparr>"

definition internal_set_op0_register :: "Register \<Rightarrow> Instruction \<Rightarrow> Instruction" where
  "internal_set_op0_register new_value self = self\<lparr>reg0 := reg_to_u8 new_value\<rparr>"

definition op1_register :: "Instruction \<Rightarrow> Register" where
  "op1_register self = reg_of_u8 (reg1 self)"

definition set_op1_register :: "Register \<Rightarrow> Instruction \<Rightarrow> Instruction" where
  "set_op1_register new_value self = self\<lparr>reg1 := reg_to_u8 new_value\<rparr>"

definition internal_set_op1_register :: "Register \<Rightarrow> Instruction \<Rightarrow> Instruction" where
  "internal_set_op1_register new_value self = self\<lparr>reg1 := reg_to_u8 new_value\<rparr>"

definition op2_register :: "Instruction \<Rightarrow> Register" where
  "op2_register self = reg_of_u8 (reg2 self)"

definition set_op2_register :: "Register \<Rightarrow> Instruction \<Rightarrow> Instruction" where
  "set_op2_register new_value self = self\<lparr>reg2 := reg_to_u8 new_value\<rparr>"

definition internal_set_op2_register :: "Register \<Rightarrow> Instruction \<Rightarrow> Instruction" where
  "internal_set_op2_register new_value self = self\<lparr>reg2 := reg_to_u8 new_value\<rparr>"

definition op3_register :: "Instruction \<Rightarrow> Register" where
  "op3_register self = reg_of_u8 (reg3 self)"

definition set_op3_register :: "Register \<Rightarrow> Instruction \<Rightarrow> Instruction" where
  "set_op3_register new_value self = self\<lparr>reg3 := reg_to_u8 new_value\<rparr>"

definition internal_set_op3_register :: "Register \<Rightarrow> Instruction \<Rightarrow> Instruction" where
  "internal_set_op3_register new_value self = self\<lparr>reg3 := reg_to_u8 new_value\<rparr>"

text \<open>Operand 4 has no register slot.\<close>

definition op4_register :: "Instruction \<Rightarrow> Register" where
  "op4_register self = Reg_None"

definition set_op4_register :: "Register \<Rightarrow> Instruction \<Rightarrow> Instruction result" where
  "set_op4_register new_value self = (if new_value \<noteq> Reg_None then Inl NYI else Inr self)"

definition op_register :: "Instruction \<Rightarrow> i32 \<Rightarrow> Register result" where
  "op_register self operand =
     (if operand = 0 then Inr (op0_register self)
      else if operand = 1 then Inr (op1_register self)
      else if operand = 2 then Inr (op2_register self)
      else if operand = 3 then Inr (op3_register self)
      else if operand = 4 then Inr (op4_register self)
      else Inl NYI)"

definition set_op_register :: "i32 \<Rightarrow> Register \<Rightarrow> Instruction \<Rightarrow> Instruction result" where
  "set_op_register operand new_value self =
     (if operand = 0 then Inr (set_op0_register new_value self)
      else if operand = 1 then Inr (set_op1_register new_value self)
      else if operand = 2 then Inr (set_op2_register new_value self)
      else if operand = 3 then Inr (set_op3_register new_value self)
      else if operand = 4 then set_op4_register new_value self
      else Inl NYI)"

subsection \<open>Immediates by operand number\<close>

text \<open>\<open>immediate(operand)\<close> widens the narrow accessor of the operand's kind to \<open>u64\<close>
  (\<open>as u64\<close>: zero-extension of the unsigned ones, sign-extension of the signed ones).\<close>

definition immediate_op :: "Instruction \<Rightarrow> i32 \<Rightarrow> u64 result" where
  "immediate_op self operand =
     (case op_kind self operand of
        Inl e \<Rightarrow> Inl e
      | Inr k \<Rightarrow>
         (case k of
            Immediate8 \<Rightarrow> Inr (ucast (immediate8 self))
          | Immediate8_2nd \<Rightarrow> Inr (ucast (immediate8_2nd self))
          | Immediate16 \<Rightarrow> Inr (ucast (immediate16 self))
          | Immediate32 \<Rightarrow> Inr (ucast (immediate32 self))
          | Immediate64 \<Rightarrow> Inr (immediate64 self)
          | Immediate8to16 \<Rightarrow> Inr (word_of_int (immediate8to16 self))
          | Immediate8to32 \<Rightarrow> Inr (word_of_int (immediate8to32 self))
          | Immediate8to64 \<Rightarrow> Inr (word_of_int (immediate8to64 self))
          | Immediate32to64 \<Rightarrow> Inr (word_of_int (immediate32to64 self))
          | _ \<Rightarrow> Inl NYI))"

definition set_immediate_u64 :: "i32 \<Rightarrow> u64 \<Rightarrow> Instruction \<Rightarrow> Instruction result" where
  "set_immediate_u64 operand new_value self =
     (case op_kind self operand of
        Inl e \<Rightarrow> Inl e
      | Inr k \<Rightarrow>
         (if k \<in> {Immediate8, Immediate8to16, Immediate8to32, Immediate8to64}
          then Inr (self\<lparr>immediate := ucast (ucast new_value :: u8)\<rparr>)
          else if k = Immediate8_2nd then Inr (self\<lparr>mem_displ := ucast (ucast new_value :: u8)\<rparr>)
          else if k = Immediate16 then Inr (self\<lparr>immediate := ucast (ucast new_value :: u16)\<rparr>)
          else if k \<in> {Immediate32to64, Immediate32} then Inr (self\<lparr>immediate := ucast new_value\<rparr>)
          else if k = Immediate64 then Inr (set_immediate64 new_value self)
          else Inl NYI))"

definition set_immediate_i32 :: "i32 \<Rightarrow> i32 \<Rightarrow> Instruction \<Rightarrow> Instruction result" where
  "set_immediate_i32 operand new_value self = set_immediate_u64 operand (word_of_int new_value) self"

definition set_immediate_u32 :: "i32 \<Rightarrow> u32 \<Rightarrow> Instruction \<Rightarrow> Instruction result" where
  "set_immediate_u32 operand new_value self = set_immediate_u64 operand (ucast new_value) self"

definition set_immediate_i64 :: "i32 \<Rightarrow> i64 \<Rightarrow> Instruction \<Rightarrow> Instruction result" where
  "set_immediate_i64 operand new_value self = set_immediate_u64 operand (word_of_int new_value) self"

subsection \<open>The accessors as bit fields\<close>

lemma memory_displ_size_field [iced_field]:
  "memory_displ_size i = (let s = get_field 2 3 (memory_flags i) in
     if s \<le> 2 then uint s else if s = 3 then 4 else 8)"
proof -
  have "drop_bit MemoryFlags_DISPL_SIZE_SHIFT (ucast (memory_flags i) :: u32) AND MemoryFlags_DISPL_SIZE_MASK
        = ucast (get_field 2 3 (memory_flags i))"
    by (simp only: layout get_field_def [symmetric]) (simp add: get_field_ucast)
  moreover have "(ucast s :: u32) \<le> 2 \<longleftrightarrow> s \<le> 2" "(ucast s :: u32) = 3 \<longleftrightarrow> s = 3"
    "uint (ucast s :: u32) = uint s" for s :: u16
    using ucast_widen_le_iff [of s "2::u16", where 'b=32] ucast_widen_eq_iff [of s "3::u16", where 'b=32]
      uint_ucast_widen [of s, where 'b=32]
    by simp_all
  ultimately show ?thesis
    by (simp add: memory_displ_size_def Let_def)
qed


lemma mf_get_field:
  "drop_bit s (ucast (memory_flags i) :: u32) AND mask w = ucast (get_field s w (memory_flags i))"
  by (simp only: get_field_def [symmetric]) (simp add: get_field_ucast)

lemma mf_set_field:
  "(ucast ((ucast (memory_flags i) :: u32) AND NOT (push_bit s (mask w)) OR push_bit s (v AND mask w)) :: u16)
   = set_field s w (ucast v) (memory_flags i)"
  by (simp only: set_field_def [symmetric]) (simp add: ucast_set_field_ucast)

lemma set_memory_displ_size_field [iced_field]:
  "set_memory_displ_size v i = i\<lparr>memory_flags := set_field 2 3
     (if v = 0 then 0 else if v = 1 then 1 else if v = 2 then 2 else if v = 4 then 3 else 4)
     (memory_flags i)\<rparr>"
proof -
  let ?e = "(if v = 0 then 0 else if v = 1 then 1 else if v = 2 then 2 else if v = 4 then 3 else 4) :: u32"
  have m: "?e = ?e AND mask 3"
    by (auto simp: mask_eq_exp_minus_1)
  have u: "(ucast ?e :: u16) = (if v = 0 then 0 else if v = 1 then 1 else if v = 2 then 2 else if v = 4 then 3 else 4)"
    by simp
  have "set_memory_displ_size v i = i\<lparr>memory_flags := ucast ((ucast (memory_flags i) :: u32)
          AND NOT (push_bit 2 (mask 3)) OR push_bit 2 (?e AND mask 3))\<rparr>"
    by (subst m [symmetric]) (simp only: set_memory_displ_size_def Let_def layout)
  then show ?thesis
    by (simp only: mf_set_field u)
qed

lemma segment_index_less_6:
  fixes p :: u16
  assumes "unat p < 8"
  shows "(ucast p - 1 :: u32) < 6 \<longleftrightarrow> p \<noteq> 0 \<and> p \<le> 6"
proof (cases "p = 0")
  case True
  then show ?thesis by simp
next
  case False
  then have "unat p \<noteq> 0" by (simp add: unat_eq_zero)
  then have "1 \<le> (ucast p :: u32)"
    by (simp add: word_le_nat_alt unat_ucast_widen)
  then have "unat (ucast p - 1 :: u32) = unat p - 1"
    by (simp add: unat_sub unat_ucast_widen)
  then show ?thesis
    using False \<open>unat p \<noteq> 0\<close> by (simp add: word_less_nat_alt word_le_nat_alt) arith
qed

lemma segment_index_reg:
  fixes p :: u16
  assumes "p \<noteq> 0" "p \<le> 6"
  shows "unat (ucast (of_nat (reg_ord ES) + (ucast p - 1 :: u32)) :: u8) = reg_ord ES + unat p - 1"
proof -
  have es: "reg_ord ES = 71" by (simp add: ES_def)
  have p: "unat p \<noteq> 0" "unat p \<le> 6"
    using assms by (simp_all add: unat_eq_zero word_le_nat_alt)
  then have "1 \<le> (ucast p :: u32)"
    by (simp add: word_le_nat_alt unat_ucast_widen)
  then have s: "unat (ucast p - 1 :: u32) = unat p - 1"
    by (simp add: unat_sub unat_ucast_widen)
  have "unat (of_nat 71 + (ucast p - 1) :: u32) = 71 + (unat p - 1)"
    using p by (simp add: unat_word_ariths s unat_ucast_widen)
  then show ?thesis
    using p by (simp add: es unsigned_ucast_eq take_bit_nat_eq_self)
qed


lemma segment_prefix_field [iced_field]:
  "segment_prefix i = (let p = get_field 5 3 (memory_flags i) in
     if p \<noteq> 0 \<and> p \<le> 6 then Abs_Register (reg_ord ES + unat p - 1) else Reg_None)"
proof -
  let ?p = "get_field 5 3 (memory_flags i)"
  have "unat ?p < 8"
    using get_field_less [of 5 3 "memory_flags i"] by simp
  then have "(ucast ?p - 1 :: u32) < 6 \<longleftrightarrow> ?p \<noteq> 0 \<and> ?p \<le> 6"
    by (rule segment_index_less_6)
  then show ?thesis
    unfolding segment_prefix_def layout mf_get_field Let_def
    by (simp add: segment_index_reg)
qed

lemma broadcast_flag: "(ucast MemoryFlags_BROADCAST :: u16) = 2 ^ 15"
  by (intro bit_word_eqI) (auto simp: layout bit_simps)

lemma is_broadcast_field [iced_field]: "is_broadcast i = bit (memory_flags i) 15"
  by (simp only: is_broadcast_def broadcast_flag and_exp_neq_0)

lemma set_is_broadcast_field [iced_field]:
  "set_is_broadcast b i = i\<lparr>memory_flags := set_field 15 1 (of_bool b) (memory_flags i)\<rparr>"
  by (cases b) (simp_all only: set_is_broadcast_def broadcast_flag if_True if_False of_bool_eq
      flag_or_set_field [OF refl] flag_and_not_set_field [OF refl])

lemma internal_set_is_broadcast_field [iced_field]:
  "internal_set_is_broadcast i = set_is_broadcast True i"
  by (simp only: internal_set_is_broadcast_def set_is_broadcast_def if_True)

lemma memory_index_scale_field [iced_field]:
  "memory_index_scale i = 2 ^ unat (get_field 0 2 (memory_flags i))"
proof -
  have "(ucast (memory_flags i) :: u32) AND mask 2 = ucast (get_field 0 2 (memory_flags i))"
    using mf_get_field [of 0 i 2] by (simp only: drop_bit_0 id_apply)
  then show ?thesis
    by (simp only: memory_index_scale_def layout) (simp add: unat_ucast_widen push_bit_of_1)
qed

lemma internal_get_memory_index_scale_field [iced_field]:
  "internal_get_memory_index_scale i = uint (get_field 0 2 (memory_flags i))"
proof -
  have "(ucast (mask 2 :: u32) :: u16) = mask 2"
    by (intro bit_word_eqI) (simp add: bit_simps)
  then show ?thesis
    by (simp only: internal_get_memory_index_scale_def layout get_field_def drop_bit_0 id_apply)
qed

lemma set_memory_index_scale_field [iced_field]:
  "set_memory_index_scale v i = i\<lparr>memory_flags := set_field 0 2
     (if v = 1 then 0 else if v = 2 then 1 else if v = 4 then 2 else 3) (memory_flags i)\<rparr>"
proof -
  have t: "(3::u16) = mask 2" "(ucast MemoryFlags_SCALE_MASK :: u16) = mask 2"
    by (simp_all add: MemoryFlags_SCALE_MASK_def mask_eq_exp_minus_1)
  have m: "(0::u16) AND mask 2 = 0" "(1::u16) AND mask 2 = 1" "(2::u16) AND mask 2 = 2"
    "(mask 2::u16) AND mask 2 = mask 2"
    by (simp_all add: mask_eq_exp_minus_1)
  have o: "(x AND NOT (mask 2)) OR mask 2 = x OR (mask 2 :: u16)" for x
    by (intro bit_word_eqI) (auto simp: bit_simps)
  show ?thesis
    by (simp add: set_memory_index_scale_def t set_field_low_2 [OF m(1)] set_field_low_2 [OF m(2)]
        set_field_low_2 [OF m(3)] set_field_low_2 [OF m(4)] o)
qed

lemma set_segment_prefix_field [iced_field]:
  "set_segment_prefix r i = i\<lparr>memory_flags := set_field 5 3
     (ucast (if r = Reg_None then 0 else of_nat (reg_ord r) - of_nat (reg_ord ES) + 1 :: u32))
     (memory_flags i)\<rparr>"
proof -
  have "(ucast ((ucast (memory_flags i) :: u32) AND NOT (push_bit 5 (mask 3)) OR push_bit 5
          (if r = Reg_None then 0 else (of_nat (reg_ord r) - of_nat (reg_ord ES) + 1) AND mask 3)) :: u16)
        = set_field 5 3 (ucast (if r = Reg_None then 0 else of_nat (reg_ord r) - of_nat (reg_ord ES) + 1 :: u32))
            (memory_flags i)"
    by (intro bit_word_eqI) (auto simp: set_field_def bit_simps)
  then show ?thesis
    by (simp only: set_segment_prefix_def Let_def layout)
qed

end
