(* ===== verification/Instruction_View.thy ===== *)
theory Instruction_View
  imports Instruction_Memory
begin

text \<open>
  The contract of the instruction's accessors. \<open>InstructionView\<close> has one field per
  logical property a getter of \<open>instruction.rs\<close> reads; \<open>view\<close> reads them all.
  \<open>InstrOp\<close> names every public setter with its argument and \<open>exec_op\<close> runs it;
  \<open>abs_op\<close> is what the setter promises: that field, and no other, takes the new
  value. \<open>valid_op\<close> restricts the arguments to those the field can represent
  (an instruction length below 16, a declare-data count of 1 to 16, the opmask registers
  \<open>K1\<close>..\<open>K7\<close>, the segment registers, the displacement sizes 0/1/2/4/8 and the
  scales 1/2/4/8); outside them the round-trip lemmas say exactly what is stored.
\<close>

unbundle bit_operations_syntax

record InstructionView =
  iv_next_ip :: u64
  iv_code :: Code
  iv_code_size :: CodeSize
  iv_len :: i32
  iv_xacquire :: bool
  iv_xrelease :: bool
  iv_repe :: bool
  iv_repne :: bool
  iv_lock :: bool
  iv_op0_kind :: OpKind
  iv_op1_kind :: OpKind
  iv_op2_kind :: OpKind
  iv_op3_kind :: OpKind
  iv_opmask :: Register
  iv_zeroing :: bool
  iv_rounding :: RoundingControl
  iv_sae :: bool
  iv_declare_data_len :: i32
  iv_segment_prefix :: Register
  iv_displ_size :: i32
  iv_scale :: i32
  iv_broadcast :: bool
  iv_displ :: u32
  iv_immediate :: u32
  iv_memory_base :: Register
  iv_memory_index :: Register
  iv_op0_register :: Register
  iv_op1_register :: Register
  iv_op2_register :: Register
  iv_op3_register :: Register

definition view :: "Instruction \<Rightarrow> InstructionView" where
  "view i = \<lparr>iv_next_ip = next_ip i,
     iv_code = code i,
     iv_code_size = code_size i,
     iv_len = len i,
     iv_xacquire = has_xacquire_prefix i,
     iv_xrelease = has_xrelease_prefix i,
     iv_repe = has_repe_prefix i,
     iv_repne = has_repne_prefix i,
     iv_lock = has_lock_prefix i,
     iv_op0_kind = op0_kind i,
     iv_op1_kind = op1_kind i,
     iv_op2_kind = op2_kind i,
     iv_op3_kind = op3_kind i,
     iv_opmask = opmask i,
     iv_zeroing = zeroing_masking i,
     iv_rounding = rounding_control i,
     iv_sae = suppress_all_exceptions i,
     iv_declare_data_len = declare_data_len i,
     iv_segment_prefix = segment_prefix i,
     iv_displ_size = memory_displ_size i,
     iv_scale = memory_index_scale i,
     iv_broadcast = is_broadcast i,
     iv_displ = memory_displacement i,
     iv_immediate = immediate32 i,
     iv_memory_base = memory_base i,
     iv_memory_index = memory_index i,
     iv_op0_register = op0_register i,
     iv_op1_register = op1_register i,
     iv_op2_register = op2_register i,
     iv_op3_register = op3_register i\<rparr>"

datatype InstrOp =
    SetCode Code
  | SetCodeSize CodeSize
  | SetLen i32
  | SetNextIp u64
  | SetNextIp32 u32
  | SetNextIp16 u16
  | SetIp u64
  | SetIp32 u32
  | SetIp16 u16
  | SetXacquire bool
  | SetXrelease bool
  | SetRep bool
  | SetRepe bool
  | SetRepne bool
  | SetLock bool
  | SetOp0Kind OpKind
  | SetOp1Kind OpKind
  | SetOp2Kind OpKind
  | SetOp3Kind OpKind
  | SetOpmask Register
  | SetZeroingMasking bool
  | SetMergingMasking bool
  | SetRoundingControl RoundingControl
  | SetSuppressAllExceptions bool
  | SetDeclareDataLen i32
  | SetSegmentPrefix Register
  | SetMemoryDisplSize i32
  | SetMemoryIndexScale i32
  | SetIsBroadcast bool
  | SetMemoryDisplacement u32
  | SetImmediate8 u8
  | SetImmediate8_2nd u8
  | SetImmediate16 u16
  | SetImmediate32 u32
  | SetImmediate64 u64
  | SetImmediate8to16 i16
  | SetImmediate8to32 i32
  | SetImmediate8to64 i64
  | SetImmediate32to64 i64
  | SetMemoryAddress64 u64
  | SetNearBranch16 u16
  | SetNearBranch32 u32
  | SetNearBranch64 u64
  | SetFarBranch16 u16
  | SetFarBranch32 u32
  | SetFarBranchSelector u16
  | SetMemoryBase Register
  | SetMemoryIndex Register
  | SetOp0Register Register
  | SetOp1Register Register
  | SetOp2Register Register
  | SetOp3Register Register

primrec exec_op :: "InstrOp \<Rightarrow> Instruction \<Rightarrow> Instruction" where
  "exec_op (SetCode a) i = set_code a i"
| "exec_op (SetCodeSize a) i = set_code_size a i"
| "exec_op (SetLen a) i = set_len a i"
| "exec_op (SetNextIp a) i = set_next_ip a i"
| "exec_op (SetNextIp32 a) i = set_next_ip32 a i"
| "exec_op (SetNextIp16 a) i = set_next_ip16 a i"
| "exec_op (SetIp a) i = set_ip a i"
| "exec_op (SetIp32 a) i = set_ip32 a i"
| "exec_op (SetIp16 a) i = set_ip16 a i"
| "exec_op (SetXacquire a) i = set_has_xacquire_prefix a i"
| "exec_op (SetXrelease a) i = set_has_xrelease_prefix a i"
| "exec_op (SetRep a) i = set_has_rep_prefix a i"
| "exec_op (SetRepe a) i = set_has_repe_prefix a i"
| "exec_op (SetRepne a) i = set_has_repne_prefix a i"
| "exec_op (SetLock a) i = set_has_lock_prefix a i"
| "exec_op (SetOp0Kind a) i = set_op0_kind a i"
| "exec_op (SetOp1Kind a) i = set_op1_kind a i"
| "exec_op (SetOp2Kind a) i = set_op2_kind a i"
| "exec_op (SetOp3Kind a) i = set_op3_kind a i"
| "exec_op (SetOpmask a) i = set_opmask a i"
| "exec_op (SetZeroingMasking a) i = set_zeroing_masking a i"
| "exec_op (SetMergingMasking a) i = set_merging_masking a i"
| "exec_op (SetRoundingControl a) i = set_rounding_control a i"
| "exec_op (SetSuppressAllExceptions a) i = set_suppress_all_exceptions a i"
| "exec_op (SetDeclareDataLen a) i = set_declare_data_len a i"
| "exec_op (SetSegmentPrefix a) i = set_segment_prefix a i"
| "exec_op (SetMemoryDisplSize a) i = set_memory_displ_size a i"
| "exec_op (SetMemoryIndexScale a) i = set_memory_index_scale a i"
| "exec_op (SetIsBroadcast a) i = set_is_broadcast a i"
| "exec_op (SetMemoryDisplacement a) i = set_memory_displacement a i"
| "exec_op (SetImmediate8 a) i = set_immediate8 a i"
| "exec_op (SetImmediate8_2nd a) i = set_immediate8_2nd a i"
| "exec_op (SetImmediate16 a) i = set_immediate16 a i"
| "exec_op (SetImmediate32 a) i = set_immediate32 a i"
| "exec_op (SetImmediate64 a) i = set_immediate64 a i"
| "exec_op (SetImmediate8to16 a) i = set_immediate8to16 a i"
| "exec_op (SetImmediate8to32 a) i = set_immediate8to32 a i"
| "exec_op (SetImmediate8to64 a) i = set_immediate8to64 a i"
| "exec_op (SetImmediate32to64 a) i = set_immediate32to64 a i"
| "exec_op (SetMemoryAddress64 a) i = set_memory_address64 a i"
| "exec_op (SetNearBranch16 a) i = set_near_branch16 a i"
| "exec_op (SetNearBranch32 a) i = set_near_branch32 a i"
| "exec_op (SetNearBranch64 a) i = set_near_branch64 a i"
| "exec_op (SetFarBranch16 a) i = set_far_branch16 a i"
| "exec_op (SetFarBranch32 a) i = set_far_branch32 a i"
| "exec_op (SetFarBranchSelector a) i = set_far_branch_selector a i"
| "exec_op (SetMemoryBase a) i = set_memory_base a i"
| "exec_op (SetMemoryIndex a) i = set_memory_index a i"
| "exec_op (SetOp0Register a) i = set_op0_register a i"
| "exec_op (SetOp1Register a) i = set_op1_register a i"
| "exec_op (SetOp2Register a) i = set_op2_register a i"
| "exec_op (SetOp3Register a) i = set_op3_register a i"

fun valid_op :: "InstrOp \<Rightarrow> bool" where
  "valid_op (SetLen a) \<longleftrightarrow> 0 \<le> a \<and> a < 16"
| "valid_op (SetOpmask a) \<longleftrightarrow> a = Reg_None \<or> K1 \<le> a \<and> a \<le> K7"
| "valid_op (SetDeclareDataLen a) \<longleftrightarrow> 1 \<le> a \<and> a \<le> 16"
| "valid_op (SetSegmentPrefix a) \<longleftrightarrow> a = Reg_None \<or> ES \<le> a \<and> a \<le> GS"
| "valid_op (SetMemoryDisplSize a) \<longleftrightarrow> a \<in> {0, 1, 2, 4, 8}"
| "valid_op (SetMemoryIndexScale a) \<longleftrightarrow> a \<in> {1, 2, 4, 8}"
| "valid_op _ \<longleftrightarrow> True"

primrec abs_op :: "InstrOp \<Rightarrow> InstructionView \<Rightarrow> InstructionView" where
  "abs_op (SetCode a) v = v\<lparr>iv_code := a\<rparr>"
| "abs_op (SetCodeSize a) v = v\<lparr>iv_code_size := a\<rparr>"
| "abs_op (SetLen a) v = v\<lparr>iv_len := a\<rparr>"
| "abs_op (SetNextIp a) v = v\<lparr>iv_next_ip := a\<rparr>"
| "abs_op (SetNextIp32 a) v = v\<lparr>iv_next_ip := ucast a\<rparr>"
| "abs_op (SetNextIp16 a) v = v\<lparr>iv_next_ip := ucast a\<rparr>"
| "abs_op (SetIp a) v = v\<lparr>iv_next_ip := a + word_of_int (iv_len v)\<rparr>"
| "abs_op (SetIp32 a) v = v\<lparr>iv_next_ip := ucast a + word_of_int (iv_len v)\<rparr>"
| "abs_op (SetIp16 a) v = v\<lparr>iv_next_ip := ucast a + word_of_int (iv_len v)\<rparr>"
| "abs_op (SetXacquire a) v = v\<lparr>iv_xacquire := a\<rparr>"
| "abs_op (SetXrelease a) v = v\<lparr>iv_xrelease := a\<rparr>"
| "abs_op (SetRep a) v = v\<lparr>iv_repe := a\<rparr>"
| "abs_op (SetRepe a) v = v\<lparr>iv_repe := a\<rparr>"
| "abs_op (SetRepne a) v = v\<lparr>iv_repne := a\<rparr>"
| "abs_op (SetLock a) v = v\<lparr>iv_lock := a\<rparr>"
| "abs_op (SetOp0Kind a) v = v\<lparr>iv_op0_kind := a\<rparr>"
| "abs_op (SetOp1Kind a) v = v\<lparr>iv_op1_kind := a\<rparr>"
| "abs_op (SetOp2Kind a) v = v\<lparr>iv_op2_kind := a\<rparr>"
| "abs_op (SetOp3Kind a) v = v\<lparr>iv_op3_kind := a\<rparr>"
| "abs_op (SetOpmask a) v = v\<lparr>iv_opmask := a\<rparr>"
| "abs_op (SetZeroingMasking a) v = v\<lparr>iv_zeroing := a\<rparr>"
| "abs_op (SetMergingMasking a) v = v\<lparr>iv_zeroing := \<not> a\<rparr>"
| "abs_op (SetRoundingControl a) v = v\<lparr>iv_rounding := a\<rparr>"
| "abs_op (SetSuppressAllExceptions a) v = v\<lparr>iv_sae := a\<rparr>"
| "abs_op (SetDeclareDataLen a) v = v\<lparr>iv_declare_data_len := a\<rparr>"
| "abs_op (SetSegmentPrefix a) v = v\<lparr>iv_segment_prefix := a\<rparr>"
| "abs_op (SetMemoryDisplSize a) v = v\<lparr>iv_displ_size := a\<rparr>"
| "abs_op (SetMemoryIndexScale a) v = v\<lparr>iv_scale := a\<rparr>"
| "abs_op (SetIsBroadcast a) v = v\<lparr>iv_broadcast := a\<rparr>"
| "abs_op (SetMemoryDisplacement a) v = v\<lparr>iv_displ := a\<rparr>"
| "abs_op (SetImmediate8 a) v = v\<lparr>iv_immediate := ucast a\<rparr>"
| "abs_op (SetImmediate8_2nd a) v = v\<lparr>iv_displ := ucast a\<rparr>"
| "abs_op (SetImmediate16 a) v = v\<lparr>iv_immediate := ucast a\<rparr>"
| "abs_op (SetImmediate32 a) v = v\<lparr>iv_immediate := a\<rparr>"
| "abs_op (SetImmediate64 a) v = v\<lparr>iv_immediate := ucast a, iv_displ := ucast (drop_bit 32 a)\<rparr>"
| "abs_op (SetImmediate8to16 a) v = v\<lparr>iv_immediate := scast (word_of_int a :: u8)\<rparr>"
| "abs_op (SetImmediate8to32 a) v = v\<lparr>iv_immediate := scast (word_of_int a :: u8)\<rparr>"
| "abs_op (SetImmediate8to64 a) v = v\<lparr>iv_immediate := scast (word_of_int a :: u8)\<rparr>"
| "abs_op (SetImmediate32to64 a) v = v\<lparr>iv_immediate := word_of_int a\<rparr>"
| "abs_op (SetMemoryAddress64 a) v = v\<lparr>iv_immediate := ucast a, iv_displ := ucast (drop_bit 32 a)\<rparr>"
| "abs_op (SetNearBranch16 a) v = v\<lparr>iv_immediate := ucast a\<rparr>"
| "abs_op (SetNearBranch32 a) v = v\<lparr>iv_immediate := a\<rparr>"
| "abs_op (SetNearBranch64 a) v = v\<lparr>iv_immediate := ucast a, iv_displ := ucast (drop_bit 32 a)\<rparr>"
| "abs_op (SetFarBranch16 a) v = v\<lparr>iv_immediate := ucast a\<rparr>"
| "abs_op (SetFarBranch32 a) v = v\<lparr>iv_immediate := a\<rparr>"
| "abs_op (SetFarBranchSelector a) v = v\<lparr>iv_displ := ucast a\<rparr>"
| "abs_op (SetMemoryBase a) v = v\<lparr>iv_memory_base := a\<rparr>"
| "abs_op (SetMemoryIndex a) v = v\<lparr>iv_memory_index := a\<rparr>"
| "abs_op (SetOp0Register a) v = v\<lparr>iv_op0_register := a\<rparr>"
| "abs_op (SetOp1Register a) v = v\<lparr>iv_op1_register := a\<rparr>"
| "abs_op (SetOp2Register a) v = v\<lparr>iv_op2_register := a\<rparr>"
| "abs_op (SetOp3Register a) v = v\<lparr>iv_op3_register := a\<rparr>"

subsection \<open>Codecs of the packed fields\<close>

lemma take_bit_of_nat_ord [simp]:
  "n < 2 ^ w \<Longrightarrow> w \<le> 32 \<Longrightarrow> unat (take_bit w (of_nat n :: u32)) = n"
  using unat_take_bit_of_nat [of n w, where 'a=32] by simp

lemma uint_take_bit_word_of_int:
  "w \<le> 32 \<Longrightarrow> uint (take_bit w (word_of_int n :: u32)) = n mod 2 ^ w"
  by (simp only: unsigned_take_bit_eq uint_word_of_int_eq take_bit_take_bit)
    (simp add: min_def take_bit_eq_mod)

lemma uint_take_bit_word_of_int_minus_1:
  "w \<le> 32 \<Longrightarrow> uint (take_bit w (word_of_int n - 1 :: u32)) = (n - 1) mod 2 ^ w"
  using uint_take_bit_word_of_int [of w "n - 1"] by simp

lemma opkind_codec [simp]: "opkind_of_ord (unat (take_bit 5 (of_nat (opkind_ord k) :: u32))) = k"
proof -
  have "opkind_ord k < 2 ^ 5" by (rule less_trans [OF opkind_ord_less]) simp
  then show ?thesis by simp
qed

lemma codesize_codec [simp]: "codesize_of_ord (unat (take_bit 2 (of_nat (codesize_ord c) :: u32))) = c"
proof -
  have "codesize_ord c < 2 ^ 2" using codesize_ord_less [of c] by simp
  then show ?thesis by simp
qed

lemma rc_codec [simp]: "rc_of_ord (unat (take_bit 3 (of_nat (rc_ord r) :: u32))) = r"
proof -
  have "rc_ord r < 2 ^ 3" by (rule less_trans [OF rc_ord_less]) simp
  then show ?thesis by simp
qed

lemma code_codec [simp]: "(ucast (take_bit 13 (ucast c :: u32)) :: Code) = c"
  by (intro bit_word_eqI) (simp add: bit_simps)

lemma len_codec_valid: "0 \<le> n \<Longrightarrow> n < 16 \<Longrightarrow> n mod 16 = (n::int)"
  by simp

lemma declare_data_len_codec_valid: "1 \<le> n \<Longrightarrow> n \<le> 16 \<Longrightarrow> (n - 1) mod 16 + 1 = (n::int)"
  by simp

lemma len_set_len: "len (set_len n i) = n mod 16"
  by (simp add: iced_field uint_take_bit_word_of_int)

lemma declare_data_len_set_declare_data_len:
  "declare_data_len (set_declare_data_len n i) = (n - 1) mod 16 + 1"
  by (simp add: iced_field uint_take_bit_word_of_int_minus_1)

lemma memory_displ_size_set_memory_displ_size:
  "memory_displ_size (set_memory_displ_size v i) = (if v \<in> {0, 1, 2, 4} then v else 8)"
  by (simp add: iced_field Let_def)

lemma memory_index_scale_set_memory_index_scale:
  "memory_index_scale (set_memory_index_scale v i) = (if v \<in> {1, 2, 4} then v else 8)"
  by (simp add: iced_field)

lemma reg_ord_le_iff: "(r \<le> s) = (reg_ord r \<le> reg_ord s)"
  by (simp add: less_eq_Register_def)

lemma of_nat_window:
  "b \<le> k \<Longrightarrow> (of_nat k - of_nat b :: 'a::len word) = of_nat (k - b)"
  by (simp add: of_nat_diff)

lemma opmask_set_opmask:
  assumes "r = Reg_None \<or> K1 \<le> r \<and> r \<le> K7"
  shows "opmask (set_opmask r i) = r"
proof (cases "r = Reg_None")
  case True
  then show ?thesis by (simp add: iced_field)
next
  case False
  then have k: "174 \<le> reg_ord r" "reg_ord r \<le> 180"
    using assms by (simp_all add: reg_ord_le_iff K1_def K7_def)
  have k0: "reg_ord K0 = 173" by (simp add: K0_def)
  define m where "m = reg_ord r - 173"
  have m: "1 \<le> m" "m < 8" "m + 173 = reg_ord r"
    using k unfolding m_def by linarith+
  have eq: "(of_nat (reg_ord r) - 173 :: u32) = of_nat m"
    using of_nat_window [of 173 "reg_ord r", where 'a=32] k unfolding m_def by simp
  have "m < 2 ^ 3" using m by simp
  then have u: "unat (take_bit 3 (of_nat m :: u32)) = m"
    by (intro take_bit_of_nat_ord) simp_all
  have nz: "take_bit 3 (of_nat m :: u32) \<noteq> 0"
  proof
    assume "take_bit 3 (of_nat m :: u32) = 0"
    then have "unat (take_bit 3 (of_nat m :: u32)) = 0" by simp
    with u m show False by simp
  qed
  show ?thesis
    using False by (simp add: iced_field Let_def eq nz u k0 m(3))
qed


lemma segment_codec:
  "m < 8 \<Longrightarrow> unat (take_bit 3 (ucast (of_nat m :: u32) :: u16)) = m"
  by (simp add: unsigned_take_bit_eq unsigned_ucast_eq unsigned_of_nat take_bit_nat_eq_self)

lemma segment_prefix_set_segment_prefix:
  assumes "r = Reg_None \<or> ES \<le> r \<and> r \<le> GS"
  shows "segment_prefix (set_segment_prefix r i) = r"
proof (cases "r = Reg_None")
  case True
  then show ?thesis by (simp add: iced_field)
next
  case False
  then have k: "71 \<le> reg_ord r" "reg_ord r \<le> 76"
    using assms by (simp_all add: reg_ord_le_iff ES_def GS_def)
  have es: "reg_ord ES = 71" by (simp add: ES_def)
  define m where "m = reg_ord r - 70"
  have m: "1 \<le> m" "m < 8" "m \<le> 6" "70 + m = reg_ord r"
    using k unfolding m_def by linarith+
  have eq: "(of_nat (reg_ord r) - of_nat (reg_ord ES) + 1 :: u32) = of_nat m"
    using of_nat_window [of 70 "reg_ord r", where 'a=32] k unfolding m_def es by simp
  have s: "set_segment_prefix r i =
      i\<lparr>memory_flags := set_field 5 3 (ucast (of_nat m :: u32)) (memory_flags i)\<rparr>"
    using False by (simp only: set_segment_prefix_field eq if_False)
  let ?p = "take_bit 3 (ucast (of_nat m :: u32) :: u16)"
  have u: "unat ?p = m"
    using m by (intro segment_codec)
  have p: "?p \<noteq> 0" "?p \<le> 6"
    using u m by (auto simp: word_le_nat_alt)
  show ?thesis
    unfolding s using p by (simp add: iced_field Let_def u es m(4) del: take_bit_of_nat)
qed

subsection \<open>The view of each setter\<close>

lemmas payload_defs =
  next_ip_def set_next_ip_def set_next_ip32_def set_next_ip16_def set_ip_def set_ip32_def set_ip16_def
  memory_displacement_def set_memory_displacement_def immediate32_def
  set_immediate8_def set_immediate8_2nd_def set_immediate16_def set_immediate32_def set_immediate64_def
  set_immediate8to16_def set_immediate8to32_def set_immediate8to64_def set_immediate32to64_def
  set_memory_address64_def set_near_branch16_def set_near_branch32_def set_near_branch64_def
  set_far_branch16_def set_far_branch32_def set_far_branch_selector_def
  memory_base_def set_memory_base_def memory_index_def set_memory_index_def
  op0_register_def set_op0_register_def op1_register_def set_op1_register_def
  op2_register_def set_op2_register_def op3_register_def set_op3_register_def

lemma view_set_opmask:
  "r = Reg_None \<or> K1 \<le> r \<and> r \<le> K7 \<Longrightarrow> view (set_opmask r i) = (view i)\<lparr>iv_opmask := r\<rparr>"
  unfolding view_def by (simp only: opmask_set_opmask) (simp add: iced_field payload_defs)

lemma view_set_segment_prefix:
  "r = Reg_None \<or> ES \<le> r \<and> r \<le> GS \<Longrightarrow>
   view (set_segment_prefix r i) = (view i)\<lparr>iv_segment_prefix := r\<rparr>"
  unfolding view_def by (simp only: segment_prefix_set_segment_prefix) (simp add: iced_field payload_defs)

lemma view_set_memory_displ_size:
  assumes "d \<in> {0, 1, 2, 4, 8}"
  shows "view (set_memory_displ_size d i) = (view i)\<lparr>iv_displ_size := d\<rparr>"
proof -
  have "(if d \<in> {0, 1, 2, 4} then d else 8) = d" using assms by auto
  then show ?thesis
    unfolding view_def by (simp only: memory_displ_size_set_memory_displ_size) (simp add: iced_field payload_defs)
qed

lemma view_set_memory_index_scale:
  assumes "d \<in> {1, 2, 4, 8}"
  shows "view (set_memory_index_scale d i) = (view i)\<lparr>iv_scale := d\<rparr>"
proof -
  have "(if d \<in> {1, 2, 4} then d else 8) = d" using assms by auto
  then show ?thesis
    unfolding view_def by (simp only: memory_index_scale_set_memory_index_scale) (simp add: iced_field payload_defs)
qed

lemma view_exec_op:
  assumes v: "valid_op op"
  shows "view (exec_op op i) = abs_op op (view i)"
proof (cases op)
  case (SetOpmask r)
  then show ?thesis using v by (simp add: view_set_opmask)
next
  case (SetSegmentPrefix r)
  then show ?thesis using v by (simp add: view_set_segment_prefix)
next
  case (SetMemoryDisplSize d)
  then show ?thesis using v by (simp add: view_set_memory_displ_size)
next
  case (SetMemoryIndexScale d)
  then show ?thesis using v by (simp add: view_set_memory_index_scale)
qed (use v in \<open>simp_all add: view_def iced_field payload_defs Let_def uint_take_bit_word_of_int
       uint_take_bit_word_of_int_minus_1 len_codec_valid declare_data_len_codec_valid\<close>)


lemma opmask_range:
  "opmask i = Reg_None \<or> K1 \<le> opmask i \<and> opmask i \<le> K7"
proof -
  let ?p = "get_field 16 3 (code_flags i)"
  have "unat ?p < 8"
    using get_field_less [of 16 3 "code_flags i"] by simp
  moreover have "?p \<noteq> 0 \<Longrightarrow> unat ?p \<noteq> 0"
    by (simp add: unat_eq_zero)
  ultimately show ?thesis
    by (auto simp: opmask_field Let_def reg_ord_le_iff K0_def K1_def K7_def)
qed

lemma segment_prefix_range:
  "segment_prefix i = Reg_None \<or> ES \<le> segment_prefix i \<and> segment_prefix i \<le> GS"
proof -
  let ?p = "get_field 5 3 (memory_flags i)"
  have "unat ?p \<noteq> 0" if "?p \<noteq> 0"
    using that by (simp add: unat_eq_zero)
  then have "?p \<noteq> 0 \<Longrightarrow> ?p \<le> 6 \<Longrightarrow> 1 \<le> unat ?p \<and> unat ?p \<le> 6"
    by (simp add: word_le_nat_alt)
  then show ?thesis
    by (auto simp: segment_prefix_field Let_def reg_ord_le_iff ES_def GS_def)
qed

subsection \<open>Properties\<close>

text \<open>C1. Refinement: running any sequence of public setters, each with an argument its
  field can represent, and then reading the instruction gives the same logical instruction
  as applying the setters' contracts to the logical instruction: each setter changes
  exactly its own field.\<close>

theorem view_fold_exec_op:
  "list_all valid_op ops \<Longrightarrow> view (fold exec_op ops i) = fold abs_op ops (view i)"
proof (induction ops arbitrary: i)
  case Nil
  then show ?case by simp
next
  case (Cons op ops)
  then show ?case by (simp add: view_exec_op)
qed

theorem view_fold_exec_op_witness:
  "view (fold exec_op [SetOpmask K3, SetZeroingMasking True, SetLen 5] instruction_new)
   = fold abs_op [SetOpmask K3, SetZeroingMasking True, SetLen 5] (view instruction_new)"
  using view_fold_exec_op [of "[SetOpmask K3, SetZeroingMasking True, SetLen 5]" instruction_new]
  by (simp add: reg_ord_le_iff K1_def K3_def K7_def)

text \<open>C7. \<open>set_opmask\<close> followed by \<open>opmask\<close> gives back exactly \<open>None\<close> and the opmask
  registers \<open>K1\<close>..\<open>K7\<close>; every other register, \<open>K0\<close> included, is not read back.\<close>

theorem opmask_set_opmask_iff:
  "opmask (set_opmask r i) = r \<longleftrightarrow> r = Reg_None \<or> K1 \<le> r \<and> r \<le> K7"
  using opmask_set_opmask [of r i] opmask_range [of "set_opmask r i"] by metis

text \<open>C8. \<open>set_segment_prefix\<close> followed by \<open>segment_prefix\<close> gives back exactly \<open>None\<close>
  and the six segment registers \<open>ES\<close>..\<open>GS\<close>.\<close>

theorem segment_prefix_set_segment_prefix_iff:
  "segment_prefix (set_segment_prefix r i) = r \<longleftrightarrow> r = Reg_None \<or> ES \<le> r \<and> r \<le> GS"
  using segment_prefix_set_segment_prefix [of r i] segment_prefix_range [of "set_segment_prefix r i"]
  by metis

text \<open>C32. \<open>set_memory_displ_size\<close> stores 0, 1, 2, 4 and reads back every other value as 8;
  so exactly 0, 1, 2, 4 and 8 read back.\<close>

theorem memory_displ_size_set_memory_displ_size_iff:
  "memory_displ_size (set_memory_displ_size d i) = (if d \<in> {0, 1, 2, 4} then d else 8) \<and>
   (memory_displ_size (set_memory_displ_size d i) = d \<longleftrightarrow> d \<in> {0, 1, 2, 4, 8})"
  by (auto simp: memory_displ_size_set_memory_displ_size)

text \<open>C33. \<open>set_memory_index_scale\<close> reads back exactly the scales 1, 2, 4 and 8.\<close>

theorem memory_index_scale_set_memory_index_scale_iff:
  "memory_index_scale (set_memory_index_scale d i) = d \<longleftrightarrow> d \<in> {1, 2, 4, 8}"
  by (auto simp: memory_index_scale_set_memory_index_scale)

text \<open>C34. \<open>set_len\<close> keeps the low four bits: exactly the lengths 0..15 read back.\<close>

theorem len_set_len_iff: "len (set_len n i) = n \<longleftrightarrow> 0 \<le> n \<and> n < 16"
  by (auto simp: len_set_len)

text \<open>C35. \<open>set_declare_data_len\<close> stores the count minus one in four bits: exactly the
  counts 1..16 read back.\<close>

theorem declare_data_len_set_declare_data_len_iff:
  "declare_data_len (set_declare_data_len n i) = n \<longleftrightarrow> 1 \<le> n \<and> n \<le> 16"
proof -
  have "0 \<le> (n - 1) mod 16" "(n - 1) mod 16 < 16"
    by simp_all
  then have "(n - 1) mod 16 + 1 = n \<longleftrightarrow> 1 \<le> n \<and> n \<le> 16"
    using declare_data_len_codec_valid [of n] by linarith
  then show ?thesis
    by (simp add: declare_data_len_set_declare_data_len)
qed

end
