(* ===== verification/Instruction_Operands.thy ===== *)
theory Instruction_Operands
  imports Instruction_View
begin

text \<open>
  Properties of the operand accessors of \<open>instruction.rs\<close> (Instruction_Memory) that
  span several fields or calls: the immediate dispatcher \<open>immediate(operand)\<close> against
  \<open>set_immediate_u64\<close>, the 64-bit payload split over \<open>immediate\<close>/\<open>mem_displ\<close>, the
  branch-target and register/kind dispatchers with their panics, the effective segment,
  the equality \<open>==\<close>, and the decoder's fast setters. \<open>immediate_kinds\<close> and
  \<open>extend_immediate\<close> are the contract of \<open>immediate(operand)\<close>: the kinds it accepts and
  how each widens the stored bits.
\<close>

unbundle bit_operations_syntax

definition immediate_kinds :: "OpKind list" where
  "immediate_kinds = [Immediate8, Immediate8_2nd, Immediate16, Immediate32, Immediate64,
     Immediate8to16, Immediate8to32, Immediate8to64, Immediate32to64]"

definition extend_immediate :: "OpKind \<Rightarrow> u64 \<Rightarrow> u64" where
  "extend_immediate k v =
     (if k \<in> {Immediate8, Immediate8_2nd} then ucast (ucast v :: u8)
      else if k = Immediate16 then ucast (ucast v :: u16)
      else if k = Immediate32 then ucast (ucast v :: u32)
      else if k \<in> {Immediate8to16, Immediate8to32, Immediate8to64} then scast (ucast v :: u8)
      else if k = Immediate32to64 then scast (ucast v :: u32)
      else v)"

lemma op_kind_payload [simp]:
  "op_kind (i\<lparr>immediate := x\<rparr>) n = op_kind i n"
  "op_kind (i\<lparr>mem_displ := x\<rparr>) n = op_kind i n"
  "op_kind (i\<lparr>immediate := x, mem_displ := y\<rparr>) n = op_kind i n"
  by (simp_all add: op_kind_def op0_kind_def op1_kind_def op2_kind_def op3_kind_def op4_kind_def)

lemma set_immediate_u64_kind:
  "op_kind i n = Inr k \<Longrightarrow> set_immediate_u64 n v i =
     (if k \<in> {Immediate8, Immediate8to16, Immediate8to32, Immediate8to64}
      then Inr (i\<lparr>immediate := ucast (ucast v :: u8)\<rparr>)
      else if k = Immediate8_2nd then Inr (i\<lparr>mem_displ := ucast (ucast v :: u8)\<rparr>)
      else if k = Immediate16 then Inr (i\<lparr>immediate := ucast (ucast v :: u16)\<rparr>)
      else if k \<in> {Immediate32to64, Immediate32} then Inr (i\<lparr>immediate := ucast v\<rparr>)
      else if k = Immediate64 then Inr (set_immediate64 v i)
      else Inl NYI)"
  by (simp add: set_immediate_u64_def)

lemma immediate_op_kind:
  "op_kind i n = Inr k \<Longrightarrow> immediate_op i n =
     (case k of
        Immediate8 \<Rightarrow> Inr (ucast (immediate8 i))
      | Immediate8_2nd \<Rightarrow> Inr (ucast (immediate8_2nd i))
      | Immediate16 \<Rightarrow> Inr (ucast (immediate16 i))
      | Immediate32 \<Rightarrow> Inr (ucast (immediate32 i))
      | Immediate64 \<Rightarrow> Inr (immediate64 i)
      | Immediate8to16 \<Rightarrow> Inr (word_of_int (immediate8to16 i))
      | Immediate8to32 \<Rightarrow> Inr (word_of_int (immediate8to32 i))
      | Immediate8to64 \<Rightarrow> Inr (word_of_int (immediate8to64 i))
      | Immediate32to64 \<Rightarrow> Inr (word_of_int (immediate32to64 i))
      | _ \<Rightarrow> Inl NYI)"
  by (simp add: immediate_op_def)

lemmas immediate_readers = immediate8_def immediate8_2nd_def immediate16_def immediate32_def
  immediate64_def immediate8to16_def immediate8to32_def immediate8to64_def immediate32to64_def

text \<open>C4. \<open>set_immediate_u64(operand, v)\<close> followed by \<open>immediate(operand)\<close> on an operand
  of an immediate kind gives back \<open>v\<close> cut to the kind's width and widened again, with a
  zero extension for the unsigned kinds and a sign extension for the \<open>8to16\<close>, \<open>8to32\<close>,
  \<open>8to64\<close> and \<open>32to64\<close> kinds.\<close>

theorem immediate_set_immediate_u64:
  assumes k: "op_kind i n = Inr k" "k \<in> set immediate_kinds"
  shows "rbind (set_immediate_u64 n v i) (\<lambda>i'. immediate_op i' n) = Inr (extend_immediate k v)"
proof -
  have op: "op_kind (i\<lparr>immediate := x\<rparr>) n = Inr k" "op_kind (i\<lparr>mem_displ := x\<rparr>) n = Inr k"
    "op_kind (i\<lparr>immediate := x, mem_displ := y\<rparr>) n = Inr k" for x y
    using k(1) by simp_all
  from k(2) show ?thesis
    unfolding immediate_kinds_def set_simps insert_iff empty_iff
    by (elim disjE FalseE; simp add: set_immediate_u64_kind [OF k(1)] immediate_op_kind [OF op(1)]
        immediate_op_kind [OF op(2)] immediate_op_kind [OF op(3)] extend_immediate_def
        immediate_readers set_immediate64_def push_bit_32_halves ucast_ucast_back ucast_ucast_widen)
qed

theorem immediate_set_immediate_u64_witness:
  "op_kind (set_op1_kind Immediate8to32 instruction_new) 1 = Inr Immediate8to32 \<and>
   Immediate8to32 \<in> set immediate_kinds \<and>
   rbind (set_immediate_u64 1 0x80 (set_op1_kind Immediate8to32 instruction_new))
     (\<lambda>i'. immediate_op i' 1) = Inr (extend_immediate Immediate8to32 0x80)"
  using immediate_set_immediate_u64 [of "set_op1_kind Immediate8to32 instruction_new" 1 Immediate8to32 "0x80"]
  by (simp add: immediate_kinds_def op_kind_def iced_field opkind_of_ord_def op_kinds_def)

lemma sint_word_of_int_i8:
  "- 128 \<le> v \<Longrightarrow> v < 128 \<Longrightarrow> sint (word_of_int v :: 8 word) = v"
  by (simp add: sint_sbintrunc' signed_take_bit_int_eq_self)

lemma ucast_scast_8_32 [simp]: "(ucast (scast (w :: 8 word) :: u32) :: 8 word) = w"
  by (intro bit_word_eqI) (auto simp: bit_simps)

lemma ucast_ucast_8_32 [simp]: "(ucast (ucast (w :: 8 word) :: u32) :: 8 word) = w"
  by (intro bit_word_eqI) (auto simp: bit_simps)

lemma ucast_word_of_int_64_8 [simp]: "(ucast (word_of_int v :: u64) :: u8) = word_of_int v"
  by (intro bit_word_eqI) (auto simp: bit_simps)

lemma scast_eq_ucast_8_32: "((scast (w :: 8 word) :: u32) = ucast w) = (0 \<le> sint w)"
proof -
  have "((scast w :: u32) = ucast w) = (\<not> bit w 7)"
  proof
    assume "(scast w :: u32) = ucast w"
    then have "bit (scast w :: u32) 31 = bit (ucast w :: u32) 31" by simp
    then show "\<not> bit w 7" by (auto simp: bit_simps dest: bit_imp_le_length)
  next
    assume "\<not> bit w 7"
    moreover have "bit w n \<Longrightarrow> n \<le> 7" for n
      using bit_imp_le_length [of w n] by simp
    ultimately have h: "bit w n \<Longrightarrow> 7 \<le> n \<Longrightarrow> False" for n
      using le_antisym by blast
    show "(scast w :: u32) = ucast w"
      by (intro bit_word_eqI) (auto simp: bit_simps min_def split: if_splits dest: h)
  qed
  moreover have "bit w 7 = (sint w < 0)"
    using bit_last_iff [of w] by simp
  ultimately show ?thesis by linarith
qed

text \<open>C11. The two setters of an \<open>Immediate8to32\<close> operand store the same logical immediate
  differently: for every \<open>i8\<close> value \<open>v\<close>, \<open>set_immediate8to32(v)\<close> stores \<open>v as i8 as u32\<close>
  (sign-extended) while \<open>set_immediate_i32(0, v)\<close> stores only its low byte. Both read
  back as \<open>v\<close> through \<open>immediate8to32\<close> and \<open>immediate(0)\<close>, yet \<open>==\<close>, which compares
  the raw \<open>immediate\<close> field, holds between the two results exactly when \<open>v\<close> is not
  negative.\<close>

theorem immediate8to32_setters_disagree:
  assumes k: "op0_kind i = Immediate8to32" and r: "- 128 \<le> v" "v < 128"
  shows "\<exists>b. set_immediate_i32 0 v i = Inr b \<and>
           immediate8to32 (set_immediate8to32 v i) = v \<and> immediate8to32 b = v \<and>
           immediate_op (set_immediate8to32 v i) 0 = immediate_op b 0 \<and>
           (instruction_eq (set_immediate8to32 v i) b \<longleftrightarrow> 0 \<le> v)"
proof -
  let ?b = "i\<lparr>immediate := ucast (word_of_int v :: u8)\<rparr>"
  have s: "set_immediate_i32 0 v i = Inr ?b"
    using k by (simp add: set_immediate_i32_def set_immediate_u64_def op_kind_def)
  have a: "immediate8to32 (set_immediate8to32 v i) = v" "immediate8to32 ?b = v"
    using sint_word_of_int_i8 [OF r] by (simp_all add: immediate8to32_def set_immediate8to32_def)
  have o: "immediate_op (set_immediate8to32 v i) 0 = immediate_op ?b 0"
    using k a by (simp add: immediate_op_def op_kind_def op0_kind_def set_immediate8to32_def)
  have e: "instruction_eq (set_immediate8to32 v i) ?b \<longleftrightarrow> 0 \<le> v"
    using scast_eq_ucast_8_32 [of "word_of_int v"] sint_word_of_int_i8 [OF r]
    by (simp add: instruction_eq_def set_immediate8to32_def)
  show ?thesis
    using s a o e by blast
qed

theorem immediate8to32_setters_disagree_witness:
  "\<exists>b. set_immediate_i32 0 (-1) (set_op0_kind Immediate8to32 instruction_new) = Inr b \<and>
     immediate8to32 (set_immediate8to32 (-1) (set_op0_kind Immediate8to32 instruction_new)) = -1 \<and>
     immediate8to32 b = -1 \<and>
     immediate_op (set_immediate8to32 (-1) (set_op0_kind Immediate8to32 instruction_new)) 0 = immediate_op b 0 \<and>
     \<not> instruction_eq (set_immediate8to32 (-1) (set_op0_kind Immediate8to32 instruction_new)) b"
  using immediate8to32_setters_disagree [where i="set_op0_kind Immediate8to32 instruction_new" and v="-1"]
  by (simp add: op0_kind_def set_op0_kind_def instruction_new_def OpKindFlags_OP_KIND_MASK_def
      OpKindFlags_OP_KIND_BITS_def opkind_of_ord_def op_kinds_def)

text \<open>C31. A 64-bit immediate, memory address or near-branch target is split over \<open>immediate\<close>
  (low half) and \<open>mem_displ\<close> (high half) and reads back whole.\<close>

theorem payload64_roundtrip:
  "immediate64 (set_immediate64 v i) = v \<and> memory_address64 (set_memory_address64 v i) = v \<and>
   near_branch64 (set_near_branch64 v i) = v"
  by (simp add: immediate64_def set_immediate64_def memory_address64_def set_memory_address64_def
      near_branch64_def set_near_branch64_def push_bit_32_halves)

text \<open>C5. \<open>==\<close> is equality of the instructions once the next IP, the length and the code size
  are reset: it ignores exactly those three fields.\<close>

theorem instruction_eq_normalised:
  "instruction_eq a b \<longleftrightarrow>
   set_next_ip 0 (set_len 0 (set_code_size Unknown a)) = set_next_ip 0 (set_len 0 (set_code_size Unknown b))"
  by (cases a, cases b) (simp add: instruction_eq_def set_field_eq_ignore iced_field set_next_ip_def
      CodeFlags_EQUALS_IGNORE_MASK_def OpKindFlags_EQUALS_IGNORE_MASK_def layout)


text \<open>\<open>near_branch_target\<close> dispatches on the kind of operand 0: after setting a 16-, 32-
  or 64-bit near branch and the matching kind it returns the target zero-extended, and 0 for
  an operand that is not a near branch.\<close>

theorem near_branch_target_set:
  "near_branch_target (set_near_branch64 v (set_op0_kind NearBranch64 i)) = v \<and>
   near_branch_target (set_near_branch32 w (set_op0_kind NearBranch32 i)) = ucast w \<and>
   near_branch_target (set_near_branch16 h (set_op0_kind NearBranch16 i)) = ucast h \<and>
   near_branch_target (set_op0_kind Register i) = 0"
  by (simp add: near_branch_target_def iced_field near_branch64_def set_near_branch64_def
      near_branch32_def set_near_branch32_def near_branch16_def set_near_branch16_def
      push_bit_32_halves ucast_ucast_back opkind_of_ord_def op_kinds_def)

text \<open>C15. \<open>set_op_register(n, r)\<close> followed by \<open>op_register(n)\<close> gives back \<open>r\<close> for the
  operands 0..3, accepts only \<open>None\<close> for operand 4, and panics for any other operand number.\<close>

theorem op_register_set_op_register:
  "rbind (set_op_register n r i) (\<lambda>i'. op_register i' n) =
     (if 0 \<le> n \<and> n \<le> 3 \<or> n = 4 \<and> r = Reg_None then Inr r else Inl NYI)"
  by (auto simp: set_op_register_def op_register_def set_op4_register_def op4_register_def
      op0_register_def set_op0_register_def op1_register_def set_op1_register_def
      op2_register_def set_op2_register_def op3_register_def set_op3_register_def)

text \<open>C12. \<open>set_op_kind(n, k)\<close> followed by \<open>op_kind(n)\<close> gives back \<open>k\<close> for the operands
  0..3, accepts only \<open>Immediate8\<close> for operand 4, and panics for any other operand number.\<close>

theorem op_kind_set_op_kind:
  "rbind (set_op_kind n k i) (\<lambda>i'. op_kind i' n) =
     (if 0 \<le> n \<and> n \<le> 3 \<or> n = 4 \<and> k = Immediate8 then Inr k else Inl NYI)"
  by (auto simp: set_op_kind_def op_kind_def set_op4_kind_def op4_kind_def iced_field)

lemma segment_prefix_set_memory_base [simp]:
  "segment_prefix (set_memory_base r i) = segment_prefix i"
  by (simp add: set_memory_base_def segment_prefix_def)

lemma memory_base_set_segment_prefix [simp]:
  "memory_base (set_segment_prefix s i) = memory_base i"
  by (simp add: memory_base_def set_segment_prefix_field)

text \<open>C16. The effective segment of a memory operand is the segment override when one is set,
  else SS for a BP/EBP/ESP/RBP/RSP base and DS for any other base.\<close>

theorem memory_segment_set:
  "memory_segment (set_segment_prefix Reg_None (set_memory_base r i)) =
     (if r \<in> {BP, EBP, ESP, RBP, RSP} then SS else DS) \<and>
   (ES \<le> s \<and> s \<le> GS \<longrightarrow> memory_segment (set_segment_prefix s i) = s)"
proof -
  have none: "segment_prefix (set_segment_prefix Reg_None (set_memory_base r i)) = Reg_None"
    by (simp add: segment_prefix_set_segment_prefix)
  have seg: "segment_prefix (set_segment_prefix s i) = s" if "ES \<le> s \<and> s \<le> GS"
    using that by (simp add: segment_prefix_set_segment_prefix)
  have ne: "s \<noteq> Reg_None" if "ES \<le> s"
  proof
    assume "s = Reg_None"
    with that show False by (simp add: reg_ord_le_iff ES_def Reg_None_def)
  qed
  have base: "memory_base (set_segment_prefix Reg_None (set_memory_base r i)) = r"
    by (simp only: memory_base_set_segment_prefix) (simp add: memory_base_def set_memory_base_def)
  show ?thesis
    using none seg ne base by (simp add: memory_segment_def Let_def)
qed

theorem memory_segment_set_witness:
  "memory_segment (set_segment_prefix Reg_None (set_memory_base RSP instruction_new)) = SS \<and>
   memory_segment (set_segment_prefix FS instruction_new) = FS"
proof -
  have "ES \<le> FS \<and> FS \<le> GS"
    by (simp add: reg_ord_le_iff ES_def FS_def GS_def)
  then show ?thesis
    using memory_segment_set [of RSP instruction_new FS] by simp
qed

text \<open>C17. The decoder's fast setters, which OR the value into its field, equal the public
  setters, which clear the field first, whenever the field is still zero.\<close>

theorem internal_setters_agree:
  "(get_field 0 5 (op_kind_flags i) = 0 \<longrightarrow> internal_set_op0_kind k i = set_op0_kind k i) \<and>
   (get_field 5 5 (op_kind_flags i) = 0 \<longrightarrow> internal_set_op1_kind k i = set_op1_kind k i) \<and>
   (get_field 10 5 (op_kind_flags i) = 0 \<longrightarrow> internal_set_op2_kind k i = set_op2_kind k i) \<and>
   (get_field 15 5 (op_kind_flags i) = 0 \<longrightarrow> internal_set_op3_kind k i = set_op3_kind k i) \<and>
   (get_field 30 2 (op_kind_flags i) = 0 \<longrightarrow> internal_set_code_size c i = set_code_size c i) \<and>
   (get_field 0 13 (code_flags i) = 0 \<longrightarrow> internal_set_code x i = set_code x i) \<and>
   (get_field 13 3 (code_flags i) = 0 \<longrightarrow>
      internal_set_rounding_control (of_nat (rc_ord r)) i = set_rounding_control r i)"
proof -
  have k: "take_bit 5 (of_nat (opkind_ord k) :: u32) = of_nat (opkind_ord k)"
    by (rule take_bit_of_nat_small) (rule less_trans [OF opkind_ord_less], simp)
  have c: "take_bit 2 (of_nat (codesize_ord c) :: u32) = of_nat (codesize_ord c)"
    by (rule take_bit_of_nat_small) (rule less_le_trans [OF codesize_ord_less], simp)
  have r: "take_bit 3 (of_nat (rc_ord r) :: u32) = of_nat (rc_ord r)"
    by (rule take_bit_of_nat_small) (rule less_trans [OF rc_ord_less], simp)
  have x: "take_bit 13 (ucast x :: u32) = ucast x"
    by (intro bit_word_eqI) (auto simp: bit_simps dest: bit_imp_le_length)
  show ?thesis
    by (simp add: internal_set_op0_kind_def internal_set_op1_kind_def internal_set_op2_kind_def
        internal_set_op3_kind_def internal_set_code_size_def internal_set_code_def
        internal_set_rounding_control_def iced_field layout or_set_field_0 or_push_bit_set_field k c r x)
qed

theorem internal_setters_agree_witness:
  "internal_set_op0_kind Immediate8 instruction_new = set_op0_kind Immediate8 instruction_new \<and>
   internal_set_op1_kind Immediate8 instruction_new = set_op1_kind Immediate8 instruction_new \<and>
   internal_set_op2_kind Immediate8 instruction_new = set_op2_kind Immediate8 instruction_new \<and>
   internal_set_op3_kind Immediate8 instruction_new = set_op3_kind Immediate8 instruction_new \<and>
   internal_set_code_size Code64 instruction_new = set_code_size Code64 instruction_new \<and>
   internal_set_code 5 instruction_new = set_code 5 instruction_new \<and>
   internal_set_rounding_control (of_nat (rc_ord RoundDown)) instruction_new =
     set_rounding_control RoundDown instruction_new"
proof -
  have z: "get_field s w (op_kind_flags instruction_new) = 0" "get_field s w (code_flags instruction_new) = 0"
    for s w by (simp_all add: instruction_new_def)
  show ?thesis
    using internal_setters_agree [of instruction_new Immediate8 Code64 5 RoundDown] z by blast
qed

end
