(* ===== verification/Instruction_Address.thy ===== *)
theory Instruction_Address
  imports Instruction_Operands "HOL-Library.Sublist"
begin

text \<open>
  The address services of \<open>instruction.rs\<close> (lines 1777-2057): the VSIB classification
  \<open>vsib\<close>/\<open>is_vsib*\<close>, the IP-relative memory operand and its address,
  \<open>get_address_size_in_bytes\<close> and \<open>virtual_address\<close>. \<open>Code\<close> is generated outside
  the repository's \<open>src/\<close>: \<open>vsib\<close> matches on the names of its variants, so it takes the
  generated name table \<open>code_name\<close> as a parameter, and \<open>virtual_address\<close> takes the
  caller's register-value resolver \<open>get_register_value\<close> as the source does. The
  \<open>Memory\<close> branch of \<open>virtual_address\<close> is \<open>memory_operand_address\<close>. Additions and
  shifts are the release build's wrapping ones.
\<close>

unbundle bit_operations_syntax

definition vsib32_code_names :: "string list" where
  "vsib32_code_names =
    [
     ''VEX_Vpgatherdd_xmm_vm32x_xmm'',
     ''VEX_Vpgatherdd_ymm_vm32y_ymm'',
     ''VEX_Vpgatherdq_xmm_vm32x_xmm'',
     ''VEX_Vpgatherdq_ymm_vm32x_ymm'',
     ''EVEX_Vpgatherdd_xmm_k1_vm32x'',
     ''EVEX_Vpgatherdd_ymm_k1_vm32y'',
     ''EVEX_Vpgatherdd_zmm_k1_vm32z'',
     ''EVEX_Vpgatherdq_xmm_k1_vm32x'',
     ''EVEX_Vpgatherdq_ymm_k1_vm32x'',
     ''EVEX_Vpgatherdq_zmm_k1_vm32y'',
     ''VEX_Vgatherdps_xmm_vm32x_xmm'',
     ''VEX_Vgatherdps_ymm_vm32y_ymm'',
     ''VEX_Vgatherdpd_xmm_vm32x_xmm'',
     ''VEX_Vgatherdpd_ymm_vm32x_ymm'',
     ''EVEX_Vgatherdps_xmm_k1_vm32x'',
     ''EVEX_Vgatherdps_ymm_k1_vm32y'',
     ''EVEX_Vgatherdps_zmm_k1_vm32z'',
     ''EVEX_Vgatherdpd_xmm_k1_vm32x'',
     ''EVEX_Vgatherdpd_ymm_k1_vm32x'',
     ''EVEX_Vgatherdpd_zmm_k1_vm32y'',
     ''EVEX_Vpscatterdd_vm32x_k1_xmm'',
     ''EVEX_Vpscatterdd_vm32y_k1_ymm'',
     ''EVEX_Vpscatterdd_vm32z_k1_zmm'',
     ''EVEX_Vpscatterdq_vm32x_k1_xmm'',
     ''EVEX_Vpscatterdq_vm32x_k1_ymm'',
     ''EVEX_Vpscatterdq_vm32y_k1_zmm'',
     ''EVEX_Vscatterdps_vm32x_k1_xmm'',
     ''EVEX_Vscatterdps_vm32y_k1_ymm'',
     ''EVEX_Vscatterdps_vm32z_k1_zmm'',
     ''EVEX_Vscatterdpd_vm32x_k1_xmm'',
     ''EVEX_Vscatterdpd_vm32x_k1_ymm'',
     ''EVEX_Vscatterdpd_vm32y_k1_zmm'',
     ''EVEX_Vgatherpf0dps_vm32z_k1'',
     ''EVEX_Vgatherpf0dpd_vm32y_k1'',
     ''EVEX_Vgatherpf1dps_vm32z_k1'',
     ''EVEX_Vgatherpf1dpd_vm32y_k1'',
     ''EVEX_Vscatterpf0dps_vm32z_k1'',
     ''EVEX_Vscatterpf0dpd_vm32y_k1'',
     ''EVEX_Vscatterpf1dps_vm32z_k1'',
     ''EVEX_Vscatterpf1dpd_vm32y_k1'']"

definition vsib64_code_names :: "string list" where
  "vsib64_code_names =
    [
     ''VEX_Vpgatherqd_xmm_vm64x_xmm'',
     ''VEX_Vpgatherqd_xmm_vm64y_xmm'',
     ''VEX_Vpgatherqq_xmm_vm64x_xmm'',
     ''VEX_Vpgatherqq_ymm_vm64y_ymm'',
     ''EVEX_Vpgatherqd_xmm_k1_vm64x'',
     ''EVEX_Vpgatherqd_xmm_k1_vm64y'',
     ''EVEX_Vpgatherqd_ymm_k1_vm64z'',
     ''EVEX_Vpgatherqq_xmm_k1_vm64x'',
     ''EVEX_Vpgatherqq_ymm_k1_vm64y'',
     ''EVEX_Vpgatherqq_zmm_k1_vm64z'',
     ''VEX_Vgatherqps_xmm_vm64x_xmm'',
     ''VEX_Vgatherqps_xmm_vm64y_xmm'',
     ''VEX_Vgatherqpd_xmm_vm64x_xmm'',
     ''VEX_Vgatherqpd_ymm_vm64y_ymm'',
     ''EVEX_Vgatherqps_xmm_k1_vm64x'',
     ''EVEX_Vgatherqps_xmm_k1_vm64y'',
     ''EVEX_Vgatherqps_ymm_k1_vm64z'',
     ''EVEX_Vgatherqpd_xmm_k1_vm64x'',
     ''EVEX_Vgatherqpd_ymm_k1_vm64y'',
     ''EVEX_Vgatherqpd_zmm_k1_vm64z'',
     ''EVEX_Vpscatterqd_vm64x_k1_xmm'',
     ''EVEX_Vpscatterqd_vm64y_k1_xmm'',
     ''EVEX_Vpscatterqd_vm64z_k1_ymm'',
     ''EVEX_Vpscatterqq_vm64x_k1_xmm'',
     ''EVEX_Vpscatterqq_vm64y_k1_ymm'',
     ''EVEX_Vpscatterqq_vm64z_k1_zmm'',
     ''EVEX_Vscatterqps_vm64x_k1_xmm'',
     ''EVEX_Vscatterqps_vm64y_k1_xmm'',
     ''EVEX_Vscatterqps_vm64z_k1_ymm'',
     ''EVEX_Vscatterqpd_vm64x_k1_xmm'',
     ''EVEX_Vscatterqpd_vm64y_k1_ymm'',
     ''EVEX_Vscatterqpd_vm64z_k1_zmm'',
     ''EVEX_Vgatherpf0qps_vm64z_k1'',
     ''EVEX_Vgatherpf0qpd_vm64z_k1'',
     ''EVEX_Vgatherpf1qps_vm64z_k1'',
     ''EVEX_Vgatherpf1qpd_vm64z_k1'',
     ''EVEX_Vscatterpf0qps_vm64z_k1'',
     ''EVEX_Vscatterpf0qpd_vm64z_k1'',
     ''EVEX_Vscatterpf1qps_vm64z_k1'',
     ''EVEX_Vscatterpf1qpd_vm64z_k1'']"

definition vsib :: "(Code \<Rightarrow> string) \<Rightarrow> Instruction \<Rightarrow> bool option" where
  "vsib code_name self =
     (let n = code_name (code self) in
      if n \<in> set vsib32_code_names then Some False
      else if n \<in> set vsib64_code_names then Some True
      else None)"

definition is_vsib :: "(Code \<Rightarrow> string) \<Rightarrow> Instruction \<Rightarrow> bool" where
  "is_vsib code_name self \<longleftrightarrow> vsib code_name self \<noteq> None"

definition is_vsib32 :: "(Code \<Rightarrow> string) \<Rightarrow> Instruction \<Rightarrow> bool" where
  "is_vsib32 code_name self = (case vsib code_name self of Some is_vsib64 \<Rightarrow> \<not> is_vsib64 | None \<Rightarrow> False)"

definition is_vsib64 :: "(Code \<Rightarrow> string) \<Rightarrow> Instruction \<Rightarrow> bool" where
  "is_vsib64 code_name self = (case vsib code_name self of Some is_vsib64 \<Rightarrow> is_vsib64 | None \<Rightarrow> False)"

definition is_ip_relative_memory_operand :: "Instruction \<Rightarrow> bool" where
  "is_ip_relative_memory_operand self \<longleftrightarrow> memory_base self = RIP \<or> memory_base self = EIP"

definition ip_relative_memory_address :: "Instruction \<Rightarrow> u64" where
  "ip_relative_memory_address self =
     (let result = next_ip self + scast (memory_displacement self) in
      if memory_base self = EIP then ucast (ucast result :: u32) else result)"

definition get_address_size_in_bytes :: "Register \<Rightarrow> Register \<Rightarrow> i32 \<Rightarrow> CodeSize \<Rightarrow> i32" where
  "get_address_size_in_bytes base_reg index_reg displ_size code_size_v =
     (if RAX \<le> base_reg \<and> base_reg \<le> R15 \<or> RAX \<le> index_reg \<and> index_reg \<le> R15 \<or> base_reg = RIP then 8
      else if EAX \<le> base_reg \<and> base_reg \<le> R15D \<or> EAX \<le> index_reg \<and> index_reg \<le> R15D \<or> base_reg = EIP
      then 4
      else if base_reg = BX \<or> base_reg = BP \<or> base_reg = SI \<or> base_reg = DI \<or> index_reg = SI \<or> index_reg = DI
      then 2
      else if displ_size = 2 \<or> displ_size = 4 \<or> displ_size = 8 then displ_size
      else (case code_size_v of Code64 \<Rightarrow> 8 | Code32 \<Rightarrow> 4 | Code16 \<Rightarrow> 2 | _ \<Rightarrow> 8))"

text \<open>The \<open>OpKind::Memory\<close> branch of \<open>virtual_address\<close>.\<close>

definition memory_operand_address ::
  "(Code \<Rightarrow> string) \<Rightarrow> Instruction \<Rightarrow> i32 \<Rightarrow> (Register \<Rightarrow> i32 \<Rightarrow> i32 \<Rightarrow> u64) \<Rightarrow> u64" where
  "memory_operand_address code_name self element_index get_register_value =
     (let base_reg = memory_base self;
          index_reg = memory_index self;
          addr_size = get_address_size_in_bytes base_reg index_reg (memory_displ_size self) (code_size self);
          offset = (if addr_size = 8 then scast (memory_displacement self) else ucast (memory_displacement self)) :: u64;
          offset_mask = (if addr_size = 8 then mask 64 else if addr_size = 4 then mask 32 else mask 16) :: u64;
          offset = (if base_reg = Reg_None then offset
                    else if base_reg = RIP then offset + next_ip self
                    else if base_reg = EIP then offset + ucast (next_ip32 self)
                    else offset + get_register_value base_reg 0 0);
          scale = nat (internal_get_memory_index_scale self);
          offset = (if index_reg \<noteq> Reg_None then
                      (case vsib code_name self of
                         Some True \<Rightarrow> offset + push_bit scale (get_register_value index_reg element_index 8)
                       | Some False \<Rightarrow>
                           offset + push_bit scale (ucast (ucast (get_register_value index_reg element_index 4) :: u32))
                       | None \<Rightarrow> offset + push_bit scale (get_register_value index_reg element_index 0))
                    else offset)
      in get_register_value (memory_segment self) 0 0 + (offset AND offset_mask))"

definition virtual_address ::
  "(Code \<Rightarrow> string) \<Rightarrow> Instruction \<Rightarrow> i32 \<Rightarrow> i32 \<Rightarrow> (Register \<Rightarrow> i32 \<Rightarrow> i32 \<Rightarrow> u64) \<Rightarrow> u64 result" where
  "virtual_address code_name self operand element_index get_register_value =
     (case op_kind self operand of
        Inl e \<Rightarrow> Inl e
      | Inr k \<Rightarrow> Inr
         (case k of
            Register \<Rightarrow> 0
          | NearBranch16 \<Rightarrow> 0
          | NearBranch32 \<Rightarrow> 0
          | NearBranch64 \<Rightarrow> 0
          | FarBranch16 \<Rightarrow> 0
          | FarBranch32 \<Rightarrow> 0
          | Immediate8 \<Rightarrow> 0
          | Immediate8_2nd \<Rightarrow> 0
          | Immediate16 \<Rightarrow> 0
          | Immediate32 \<Rightarrow> 0
          | Immediate64 \<Rightarrow> 0
          | Immediate8to16 \<Rightarrow> 0
          | Immediate8to32 \<Rightarrow> 0
          | Immediate8to64 \<Rightarrow> 0
          | Immediate32to64 \<Rightarrow> 0
          | MemorySegSI \<Rightarrow> get_register_value (memory_segment self) 0 0
              + ucast (ucast (get_register_value SI 0 0) :: u16)
          | MemorySegESI \<Rightarrow> get_register_value (memory_segment self) 0 0
              + ucast (ucast (get_register_value ESI 0 0) :: u32)
          | MemorySegRSI \<Rightarrow> get_register_value (memory_segment self) 0 0 + get_register_value RSI 0 0
          | MemorySegDI \<Rightarrow> get_register_value (memory_segment self) 0 0
              + ucast (ucast (get_register_value DI 0 0) :: u16)
          | MemorySegEDI \<Rightarrow> get_register_value (memory_segment self) 0 0
              + ucast (ucast (get_register_value EDI 0 0) :: u32)
          | MemorySegRDI \<Rightarrow> get_register_value (memory_segment self) 0 0 + get_register_value RDI 0 0
          | MemoryESDI \<Rightarrow> get_register_value ES 0 0 + ucast (ucast (get_register_value DI 0 0) :: u16)
          | MemoryESEDI \<Rightarrow> get_register_value ES 0 0 + ucast (ucast (get_register_value EDI 0 0) :: u32)
          | MemoryESRDI \<Rightarrow> get_register_value ES 0 0 + get_register_value RDI 0 0
          | Memory64 \<Rightarrow> get_register_value (memory_segment self) 0 0 + memory_address64 self
          | Memory \<Rightarrow> memory_operand_address code_name self element_index get_register_value))"

subsection \<open>Lemmas\<close>

lemma ucast_ucast_u32_take_bit: "(ucast (ucast (x::u64) :: u32) :: u64) = take_bit 32 x"
  by (simp add: unsigned_ucast_eq)

lemma take_bit_32_scast: "take_bit 32 (scast (d::u32) :: u64) = ucast d"
proof (intro bit_word_eqI)
  fix n
  show "bit (take_bit 32 (scast d :: u64)) n = bit (ucast d :: u64) n"
    by (cases "n < 31"; cases "n = 31") (auto simp: bit_simps min_def dest: bit_imp_le_length)
qed

lemma take_bit_32_ucast: "take_bit 32 (ucast (d::u32) :: u64) = ucast d"
  by (intro bit_word_eqI) (auto simp: bit_simps dest: bit_imp_le_length)

lemma eip_wrap:
  "(ucast (d::u32) + take_bit 32 (n::u64)) AND mask 32 = take_bit 32 (n + scast d)"
proof -
  have "take_bit 32 (n + scast d) = take_bit 32 (take_bit 32 n + take_bit 32 (scast d :: u64))"
    by (rule take_bit_word_add [symmetric])
  also have "\<dots> = take_bit 32 (take_bit 32 (take_bit 32 n) + take_bit 32 (ucast d :: u64))"
    by (simp only: take_bit_32_scast take_bit_32_ucast take_bit_take_bit min.idem)
  also have "\<dots> = take_bit 32 (ucast d + take_bit 32 n)"
    by (simp only: take_bit_word_add add.commute)
  finally show ?thesis
    by (simp only: take_bit_eq_mask)
qed

lemma get_address_size_in_bytes_cases:
  "get_address_size_in_bytes b x d c \<in> {2, 4, 8}"
  by (simp add: get_address_size_in_bytes_def split: CodeSize.split)

lemma address_size_regs:
  "get_address_size_in_bytes RIP Reg_None d c = 8"
  "get_address_size_in_bytes EIP Reg_None d c = 4"
  by (simp_all add: get_address_size_in_bytes_def reg_ord_le_iff RIP_def EIP_def Reg_None_def
      RAX_def R15_def EAX_def R15D_def)

subsection \<open>Properties\<close>

text \<open>C29. The \<open>debug_assert!(addr_size == 2)\<close> of \<open>virtual_address\<close> always holds: an address
  size that is neither 8 nor 4 bytes is 2.\<close>

theorem address_size_debug_assert:
  "get_address_size_in_bytes b x d c \<noteq> 8 \<Longrightarrow> get_address_size_in_bytes b x d c \<noteq> 4 \<Longrightarrow>
   get_address_size_in_bytes b x d c = 2"
  using get_address_size_in_bytes_cases [of b x d c] by auto

theorem address_size_debug_assert_witness:
  "get_address_size_in_bytes BX Reg_None 0 Code64 \<noteq> 8 \<and> get_address_size_in_bytes BX Reg_None 0 Code64 \<noteq> 4 \<and>
   get_address_size_in_bytes BX Reg_None 0 Code64 = 2"
proof -
  have "get_address_size_in_bytes BX Reg_None 0 Code64 \<noteq> 8 \<and> get_address_size_in_bytes BX Reg_None 0 Code64 \<noteq> 4"
    by (simp add: get_address_size_in_bytes_def reg_ord_le_iff BX_def Reg_None_def RAX_def R15_def
        RIP_def EAX_def R15D_def EIP_def)
  then show ?thesis
    using address_size_debug_assert [of BX Reg_None 0 Code64] by simp
qed




text \<open>The spec's VSIB scenario: a \<open>vm32z\<close> gather is VSIB with 32-bit indices, a
  \<open>vm64z\<close> gather VSIB with 64-bit indices, and a plain \<open>mov\<close> not VSIB.\<close>

theorem vsib_scenario:
  assumes "code_name c1 = ''EVEX_Vpgatherdd_zmm_k1_vm32z''"
    and "code_name c2 = ''EVEX_Vpgatherqq_zmm_k1_vm64z''" and "code_name c3 = ''Mov_rm64_r64''"
  shows "vsib code_name (set_code c1 i) = Some False \<and> is_vsib32 code_name (set_code c1 i) \<and>
           \<not> is_vsib64 code_name (set_code c1 i) \<and>
         vsib code_name (set_code c2 i) = Some True \<and> is_vsib64 code_name (set_code c2 i) \<and>
           \<not> is_vsib32 code_name (set_code c2 i) \<and>
         vsib code_name (set_code c3 i) = None \<and> \<not> is_vsib code_name (set_code c3 i)"
  using assms
  by (simp add: vsib_def is_vsib_def is_vsib32_def is_vsib64_def iced_field
      vsib32_code_names_def vsib64_code_names_def)

theorem vsib_scenario_witness:
  "let cn = (\<lambda>c::Code. if c = 1 then ''EVEX_Vpgatherdd_zmm_k1_vm32z''
                 else if c = 2 then ''EVEX_Vpgatherqq_zmm_k1_vm64z'' else ''Mov_rm64_r64'') in
   vsib cn (set_code 1 instruction_new) = Some False \<and> is_vsib32 cn (set_code 1 instruction_new) \<and>
     \<not> is_vsib64 cn (set_code 1 instruction_new) \<and>
   vsib cn (set_code 2 instruction_new) = Some True \<and> is_vsib64 cn (set_code 2 instruction_new) \<and>
     \<not> is_vsib32 cn (set_code 2 instruction_new) \<and>
   vsib cn (set_code 3 instruction_new) = None \<and> \<not> is_vsib cn (set_code 3 instruction_new)"
  unfolding Let_def
  by (rule vsib_scenario) simp_all

text \<open>C6. The address of an IP-relative memory operand (base RIP or EIP, no index) computed by
  \<open>virtual_address\<close> is the segment base plus \<open>ip_relative_memory_address\<close>: the general
  path (displacement sign- or zero-extended, masked to the address size) and the dedicated
  accessor agree, also on the 32-bit wrap-around of EIP-relative addresses.\<close>

theorem virtual_address_ip_relative:
  assumes k: "op_kind i n = Inr Memory" and ip: "is_ip_relative_memory_operand i"
    and ix: "memory_index i = Reg_None"
  shows "virtual_address code_name i n e f = Inr (f (memory_segment i) 0 0 + ip_relative_memory_address i)"
proof -
  have ne: "RIP \<noteq> Reg_None" "EIP \<noteq> Reg_None" "RIP \<noteq> EIP"
    by (simp_all add: RIP_def EIP_def Reg_None_def)
  from ip consider (rip) "memory_base i = RIP" | (eip) "memory_base i = EIP"
    by (auto simp: is_ip_relative_memory_operand_def)
  then show ?thesis
  proof cases
    case rip
    then show ?thesis
      using k ix ne by (simp add: virtual_address_def memory_operand_address_def address_size_regs
          ip_relative_memory_address_def Let_def add.commute)
  next
    case eip
    then show ?thesis
      using k ix ne by (simp add: virtual_address_def memory_operand_address_def address_size_regs
          ip_relative_memory_address_def Let_def next_ip32_def next_ip_def ucast_ucast_u32_take_bit eip_wrap)
  qed
qed

theorem virtual_address_ip_relative_witness:
  "let i = set_memory_base RIP (set_op0_kind Memory instruction_new) in
   op_kind i 0 = Inr Memory \<and> is_ip_relative_memory_operand i \<and> memory_index i = Reg_None \<and>
   virtual_address (\<lambda>_. []) i 0 0 (\<lambda>_ _ _. 0) =
     Inr ((\<lambda>_ _ _. 0) (memory_segment i) 0 0 + ip_relative_memory_address i)"
proof -
  let ?i = "set_memory_base RIP (set_op0_kind Memory instruction_new)"
  have h: "op_kind ?i 0 = Inr Memory" "is_ip_relative_memory_operand ?i" "memory_index ?i = Reg_None"
    by (simp_all add: op_kind_def iced_field opkind_of_ord_def op_kinds_def set_memory_base_def
        is_ip_relative_memory_operand_def memory_base_def memory_index_def instruction_new_def
        reg_of_u8_def Reg_None_def)
  show ?thesis
    unfolding Let_def using h virtual_address_ip_relative [OF h] by simp
qed

text \<open>C19. For a general memory operand the offset added to the segment base is masked to the
  address size: it is below \<open>2^16\<close>, \<open>2^32\<close> or \<open>2^64\<close> for 2-, 4- and 8-byte addressing.\<close>

theorem virtual_address_memory_bounds:
  assumes k: "op_kind i n = Inr Memory"
  shows "\<exists>v. virtual_address code_name i n e f = Inr v \<and>
           unat (v - f (memory_segment i) 0 0) <
             2 ^ (8 * nat (get_address_size_in_bytes (memory_base i) (memory_index i) (memory_displ_size i) (code_size i)))"
proof -
  let ?s = "get_address_size_in_bytes (memory_base i) (memory_index i) (memory_displ_size i) (code_size i)"
  have s: "?s \<in> {2, 4, 8}" by (rule get_address_size_in_bytes_cases)
  have "unat (x AND (if ?s = 8 then mask 64 else if ?s = 4 then mask 32 else mask 16)) < 2 ^ (8 * nat ?s)"
    for x :: u64
    using s unat_and_mask_less [of 64 x] unat_and_mask_less [of 32 x] unat_and_mask_less [of 16 x]
    by auto
  then show ?thesis
    using k by (simp add: virtual_address_def memory_operand_address_def Let_def)
qed

theorem virtual_address_memory_bounds_witness:
  "op_kind (set_op0_kind Memory instruction_new) 0 = Inr Memory \<and>
   (\<exists>v. virtual_address (\<lambda>_. []) (set_op0_kind Memory instruction_new) 0 0 (\<lambda>_ _ _. 0) = Inr v \<and>
     unat (v - (\<lambda>_ _ _. 0) (memory_segment (set_op0_kind Memory instruction_new)) 0 0) <
       2 ^ (8 * nat (get_address_size_in_bytes (memory_base (set_op0_kind Memory instruction_new))
          (memory_index (set_op0_kind Memory instruction_new))
          (memory_displ_size (set_op0_kind Memory instruction_new))
          (code_size (set_op0_kind Memory instruction_new)))))"
proof -
  have h: "op_kind (set_op0_kind Memory instruction_new) 0 = Inr Memory"
    by (simp add: op_kind_def iced_field opkind_of_ord_def op_kinds_def)
  show ?thesis
    using h virtual_address_memory_bounds [OF h, of "\<lambda>_. []" 0 "\<lambda>_ _ _. 0"] by blast
qed

text \<open>C20. \<open>virtual_address\<close> panics exactly for an operand number outside 0..4 (through
  \<open>op_kind\<close>); every operand kind of a valid operand yields an address.\<close>

theorem virtual_address_error:
  "virtual_address code_name i n e f = Inl NYI \<longleftrightarrow> \<not> (0 \<le> n \<and> n \<le> 4)"
  by (simp add: virtual_address_def op_kind_def)

end
