(* ===== verification/Instruction_Declare.thy ===== *)
theory Instruction_Declare
  imports Instruction_Memory
begin

text \<open>
  The \<open>db\<close>/\<open>dw\<close>/\<open>dd\<close>/\<open>dq\<close> pseudo-instructions of \<open>instruction.rs\<close> (lines 1532-1775)
  keep up to 16 data bytes in the instruction's own storage: bytes 0-3 in \<open>reg0\<close>..\<open>reg3\<close>,
  4-7 in \<open>immediate\<close>, 8-11 in \<open>mem_displ\<close>, 12 and 13 in \<open>mem_base_reg\<close> and
  \<open>mem_index_reg\<close>, 14 and 15 in the low half of \<open>op_kind_flags\<close>, each wider field
  little-endian. The getters and setters by byte, word, dword and qword index are modelled
  as written, panicking (\<open>Inl NYI\<close>) on an index out of range. \<open>declare_bytes\<close> reads
  the 16-byte buffer through the byte getter, \<open>le_word\<close> concatenates bytes little-endian,
  \<open>word_bytes\<close> splits a word into its bytes and \<open>set_declare_bytes\<close> writes bytes one by
  one through the byte setter: the contract the wider accessors refine.
\<close>

unbundle bit_operations_syntax

type_synonym i8 = int

definition set_declare_byte_value :: "i32 \<Rightarrow> u8 \<Rightarrow> Instruction \<Rightarrow> Instruction result" where
  "set_declare_byte_value index new_value self =
     (if index = 0 then Inr (self\<lparr>reg0 := new_value\<rparr>)
      else if index = 1 then Inr (self\<lparr>reg1 := new_value\<rparr>)
      else if index = 2 then Inr (self\<lparr>reg2 := new_value\<rparr>)
      else if index = 3 then Inr (self\<lparr>reg3 := new_value\<rparr>)
      else if index = 4 then Inr (self\<lparr>immediate := (immediate self AND 0xFFFFFF00) OR ucast new_value\<rparr>)
      else if index = 5 then
        Inr (self\<lparr>immediate := (immediate self AND 0xFFFF00FF) OR push_bit 8 (ucast new_value)\<rparr>)
      else if index = 6 then
        Inr (self\<lparr>immediate := (immediate self AND 0xFF00FFFF) OR push_bit 16 (ucast new_value)\<rparr>)
      else if index = 7 then
        Inr (self\<lparr>immediate := (immediate self AND 0x00FFFFFF) OR push_bit 24 (ucast new_value)\<rparr>)
      else if index = 8 then Inr (self\<lparr>mem_displ := (mem_displ self AND 0xFFFFFF00) OR ucast new_value\<rparr>)
      else if index = 9 then
        Inr (self\<lparr>mem_displ := (mem_displ self AND 0xFFFF00FF) OR push_bit 8 (ucast new_value)\<rparr>)
      else if index = 10 then
        Inr (self\<lparr>mem_displ := (mem_displ self AND 0xFF00FFFF) OR push_bit 16 (ucast new_value)\<rparr>)
      else if index = 11 then
        Inr (self\<lparr>mem_displ := (mem_displ self AND 0x00FFFFFF) OR push_bit 24 (ucast new_value)\<rparr>)
      else if index = 12 then Inr (self\<lparr>mem_base_reg := new_value\<rparr>)
      else if index = 13 then Inr (self\<lparr>mem_index_reg := new_value\<rparr>)
      else if index = 14 then
        Inr (self\<lparr>op_kind_flags := (op_kind_flags self AND 0xFFFFFF00) OR ucast new_value\<rparr>)
      else if index = 15 then
        Inr (self\<lparr>op_kind_flags := (op_kind_flags self AND 0xFFFF00FF) OR push_bit 8 (ucast new_value)\<rparr>)
      else Inl NYI)"

definition set_declare_byte_value_i8 :: "i32 \<Rightarrow> i8 \<Rightarrow> Instruction \<Rightarrow> Instruction result" where
  "set_declare_byte_value_i8 index new_value self = set_declare_byte_value index (word_of_int new_value) self"

definition get_declare_byte_value :: "Instruction \<Rightarrow> i32 \<Rightarrow> u8 result" where
  "get_declare_byte_value self index =
     (if index = 0 then Inr (reg0 self)
      else if index = 1 then Inr (reg1 self)
      else if index = 2 then Inr (reg2 self)
      else if index = 3 then Inr (reg3 self)
      else if index = 4 then Inr (ucast (immediate self))
      else if index = 5 then Inr (ucast (drop_bit 8 (immediate self)))
      else if index = 6 then Inr (ucast (drop_bit 16 (immediate self)))
      else if index = 7 then Inr (ucast (drop_bit 24 (immediate self)))
      else if index = 8 then Inr (ucast (mem_displ self))
      else if index = 9 then Inr (ucast (drop_bit 8 (mem_displ self)))
      else if index = 10 then Inr (ucast (drop_bit 16 (mem_displ self)))
      else if index = 11 then Inr (ucast (drop_bit 24 (mem_displ self)))
      else if index = 12 then Inr (mem_base_reg self)
      else if index = 13 then Inr (mem_index_reg self)
      else if index = 14 then Inr (ucast (op_kind_flags self))
      else if index = 15 then Inr (ucast (drop_bit 8 (op_kind_flags self)))
      else Inl NYI)"

definition set_declare_word_value :: "i32 \<Rightarrow> u16 \<Rightarrow> Instruction \<Rightarrow> Instruction result" where
  "set_declare_word_value index new_value self =
     (if index = 0 then Inr (self\<lparr>reg0 := ucast new_value, reg1 := ucast (drop_bit 8 new_value)\<rparr>)
      else if index = 1 then Inr (self\<lparr>reg2 := ucast new_value, reg3 := ucast (drop_bit 8 new_value)\<rparr>)
      else if index = 2 then Inr (self\<lparr>immediate := (immediate self AND 0xFFFF0000) OR ucast new_value\<rparr>)
      else if index = 3 then
        Inr (self\<lparr>immediate := ucast (ucast (immediate self) :: u16) OR push_bit 16 (ucast new_value)\<rparr>)
      else if index = 4 then Inr (self\<lparr>mem_displ := (mem_displ self AND 0xFFFF0000) OR ucast new_value\<rparr>)
      else if index = 5 then
        Inr (self\<lparr>mem_displ := ucast (ucast (mem_displ self) :: u16) OR push_bit 16 (ucast new_value)\<rparr>)
      else if index = 6 then
        Inr (self\<lparr>mem_base_reg := ucast new_value, mem_index_reg := ucast (drop_bit 8 new_value)\<rparr>)
      else if index = 7 then
        Inr (self\<lparr>op_kind_flags := (op_kind_flags self AND 0xFFFF0000) OR ucast new_value\<rparr>)
      else Inl NYI)"

definition set_declare_word_value_i16 :: "i32 \<Rightarrow> i16 \<Rightarrow> Instruction \<Rightarrow> Instruction result" where
  "set_declare_word_value_i16 index new_value self = set_declare_word_value index (word_of_int new_value) self"

definition get_declare_word_value :: "Instruction \<Rightarrow> i32 \<Rightarrow> u16 result" where
  "get_declare_word_value self index =
     (if index = 0 then Inr (ucast (reg0 self) OR push_bit 8 (ucast (reg1 self)))
      else if index = 1 then Inr (ucast (reg2 self) OR push_bit 8 (ucast (reg3 self)))
      else if index = 2 then Inr (ucast (immediate self))
      else if index = 3 then Inr (ucast (drop_bit 16 (immediate self)))
      else if index = 4 then Inr (ucast (mem_displ self))
      else if index = 5 then Inr (ucast (drop_bit 16 (mem_displ self)))
      else if index = 6 then Inr (ucast (mem_base_reg self) OR push_bit 8 (ucast (mem_index_reg self)))
      else if index = 7 then Inr (ucast (op_kind_flags self))
      else Inl NYI)"

definition set_declare_dword_value :: "i32 \<Rightarrow> u32 \<Rightarrow> Instruction \<Rightarrow> Instruction result" where
  "set_declare_dword_value index new_value self =
     (if index = 0 then
        Inr (self\<lparr>reg0 := ucast new_value, reg1 := ucast (drop_bit 8 new_value),
                  reg2 := ucast (drop_bit 16 new_value), reg3 := ucast (drop_bit 24 new_value)\<rparr>)
      else if index = 1 then Inr (self\<lparr>immediate := new_value\<rparr>)
      else if index = 2 then Inr (self\<lparr>mem_displ := new_value\<rparr>)
      else if index = 3 then
        Inr (self\<lparr>mem_base_reg := ucast new_value, mem_index_reg := ucast (drop_bit 8 new_value),
                  op_kind_flags := (op_kind_flags self AND 0xFFFF0000) OR drop_bit 16 new_value\<rparr>)
      else Inl NYI)"

definition set_declare_dword_value_i32 :: "i32 \<Rightarrow> i32 \<Rightarrow> Instruction \<Rightarrow> Instruction result" where
  "set_declare_dword_value_i32 index new_value self = set_declare_dword_value index (word_of_int new_value) self"

definition get_declare_dword_value :: "Instruction \<Rightarrow> i32 \<Rightarrow> u32 result" where
  "get_declare_dword_value self index =
     (if index = 0 then
        Inr (ucast (reg0 self) OR push_bit 8 (ucast (reg1 self)) OR push_bit 16 (ucast (reg2 self))
             OR push_bit 24 (ucast (reg3 self)))
      else if index = 1 then Inr (immediate self)
      else if index = 2 then Inr (mem_displ self)
      else if index = 3 then
        Inr (ucast (mem_base_reg self) OR push_bit 8 (ucast (mem_index_reg self)) OR push_bit 16 (op_kind_flags self))
      else Inl NYI)"

definition set_declare_qword_value :: "i32 \<Rightarrow> u64 \<Rightarrow> Instruction \<Rightarrow> Instruction result" where
  "set_declare_qword_value index new_value self =
     (if index = 0 then
        Inr (self\<lparr>reg0 := ucast new_value, reg1 := ucast (drop_bit 8 new_value),
                  reg2 := ucast (drop_bit 16 new_value), reg3 := ucast (drop_bit 24 new_value),
                  immediate := ucast (drop_bit 32 new_value)\<rparr>)
      else if index = 1 then
        Inr (self\<lparr>mem_displ := ucast new_value, mem_base_reg := ucast (drop_bit 32 new_value),
                  mem_index_reg := ucast (drop_bit 40 new_value),
                  op_kind_flags := (op_kind_flags self AND 0xFFFF0000) OR ucast (drop_bit 48 new_value)\<rparr>)
      else Inl NYI)"

definition set_declare_qword_value_i64 :: "i32 \<Rightarrow> i64 \<Rightarrow> Instruction \<Rightarrow> Instruction result" where
  "set_declare_qword_value_i64 index new_value self = set_declare_qword_value index (word_of_int new_value) self"

definition get_declare_qword_value :: "Instruction \<Rightarrow> i32 \<Rightarrow> u64 result" where
  "get_declare_qword_value self index =
     (if index = 0 then
        Inr (ucast (reg0 self) OR push_bit 8 (ucast (reg1 self)) OR push_bit 16 (ucast (reg2 self))
             OR push_bit 24 (ucast (reg3 self)) OR push_bit 32 (ucast (immediate self)))
      else if index = 1 then
        Inr (ucast (mem_displ self) OR push_bit 32 (ucast (mem_base_reg self))
             OR push_bit 40 (ucast (mem_index_reg self)) OR push_bit 48 (ucast (op_kind_flags self)))
      else Inl NYI)"

subsection \<open>The 16-byte buffer\<close>

definition declare_bytes :: "Instruction \<Rightarrow> u8 list" where
  "declare_bytes self =
     map (\<lambda>k. case get_declare_byte_value self (int k) of Inr b \<Rightarrow> b | Inl _ \<Rightarrow> 0) [0..<16]"

primrec le_word :: "u8 list \<Rightarrow> 'a::len word" where
  "le_word [] = 0"
| "le_word (b # bs) = ucast b OR push_bit 8 (le_word bs)"

definition word_bytes :: "nat \<Rightarrow> 'a::len word \<Rightarrow> u8 list" where
  "word_bytes n w = map (\<lambda>j. ucast (drop_bit (8 * j) w)) [0..<n]"

definition set_declare_bytes :: "nat \<Rightarrow> u8 list \<Rightarrow> Instruction \<Rightarrow> Instruction result" where
  "set_declare_bytes p bs self =
     fold (\<lambda>(j, b) r. rbind r (set_declare_byte_value (int j) b)) (zip [p..<p + length bs] bs) (Inr self)"

subsection \<open>Words as little-endian byte lists\<close>

lemma le_word_bits:
  "bit (le_word bs :: 'a::len word) n \<longleftrightarrow>
     n < LENGTH('a) \<and> n div 8 < length bs \<and> bit (bs ! (n div 8)) (n mod 8)"
proof (induction bs arbitrary: n)
  case Nil
  then show ?case by simp
next
  case (Cons b bs)
  show ?case
  proof (cases "n < 8")
    case True
    then show ?thesis by (auto simp: bit_simps)
  next
    case False
    then have "n div 8 = Suc ((n - 8) div 8)" "n mod 8 = (n - 8) mod 8"
      by (simp_all add: le_div_geq le_mod_geq)
    with False Cons.IH [of "n - 8"] show ?thesis
      by (auto simp: bit_simps dest: bit_imp_le_length)
  qed
qed

lemma length_word_bytes [simp]: "length (word_bytes n w) = n"
  by (simp add: word_bytes_def)

lemma word_bytes_0 [simp]: "word_bytes 0 w = []"
  by (simp add: word_bytes_def)

lemma take_word_bytes [simp]: "take m (word_bytes n w) = word_bytes (min m n) w"
  by (rule nth_equalityI) (simp_all add: word_bytes_def)

lemma drop_word_bytes [simp]: "drop m (word_bytes n w) = word_bytes (n - m) (drop_bit (8 * m) w)"
  by (rule nth_equalityI) (simp_all add: word_bytes_def drop_bit_drop_bit algebra_simps less_diff_conv)

lemma le_word_append: "(le_word (xs @ ys) :: 'a::len word) = le_word xs OR push_bit (8 * length xs) (le_word ys)"
  by (induction xs) (simp_all add: push_bit_or ac_simps)

lemma le_word_word_bytes [simp]:
  "(le_word (word_bytes n w) :: 'b::len word) = ucast (take_bit (8 * n) (w :: 'a::len word))"
proof (intro bit_word_eqI)
  fix m
  have d: "(m div 8 < n) = (m < 8 * n)" "8 * (m div 8) + m mod 8 = m"
    by (auto simp: div_less_iff_less_mult)
  have e: "bit w m \<Longrightarrow> m mod 8 < LENGTH('a)"
  proof -
    assume "bit w m"
    then have "m < LENGTH('a)" by (rule bit_imp_le_length)
    then show ?thesis using mod_less_eq_dividend [of m 8] by linarith
  qed
  show "bit (le_word (word_bytes n w) :: 'b word) m = bit (ucast (take_bit (8 * n) w) :: 'b word) m"
    by (auto simp: le_word_bits word_bytes_def bit_simps d e)
qed

lemma bit_word_beyond [simp]: "LENGTH('a) \<le> m \<Longrightarrow> \<not> bit (w :: 'a::len word) (m + n)"
  by (auto dest: bit_imp_le_length)

lemma ucast_take_bit_wide [simp]:
  "LENGTH('b) \<le> n \<Longrightarrow> (ucast (take_bit n (x :: 'a::len word)) :: 'b::len word) = ucast x"
  by (intro bit_word_eqI) (auto simp: bit_simps)

lemma push_bit_take_bit_overflow [simp]:
  "LENGTH('a) \<le> n + m \<Longrightarrow> push_bit n (take_bit m (x :: 'a::len word)) = push_bit n x"
  by (intro bit_word_eqI) (auto simp: bit_simps)

lemma push_bit_ucast_take_bit_overflow [simp]:
  "LENGTH('b) \<le> n + m \<Longrightarrow>
     push_bit n (ucast (take_bit m (x :: 'a::len word)) :: 'b::len word) = push_bit n (ucast x)"
  by (intro bit_word_eqI) (auto simp: bit_simps)

lemma rbind_Inr_ex: "rbind x (\<lambda>a. Inr (f a)) = Inr y \<Longrightarrow> \<exists>a. x = Inr a \<and> f a = y"
  by (cases x) simp_all

subsection \<open>Index ranges\<close>

lemma int_index_16:
  "(0 \<le> (k::int) \<and> k < 16) = (k = 0 \<or> k = 1 \<or> k = 2 \<or> k = 3 \<or> k = 4 \<or> k = 5 \<or> k = 6 \<or> k = 7 \<or>
     k = 8 \<or> k = 9 \<or> k = 10 \<or> k = 11 \<or> k = 12 \<or> k = 13 \<or> k = 14 \<or> k = 15)"
  by arith

lemma int_index_8:
  "(0 \<le> (k::int) \<and> k < 8) = (k = 0 \<or> k = 1 \<or> k = 2 \<or> k = 3 \<or> k = 4 \<or> k = 5 \<or> k = 6 \<or> k = 7)"
  by arith

lemma int_index_4: "(0 \<le> (k::int) \<and> k < 4) = (k = 0 \<or> k = 1 \<or> k = 2 \<or> k = 3)"
  by arith

lemma int_index_2: "(0 \<le> (k::int) \<and> k < 2) = (k = 0 \<or> k = 1)"
  by arith

lemma nat_index_16:
  "(k::nat) < 16 \<Longrightarrow> k = 0 \<or> k = 1 \<or> k = 2 \<or> k = 3 \<or> k = 4 \<or> k = 5 \<or> k = 6 \<or> k = 7 \<or>
     k = 8 \<or> k = 9 \<or> k = 10 \<or> k = 11 \<or> k = 12 \<or> k = 13 \<or> k = 14 \<or> k = 15"
  by arith

lemma nat_index_8:
  "(k::nat) < 8 \<Longrightarrow> k = 0 \<or> k = 1 \<or> k = 2 \<or> k = 3 \<or> k = 4 \<or> k = 5 \<or> k = 6 \<or> k = 7"
  by arith

lemma nat_index_4: "(k::nat) < 4 \<Longrightarrow> k = 0 \<or> k = 1 \<or> k = 2 \<or> k = 3"
  by arith

lemma nat_index_2: "(k::nat) < 2 \<Longrightarrow> k = 0 \<or> k = 1"
  by arith

subsection \<open>The buffer seen through the byte accessors\<close>

lemma declare_masks:
  "(0xFFFFFF00 :: u32) = NOT (push_bit 0 (mask 8))" "(0xFFFF00FF :: u32) = NOT (push_bit 8 (mask 8))"
  "(0xFF00FFFF :: u32) = NOT (push_bit 16 (mask 8))" "(0x00FFFFFF :: u32) = NOT (push_bit 24 (mask 8))"
  "(0xFFFF0000 :: u32) = NOT (push_bit 0 (mask 16))"
  by code_simp+

lemma byte_field_update:
  "(x AND NOT (push_bit s (mask 8))) OR push_bit s (ucast (v::u8)) = set_field s 8 (ucast v) (x::u32)"
  by (simp add: set_field_def)

lemma byte_field_read: "(ucast (drop_bit s (x::u32)) :: u8) = ucast (get_field s 8 x)"
  by (intro bit_word_eqI) (auto simp: bit_simps get_field_def)

lemma byte_take_bit [simp]: "(ucast (take_bit 8 (ucast (v::u8) :: u32)) :: u8) = v"
  by (intro bit_word_eqI) (auto simp: bit_simps)

lemma set_declare_byte_value_field:
  "set_declare_byte_value index v i =
     (if index = 0 then Inr (i\<lparr>reg0 := v\<rparr>)
      else if index = 1 then Inr (i\<lparr>reg1 := v\<rparr>)
      else if index = 2 then Inr (i\<lparr>reg2 := v\<rparr>)
      else if index = 3 then Inr (i\<lparr>reg3 := v\<rparr>)
      else if index = 4 then Inr (i\<lparr>immediate := set_field 0 8 (ucast v) (immediate i)\<rparr>)
      else if index = 5 then Inr (i\<lparr>immediate := set_field 8 8 (ucast v) (immediate i)\<rparr>)
      else if index = 6 then Inr (i\<lparr>immediate := set_field 16 8 (ucast v) (immediate i)\<rparr>)
      else if index = 7 then Inr (i\<lparr>immediate := set_field 24 8 (ucast v) (immediate i)\<rparr>)
      else if index = 8 then Inr (i\<lparr>mem_displ := set_field 0 8 (ucast v) (mem_displ i)\<rparr>)
      else if index = 9 then Inr (i\<lparr>mem_displ := set_field 8 8 (ucast v) (mem_displ i)\<rparr>)
      else if index = 10 then Inr (i\<lparr>mem_displ := set_field 16 8 (ucast v) (mem_displ i)\<rparr>)
      else if index = 11 then Inr (i\<lparr>mem_displ := set_field 24 8 (ucast v) (mem_displ i)\<rparr>)
      else if index = 12 then Inr (i\<lparr>mem_base_reg := v\<rparr>)
      else if index = 13 then Inr (i\<lparr>mem_index_reg := v\<rparr>)
      else if index = 14 then Inr (i\<lparr>op_kind_flags := set_field 0 8 (ucast v) (op_kind_flags i)\<rparr>)
      else if index = 15 then Inr (i\<lparr>op_kind_flags := set_field 8 8 (ucast v) (op_kind_flags i)\<rparr>)
      else Inl NYI)"
  unfolding set_declare_byte_value_def declare_masks byte_field_update [symmetric]
  by (simp only: push_bit_0_id id_apply)

lemma get_declare_byte_value_field:
  "get_declare_byte_value i index =
     (if index = 0 then Inr (reg0 i)
      else if index = 1 then Inr (reg1 i)
      else if index = 2 then Inr (reg2 i)
      else if index = 3 then Inr (reg3 i)
      else if index = 4 then Inr (ucast (get_field 0 8 (immediate i)))
      else if index = 5 then Inr (ucast (get_field 8 8 (immediate i)))
      else if index = 6 then Inr (ucast (get_field 16 8 (immediate i)))
      else if index = 7 then Inr (ucast (get_field 24 8 (immediate i)))
      else if index = 8 then Inr (ucast (get_field 0 8 (mem_displ i)))
      else if index = 9 then Inr (ucast (get_field 8 8 (mem_displ i)))
      else if index = 10 then Inr (ucast (get_field 16 8 (mem_displ i)))
      else if index = 11 then Inr (ucast (get_field 24 8 (mem_displ i)))
      else if index = 12 then Inr (mem_base_reg i)
      else if index = 13 then Inr (mem_index_reg i)
      else if index = 14 then Inr (ucast (get_field 0 8 (op_kind_flags i)))
      else if index = 15 then Inr (ucast (get_field 8 8 (op_kind_flags i)))
      else Inl NYI)"
  unfolding get_declare_byte_value_def byte_field_read [symmetric]
  by (simp only: drop_bit_0 id_apply)

lemma declare_bytes_fields:
  "declare_bytes i =
     [reg0 i, reg1 i, reg2 i, reg3 i,
      ucast (get_field 0 8 (immediate i)), ucast (get_field 8 8 (immediate i)),
      ucast (get_field 16 8 (immediate i)), ucast (get_field 24 8 (immediate i)),
      ucast (get_field 0 8 (mem_displ i)), ucast (get_field 8 8 (mem_displ i)),
      ucast (get_field 16 8 (mem_displ i)), ucast (get_field 24 8 (mem_displ i)),
      mem_base_reg i, mem_index_reg i,
      ucast (get_field 0 8 (op_kind_flags i)), ucast (get_field 8 8 (op_kind_flags i))]"
  by (simp add: declare_bytes_def get_declare_byte_value_field upt_rec)

lemma declare_bytes_set_byte:
  assumes "j < 16"
  shows "rbind (set_declare_byte_value (int j) v i) (\<lambda>i'. Inr (declare_bytes i')) =
         Inr ((declare_bytes i)[j := v])"
proof -
  have "j \<in> {0..<16}" using assms by simp
  then have "j \<in> set [0..<16]" by simp
  then show ?thesis
    by (simp add: upt_rec) (elim disjE; simp add: set_declare_byte_value_field declare_bytes_fields)
qed

lemma get_declare_byte_value_nth:
  "k < 16 \<Longrightarrow> get_declare_byte_value i (int k) = Inr (declare_bytes i ! k)"
proof -
  assume k: "k < 16"
  then have "\<exists>b. get_declare_byte_value i (int k) = Inr b"
    by (elim nat_index_16 [elim_format] disjE) (simp_all add: get_declare_byte_value_def)
  with k show ?thesis
    by (auto simp: declare_bytes_def)
qed

lemma set_declare_byte_value_Inr:
  "j < 16 \<Longrightarrow> \<exists>i'. set_declare_byte_value (int j) v i = Inr i'"
  by (elim nat_index_16 [elim_format] disjE) (simp_all add: set_declare_byte_value_def)

lemma length_declare_bytes [simp]: "length (declare_bytes i) = 16"
  by (simp add: declare_bytes_def)

lemma declare_bytes_layout:
  "declare_bytes i =
     [reg0 i, reg1 i, reg2 i, reg3 i] @ word_bytes 4 (immediate i) @ word_bytes 4 (mem_displ i) @
     [mem_base_reg i, mem_index_reg i] @ word_bytes 2 (op_kind_flags i)"
  by (simp add: declare_bytes_fields word_bytes_def upt_rec byte_field_read)

subsection \<open>The wide accessors on the buffer\<close>

lemma get_declare_word_value_bytes:
  "k < 8 \<Longrightarrow> get_declare_word_value i (int k) = Inr (le_word (take 2 (drop (2 * k) (declare_bytes i))))"
  by (elim nat_index_8 [elim_format] disjE; simp add: get_declare_word_value_def declare_bytes_layout)

lemma get_declare_dword_value_bytes:
  "k < 4 \<Longrightarrow> get_declare_dword_value i (int k) = Inr (le_word (take 4 (drop (4 * k) (declare_bytes i))))"
  by (elim nat_index_4 [elim_format] disjE; simp add: get_declare_dword_value_def declare_bytes_layout le_word_append take_bit_word_eq_self)

lemma get_declare_qword_value_bytes:
  "k < 2 \<Longrightarrow> get_declare_qword_value i (int k) = Inr (le_word (take 8 (drop (8 * k) (declare_bytes i))))"
  by (elim nat_index_2 [elim_format] disjE; simp add: get_declare_qword_value_def declare_bytes_layout le_word_append take_bit_word_eq_self)
lemma set_declare_word_value_bytes:
  "k < 8 \<Longrightarrow> rbind (set_declare_word_value (int k) v i) (\<lambda>i'. Inr (declare_bytes i')) =
     Inr (take (2 * k) (declare_bytes i) @ word_bytes 2 v @ drop (2 * k + 2) (declare_bytes i))"
  apply (elim nat_index_8 [elim_format] disjE; simp add: set_declare_word_value_def declare_bytes_layout declare_masks)
  apply (simp_all add: word_bytes_def upt_rec)
  apply (auto intro!: bit_word_eqI simp: bit_simps dest: bit_imp_le_length)
  done
lemma set_declare_dword_value_bytes:
  "k < 4 \<Longrightarrow> rbind (set_declare_dword_value (int k) v i) (\<lambda>i'. Inr (declare_bytes i')) =
     Inr (take (4 * k) (declare_bytes i) @ word_bytes 4 v @ drop (4 * k + 4) (declare_bytes i))"
  apply (elim nat_index_4 [elim_format] disjE; simp add: set_declare_dword_value_def declare_bytes_layout declare_masks)
  apply (simp_all add: word_bytes_def upt_rec)
  apply (auto intro!: bit_word_eqI simp: bit_simps dest: bit_imp_le_length)
  done

lemma set_declare_qword_value_bytes:
  "k < 2 \<Longrightarrow> rbind (set_declare_qword_value (int k) v i) (\<lambda>i'. Inr (declare_bytes i')) =
     Inr (take (8 * k) (declare_bytes i) @ word_bytes 8 v @ drop (8 * k + 8) (declare_bytes i))"
  apply (elim nat_index_2 [elim_format] disjE; simp add: set_declare_qword_value_def declare_bytes_layout declare_masks)
  apply (simp_all add: word_bytes_def upt_rec)
  apply (auto intro!: bit_word_eqI simp: bit_simps dest: bit_imp_le_length)
  done

lemma set_declare_bytes_Cons:
  "set_declare_bytes p (b # bs) i = rbind (set_declare_byte_value (int p) b i) (set_declare_bytes (Suc p) bs)"
proof -
  have "[p..<p + length (b # bs)] = p # [Suc p..<Suc p + length bs]"
    by (simp add: upt_rec)
  moreover have "fold (\<lambda>(j, b) r. rbind r (set_declare_byte_value (int j) b)) xs (Inl e) = Inl e" for xs e
    by (induction xs) (auto simp: rbind_def)
  ultimately show ?thesis
    by (cases "set_declare_byte_value (int p) b i") (simp_all add: set_declare_bytes_def rbind_def)
qed

lemma set_declare_bytes_splice:
  "p + length bs \<le> 16 \<Longrightarrow>
   rbind (set_declare_bytes p bs i) (\<lambda>i'. Inr (declare_bytes i')) =
     Inr (take p (declare_bytes i) @ bs @ drop (p + length bs) (declare_bytes i))"
proof (induction bs arbitrary: p i)
  case Nil
  then show ?case by (simp add: set_declare_bytes_def)
next
  case (Cons b bs)
  then have p: "p < 16" by simp
  obtain i1 where s: "set_declare_byte_value (int p) b i = Inr i1"
    and b1: "declare_bytes i1 = (declare_bytes i)[p := b]"
    using rbind_Inr_ex [OF declare_bytes_set_byte [OF p, of b i]] by blast
  have "Suc p + length bs \<le> 16" using Cons.prems by simp
  then show ?case
    using p by (simp add: set_declare_bytes_Cons s Cons.IH b1 upd_conv_take_nth_drop add.commute)
qed
lemma declare_word_roundtrip:
  assumes "k < 8"
  shows "rbind (set_declare_word_value (int k) v i) (\<lambda>i'. get_declare_word_value i' (int k)) = Inr v"
proof -
  obtain i' where s: "set_declare_word_value (int k) v i = Inr i'"
    and b: "declare_bytes i' = take (2 * k) (declare_bytes i) @ word_bytes 2 v @ drop (2 * k + 2) (declare_bytes i)"
    using rbind_Inr_ex [OF set_declare_word_value_bytes [OF assms]] by blast
  show ?thesis
    using assms by (simp add: s b get_declare_word_value_bytes take_bit_word_eq_self)
qed

lemma declare_dword_roundtrip:
  assumes "k < 4"
  shows "rbind (set_declare_dword_value (int k) v i) (\<lambda>i'. get_declare_dword_value i' (int k)) = Inr v"
proof -
  obtain i' where s: "set_declare_dword_value (int k) v i = Inr i'"
    and b: "declare_bytes i' = take (4 * k) (declare_bytes i) @ word_bytes 4 v @ drop (4 * k + 4) (declare_bytes i)"
    using rbind_Inr_ex [OF set_declare_dword_value_bytes [OF assms]] by blast
  show ?thesis
    using assms by (simp add: s b get_declare_dword_value_bytes take_bit_word_eq_self)
qed

lemma declare_qword_roundtrip:
  assumes "k < 2"
  shows "rbind (set_declare_qword_value (int k) v i) (\<lambda>i'. get_declare_qword_value i' (int k)) = Inr v"
proof -
  obtain i' where s: "set_declare_qword_value (int k) v i = Inr i'"
    and b: "declare_bytes i' = take (8 * k) (declare_bytes i) @ word_bytes 8 v @ drop (8 * k + 8) (declare_bytes i)"
    using rbind_Inr_ex [OF set_declare_qword_value_bytes [OF assms]] by blast
  show ?thesis
    using assms by (simp add: s b get_declare_qword_value_bytes take_bit_word_eq_self)
qed

lemma declare_byte_roundtrip_any:
  assumes "j < 16" "k < 16"
  shows "rbind (set_declare_byte_value (int j) v i) (\<lambda>i'. get_declare_byte_value i' (int k)) =
         (if k = j then Inr v else get_declare_byte_value i (int k))"
proof -
  obtain i' where s: "set_declare_byte_value (int j) v i = Inr i'"
    using set_declare_byte_value_Inr [OF assms(1)] by blast
  then have "declare_bytes i' = (declare_bytes i)[j := v]"
    using declare_bytes_set_byte [OF assms(1), of v i] by simp
  then show ?thesis
    using assms by (simp add: s get_declare_byte_value_nth)
qed

lemma declare_setters_fields:
  "(set_declare_byte_value k b i = Inr i' \<or> set_declare_word_value k w i = Inr i' \<or>
    set_declare_dword_value k d i = Inr i' \<or> set_declare_qword_value k q i = Inr i') \<Longrightarrow>
   next_rip i' = next_rip i \<and> code_flags i' = code_flags i \<and> memory_flags i' = memory_flags i \<and>
   get_field 16 16 (op_kind_flags i') = get_field 16 16 (op_kind_flags i)"
  apply (elim disjE)
  apply (simp_all add: set_declare_byte_value_def set_declare_word_value_def set_declare_dword_value_def
      set_declare_qword_value_def declare_masks split: if_splits)
  apply (auto intro!: bit_word_eqI simp: bit_simps bit_get_field)
  done

lemma bit_u32_high: "bit (x :: u32) (16 + n) \<Longrightarrow> n < 16"
  by (drule bit_imp_le_length) simp

lemma get_field_16_16_u32: "get_field 16 16 (x :: u32) = drop_bit 16 x"
  by (intro bit_word_eqI) (auto simp: bit_get_field bit_simps dest: bit_u32_high)

lemma int_outside: "((k::int) < 0 \<or> n \<le> k) = (\<not> (0 \<le> k \<and> k < n))"
  by arith

lemma sint_word_of_int_in_range:
  "- (2 ^ (LENGTH('a) - 1)) \<le> x \<Longrightarrow> x < 2 ^ (LENGTH('a) - 1) \<Longrightarrow> sint (word_of_int x :: 'a::len word) = x"
  by (simp add: sint_sbintrunc' signed_take_bit_int_eq_self)

subsection \<open>Properties\<close>

text \<open>C10. The byte accessors address a buffer of sixteen bytes: after
  \<open>set_declare_byte_value(j, v)\<close>, reading byte \<open>j\<close> gives \<open>v\<close> and every other byte is
  unchanged.\<close>

theorem declare_byte_roundtrip:
  assumes "j < 16" "k < 16"
  shows "rbind (set_declare_byte_value (int j) v i) (\<lambda>i'. get_declare_byte_value i' (int k)) =
         (if k = j then Inr v else get_declare_byte_value i (int k))"
  using assms by (rule declare_byte_roundtrip_any)

theorem declare_byte_roundtrip_witness:
  "rbind (set_declare_byte_value 14 0xAB instruction_new) (\<lambda>i'. get_declare_byte_value i' 14) = Inr 0xAB \<and>
   rbind (set_declare_byte_value 3 0xAB instruction_new) (\<lambda>i'. get_declare_byte_value i' 15) =
     get_declare_byte_value instruction_new 15"
  using declare_byte_roundtrip [where j=14 and k=14 and v="0xAB" and i=instruction_new] declare_byte_roundtrip [where j=3 and k=15 and v="0xAB" and i=instruction_new]
  by simp

text \<open>C26. Every declare accessor panics exactly on an index outside its range: 0-15 for
  bytes, 0-7 for words, 0-3 for dwords and 0-1 for qwords; on every index in range it
  succeeds.\<close>

theorem declare_index_errors:
  "(set_declare_byte_value k b i = Inl NYI \<longleftrightarrow> k < 0 \<or> 16 \<le> k) \<and>
   (get_declare_byte_value i k = Inl NYI \<longleftrightarrow> k < 0 \<or> 16 \<le> k) \<and>
   (set_declare_word_value k w i = Inl NYI \<longleftrightarrow> k < 0 \<or> 8 \<le> k) \<and>
   (get_declare_word_value i k = Inl NYI \<longleftrightarrow> k < 0 \<or> 8 \<le> k) \<and>
   (set_declare_dword_value k d i = Inl NYI \<longleftrightarrow> k < 0 \<or> 4 \<le> k) \<and>
   (get_declare_dword_value i k = Inl NYI \<longleftrightarrow> k < 0 \<or> 4 \<le> k) \<and>
   (set_declare_qword_value k q i = Inl NYI \<longleftrightarrow> k < 0 \<or> 2 \<le> k) \<and>
   (get_declare_qword_value i k = Inl NYI \<longleftrightarrow> k < 0 \<or> 2 \<le> k)"
  unfolding int_outside
  by (auto simp: set_declare_byte_value_def get_declare_byte_value_def set_declare_word_value_def
      get_declare_word_value_def set_declare_dword_value_def get_declare_dword_value_def
      set_declare_qword_value_def get_declare_qword_value_def int_index_16 int_index_8 int_index_4 int_index_2)

text \<open>C23. The word, dword and qword getters read the buffer little-endian: the value at
  index \<open>k\<close> is the concatenation of bytes \<open>n*k\<close> to \<open>n*k+n-1\<close> of the byte view, for
  \<open>n\<close> = 2, 4, 8.\<close>

theorem declare_wide_getters:
  "(k < 8 \<longrightarrow> get_declare_word_value i (int k) = Inr (le_word (take 2 (drop (2 * k) (declare_bytes i))))) \<and>
   (k < 4 \<longrightarrow> get_declare_dword_value i (int k) = Inr (le_word (take 4 (drop (4 * k) (declare_bytes i))))) \<and>
   (k < 2 \<longrightarrow> get_declare_qword_value i (int k) = Inr (le_word (take 8 (drop (8 * k) (declare_bytes i)))))"
  by (simp add: get_declare_word_value_bytes get_declare_dword_value_bytes get_declare_qword_value_bytes)

theorem declare_wide_getters_witness:
  "get_declare_word_value instruction_new 1 = Inr (le_word (take 2 (drop 2 (declare_bytes instruction_new)))) \<and>
   get_declare_dword_value instruction_new 1 = Inr (le_word (take 4 (drop 4 (declare_bytes instruction_new)))) \<and>
   get_declare_qword_value instruction_new 1 = Inr (le_word (take 8 (drop 8 (declare_bytes instruction_new))))"
  using declare_wide_getters [where k=1 and i=instruction_new] by simp

text \<open>C9. The word, dword and qword setters write the little-endian bytes of the value over
  bytes \<open>n*k\<close> to \<open>n*k+n-1\<close> of the byte view and leave the other bytes as they were.\<close>

theorem declare_wide_setters:
  "(k < 8 \<longrightarrow> rbind (set_declare_word_value (int k) w i) (\<lambda>i'. Inr (declare_bytes i')) =
     Inr (take (2 * k) (declare_bytes i) @ word_bytes 2 w @ drop (2 * k + 2) (declare_bytes i))) \<and>
   (k < 4 \<longrightarrow> rbind (set_declare_dword_value (int k) d i) (\<lambda>i'. Inr (declare_bytes i')) =
     Inr (take (4 * k) (declare_bytes i) @ word_bytes 4 d @ drop (4 * k + 4) (declare_bytes i))) \<and>
   (k < 2 \<longrightarrow> rbind (set_declare_qword_value (int k) q i) (\<lambda>i'. Inr (declare_bytes i')) =
     Inr (take (8 * k) (declare_bytes i) @ word_bytes 8 q @ drop (8 * k + 8) (declare_bytes i)))"
  by (simp add: set_declare_word_value_bytes set_declare_dword_value_bytes set_declare_qword_value_bytes)

theorem declare_wide_setters_witness:
  "rbind (set_declare_word_value 1 0xBEEF instruction_new) (\<lambda>i'. Inr (declare_bytes i')) =
     Inr (take 2 (declare_bytes instruction_new) @ word_bytes 2 (0xBEEF :: u16) @ drop 4 (declare_bytes instruction_new)) \<and>
   rbind (set_declare_dword_value 1 0xCAFE instruction_new) (\<lambda>i'. Inr (declare_bytes i')) =
     Inr (take 4 (declare_bytes instruction_new) @ word_bytes 4 (0xCAFE :: u32) @ drop 8 (declare_bytes instruction_new)) \<and>
   rbind (set_declare_qword_value 1 0xF00D instruction_new) (\<lambda>i'. Inr (declare_bytes i')) =
     Inr (take 8 (declare_bytes instruction_new) @ word_bytes 8 (0xF00D :: u64) @ drop 16 (declare_bytes instruction_new))"
  using declare_wide_setters [where k=1 and w="0xBEEF" and i=instruction_new and d="0xCAFE" and q="0xF00D"] by simp

text \<open>C25. Writing a word, dword or qword has the same effect on the byte view as writing its
  little-endian bytes one by one with \<open>set_declare_byte_value\<close>.\<close>

theorem declare_setters_bytewise:
  "(k < 8 \<longrightarrow> rbind (set_declare_word_value (int k) w i) (\<lambda>i'. Inr (declare_bytes i')) =
     rbind (set_declare_bytes (2 * k) (word_bytes 2 w) i) (\<lambda>i'. Inr (declare_bytes i'))) \<and>
   (k < 4 \<longrightarrow> rbind (set_declare_dword_value (int k) d i) (\<lambda>i'. Inr (declare_bytes i')) =
     rbind (set_declare_bytes (4 * k) (word_bytes 4 d) i) (\<lambda>i'. Inr (declare_bytes i'))) \<and>
   (k < 2 \<longrightarrow> rbind (set_declare_qword_value (int k) q i) (\<lambda>i'. Inr (declare_bytes i')) =
     rbind (set_declare_bytes (8 * k) (word_bytes 8 q) i) (\<lambda>i'. Inr (declare_bytes i')))"
  by (simp add: set_declare_word_value_bytes set_declare_dword_value_bytes set_declare_qword_value_bytes
      set_declare_bytes_splice)

theorem declare_setters_bytewise_witness:
  "rbind (set_declare_word_value 3 0xBEEF instruction_new) (\<lambda>i'. Inr (declare_bytes i')) =
     rbind (set_declare_bytes 6 (word_bytes 2 (0xBEEF :: u16)) instruction_new) (\<lambda>i'. Inr (declare_bytes i')) \<and>
   rbind (set_declare_dword_value 3 0xCAFE instruction_new) (\<lambda>i'. Inr (declare_bytes i')) =
     rbind (set_declare_bytes 12 (word_bytes 4 (0xCAFE :: u32)) instruction_new) (\<lambda>i'. Inr (declare_bytes i')) \<and>
   rbind (set_declare_qword_value 1 0xF00D instruction_new) (\<lambda>i'. Inr (declare_bytes i')) =
     rbind (set_declare_bytes 8 (word_bytes 8 (0xF00D :: u64)) instruction_new) (\<lambda>i'. Inr (declare_bytes i'))"
  using declare_setters_bytewise [where k=3 and w="0xBEEF" and i=instruction_new and d="0xCAFE"]
    declare_setters_bytewise [where k=1 and i=instruction_new and q="0xF00D"]
  by simp

text \<open>C24. Reading back at the index just written returns the value written, for words,
  dwords and qwords.\<close>

theorem declare_wide_roundtrips:
  "(k < 8 \<longrightarrow> rbind (set_declare_word_value (int k) w i) (\<lambda>i'. get_declare_word_value i' (int k)) = Inr w) \<and>
   (k < 4 \<longrightarrow> rbind (set_declare_dword_value (int k) d i) (\<lambda>i'. get_declare_dword_value i' (int k)) = Inr d) \<and>
   (k < 2 \<longrightarrow> rbind (set_declare_qword_value (int k) q i) (\<lambda>i'. get_declare_qword_value i' (int k)) = Inr q)"
  by (simp add: declare_word_roundtrip declare_dword_roundtrip declare_qword_roundtrip)

theorem declare_wide_roundtrips_witness:
  "rbind (set_declare_word_value 7 0xBEEF instruction_new) (\<lambda>i'. get_declare_word_value i' 7) = Inr 0xBEEF \<and>
   rbind (set_declare_dword_value 3 0xCAFEBABE instruction_new) (\<lambda>i'. get_declare_dword_value i' 3) = Inr 0xCAFEBABE \<and>
   rbind (set_declare_qword_value 1 0x0123456789ABCDEF instruction_new) (\<lambda>i'. get_declare_qword_value i' 1) =
     Inr 0x0123456789ABCDEF"
  using declare_wide_roundtrips [where k=7 and i=instruction_new and w="0xBEEF"]
    declare_wide_roundtrips [where k=3 and i=instruction_new and d="0xCAFEBABE"]
    declare_wide_roundtrips [where k=1 and i=instruction_new and q="0x0123456789ABCDEF"]
  by simp

text \<open>C27. The signed setters (\<open>_i8\<close>, \<open>_i16\<close>, \<open>_i32\<close>, \<open>_i64\<close>) store the two's complement
  of the value: for a value in range of its width, the unsigned getter reads back a word
  whose signed reading is the value.\<close>

theorem declare_signed_roundtrips:
  "(j < 16 \<and> - (2 ^ 7) \<le> a \<and> a < 2 ^ 7 \<longrightarrow>
     map_sum id sint (rbind (set_declare_byte_value_i8 (int j) a i) (\<lambda>i'. get_declare_byte_value i' (int j))) = Inr a) \<and>
   (k < 8 \<and> - (2 ^ 15) \<le> b \<and> b < 2 ^ 15 \<longrightarrow>
     map_sum id sint (rbind (set_declare_word_value_i16 (int k) b i) (\<lambda>i'. get_declare_word_value i' (int k))) = Inr b) \<and>
   (k < 4 \<and> - (2 ^ 31) \<le> c \<and> c < 2 ^ 31 \<longrightarrow>
     map_sum id sint (rbind (set_declare_dword_value_i32 (int k) c i) (\<lambda>i'. get_declare_dword_value i' (int k))) = Inr c) \<and>
   (k < 2 \<and> - (2 ^ 63) \<le> e \<and> e < 2 ^ 63 \<longrightarrow>
     map_sum id sint (rbind (set_declare_qword_value_i64 (int k) e i) (\<lambda>i'. get_declare_qword_value i' (int k))) = Inr e)"
  by (simp add: set_declare_byte_value_i8_def set_declare_word_value_i16_def set_declare_dword_value_i32_def
      set_declare_qword_value_i64_def declare_byte_roundtrip_any declare_word_roundtrip declare_dword_roundtrip
      declare_qword_roundtrip sint_word_of_int_in_range)

theorem declare_signed_roundtrips_witness:
  "map_sum id sint (rbind (set_declare_byte_value_i8 5 (-1) instruction_new) (\<lambda>i'. get_declare_byte_value i' 5)) = Inr (-1) \<and>
   map_sum id sint (rbind (set_declare_word_value_i16 7 (-2) instruction_new) (\<lambda>i'. get_declare_word_value i' 7)) = Inr (-2) \<and>
   map_sum id sint (rbind (set_declare_dword_value_i32 3 (-3) instruction_new) (\<lambda>i'. get_declare_dword_value i' 3)) = Inr (-3) \<and>
   map_sum id sint (rbind (set_declare_qword_value_i64 1 (-4) instruction_new) (\<lambda>i'. get_declare_qword_value i' 1)) = Inr (-4)"
  using declare_signed_roundtrips [where j=5 and a="-1" and i=instruction_new and k=7 and b="-2" and c="-3" and e="-4"]
    declare_signed_roundtrips [where j=5 and a="-1" and i=instruction_new and k=3 and b="-2" and c="-3" and e="-4"]
    declare_signed_roundtrips [where j=5 and a="-1" and i=instruction_new and k=1 and b="-2" and c="-3" and e="-4"]
  by simp

text \<open>C22. The declare setters touch only the data storage: the next IP, \<open>code_flags\<close>,
  \<open>memory_flags\<close> and the upper half of \<open>op_kind_flags\<close> are kept, so the code, the
  instruction length, the code size and the declare-data length are unchanged.\<close>

theorem declare_setters_frame:
  assumes "set_declare_byte_value k b i = Inr i' \<or> set_declare_word_value k w i = Inr i' \<or>
    set_declare_dword_value k d i = Inr i' \<or> set_declare_qword_value k q i = Inr i'"
  shows "next_rip i' = next_rip i \<and> code_flags i' = code_flags i \<and> memory_flags i' = memory_flags i \<and>
    drop_bit 16 (op_kind_flags i') = drop_bit 16 (op_kind_flags i) \<and>
    code i' = code i \<and> len i' = len i \<and> code_size i' = code_size i \<and> declare_data_len i' = declare_data_len i"
proof -
  have f: "next_rip i' = next_rip i" "code_flags i' = code_flags i" "memory_flags i' = memory_flags i"
    and h: "drop_bit 16 (op_kind_flags i') = drop_bit 16 (op_kind_flags i)"
    using declare_setters_fields [OF assms] by (simp_all add: get_field_16_16_u32)
  have "drop_bit 20 (op_kind_flags i') = drop_bit 20 (op_kind_flags i)"
    "drop_bit 30 (op_kind_flags i') = drop_bit 30 (op_kind_flags i)"
    using arg_cong [OF h, of "drop_bit 4"] arg_cong [OF h, of "drop_bit 14"] by (simp_all add: drop_bit_drop_bit)
  with f h show ?thesis
    by (simp add: code_def len_def code_size_def declare_data_len_def OpKindFlags_CODE_SIZE_SHIFT_def
        OpKindFlags_DATA_LENGTH_SHIFT_def)
qed

theorem declare_setters_frame_witness:
  "declare_data_len (projr (set_declare_word_value 7 0xBEEF (set_declare_data_len 4 instruction_new))) =
     declare_data_len (set_declare_data_len 4 instruction_new) \<and>
   code (projr (set_declare_word_value 7 0xBEEF (set_declare_data_len 4 instruction_new))) =
     code (set_declare_data_len 4 instruction_new)"
  using declare_setters_frame [where k=7 and b=0 and i="set_declare_data_len 4 instruction_new" and
      i'="projr (set_declare_word_value 7 0xBEEF (set_declare_data_len 4 instruction_new))" and w="0xBEEF" and
      d=0 and q=0]
  by (simp add: set_declare_word_value_def)

end
