(* ===== verification/Instruction_Tables.thy ===== *)
theory Instruction_Tables
  imports Instruction_View MemorySize
begin

text \<open>
  The readers of \<open>instruction.rs\<close> that consult generated tables outside this slice
  (\<open>mnemonic\<close>, \<open>op_count\<close>, \<open>memory_size\<close>, lines 273-283 and 752-760) and the four
  \<open>Display\<close> impls selected by the formatter features (lines 2092-2131). The tables
  \<open>instructionopcounts::OP_COUNT\<close> and \<open>instructionmemorysizes::SIZES\<close> and the constant
  \<open>NUMBER_OF_CODE_VALUES\<close> are a parameter of type \<open>CodeTables\<close>, so that every
  theorem holds for all table contents; \<open>Code::to_mnemonic\<close> is a function parameter.
  Indexing a table is Rust's bounds-checked \<open>a[i]\<close>. The readers go through \<open>code()\<close>,
  whose \<open>transmute\<close> is undefined behaviour for a stored value that is not a \<open>Code\<close>
  (possible only through \<open>unsafe\<close> code); the model gives such values the 13-bit field,
  and no theorem here says anything about that case.
\<close>

unbundle bit_operations_syntax

record CodeTables =
  number_of_code_values :: nat
  op_count_table :: "u8 list"
  memory_size_table :: "u8 list"

definition table_index :: "'a list \<Rightarrow> nat \<Rightarrow> 'a result" where
  "table_index xs i = (if i < length xs then Inr (xs ! i) else Inl IndexOutOfBounds)"

definition mnemonic :: "(Code \<Rightarrow> 'm) \<Rightarrow> Instruction \<Rightarrow> 'm" where
  "mnemonic to_mnemonic self = to_mnemonic (code self)"

definition op_count :: "CodeTables \<Rightarrow> Instruction \<Rightarrow> i32 result" where
  "op_count t self =
     rbind (table_index (op_count_table t) (unat (code_flags self AND CodeFlags_CODE_MASK))) (\<lambda>b. Inr (uint b))"

definition memory_size :: "CodeTables \<Rightarrow> Instruction \<Rightarrow> MemorySize result" where
  "memory_size t self =
     (let index = unat (code self) + (if is_broadcast self then number_of_code_values t else 0) in
      rbind (table_index (memory_size_table t) index) (\<lambda>b. Inr (Abs_MemorySize (unat b))))"

subsection \<open>\<open>Display\<close>\<close>

text \<open>The crate features that the \<open>#[cfg(..)]\<close> attributes of the four impls test.\<close>

record Features =
  masm_formatter :: bool
  nasm_formatter :: bool
  intel_formatter :: bool
  gas_formatter :: bool
  all_formatters :: bool

definition display_masm_cfg :: "Features \<Rightarrow> bool" where
  "display_masm_cfg f \<longleftrightarrow> masm_formatter f \<or> all_formatters f"

definition display_nasm_cfg :: "Features \<Rightarrow> bool" where
  "display_nasm_cfg f \<longleftrightarrow>
     \<not> (masm_formatter f \<or> all_formatters f) \<and> (nasm_formatter f \<or> all_formatters f)"

definition display_intel_cfg :: "Features \<Rightarrow> bool" where
  "display_intel_cfg f \<longleftrightarrow>
     \<not> (masm_formatter f \<or> all_formatters f) \<and> \<not> (nasm_formatter f \<or> all_formatters f) \<and>
     (intel_formatter f \<or> all_formatters f)"

definition display_gas_cfg :: "Features \<Rightarrow> bool" where
  "display_gas_cfg f \<longleftrightarrow>
     \<not> (masm_formatter f \<or> all_formatters f) \<and> \<not> (nasm_formatter f \<or> all_formatters f) \<and>
     \<not> (intel_formatter f \<or> all_formatters f) \<and> (gas_formatter f \<or> all_formatters f)"

text \<open>The body of each impl: \<open>f.write_str("NYI")?; Ok(())\<close>, the text written.\<close>

definition fmt_masm :: "Instruction \<Rightarrow> string" where "fmt_masm self = ''NYI''"
definition fmt_nasm :: "Instruction \<Rightarrow> string" where "fmt_nasm self = ''NYI''"
definition fmt_intel :: "Instruction \<Rightarrow> string" where "fmt_intel self = ''NYI''"
definition fmt_gas :: "Instruction \<Rightarrow> string" where "fmt_gas self = ''NYI''"

subsection \<open>The readers depend on the code and the broadcast flag only\<close>

lemma unat_code_flags_code_mask: "unat (code_flags i AND CodeFlags_CODE_MASK) = unat (code i)"
proof -
  have "code_flags i AND CodeFlags_CODE_MASK = take_bit 13 (code_flags i)"
    by (simp add: CodeFlags_CODE_MASK_def CodeFlags_CODE_BITS_def take_bit_eq_mask mask_eq_exp_minus_1)
  then show ?thesis
    by (simp add: code_def unsigned_ucast_eq unsigned_take_bit_eq)
qed

lemma readers_view:
  "op_count t i = rbind (table_index (op_count_table t) (unat (iv_code (view i)))) (\<lambda>b. Inr (uint b))"
  "memory_size t i =
     rbind (table_index (memory_size_table t)
       (unat (iv_code (view i)) + (if iv_broadcast (view i) then number_of_code_values t else 0)))
       (\<lambda>b. Inr (Abs_MemorySize (unat b)))"
  "mnemonic f i = f (iv_code (view i))"
  by (simp_all add: op_count_def memory_size_def mnemonic_def view_def unat_code_flags_code_mask)

lemma view_fold_valid:
  "list_all valid_op ops \<Longrightarrow> view (fold exec_op ops i) = fold abs_op ops (view i)"
  by (induction ops arbitrary: i) (simp_all add: view_exec_op)

subsection \<open>Properties\<close>

text \<open>C14. After any sequence of public setters with representable arguments, \<open>op_count\<close>,
  \<open>memory_size\<close> and \<open>mnemonic\<close> are the table entries of the code (and, for
  \<open>memory_size\<close>, the broadcast flag) that the setters' contracts give the logical
  instruction: no other setter changes what these readers return.\<close>

theorem table_readers_after_setters:
  assumes "list_all valid_op ops"
  shows "op_count t (fold exec_op ops i) =
           rbind (table_index (op_count_table t) (unat (iv_code (fold abs_op ops (view i))))) (\<lambda>b. Inr (uint b)) \<and>
         memory_size t (fold exec_op ops i) =
           rbind (table_index (memory_size_table t)
             (unat (iv_code (fold abs_op ops (view i))) +
              (if iv_broadcast (fold abs_op ops (view i)) then number_of_code_values t else 0)))
             (\<lambda>b. Inr (Abs_MemorySize (unat b))) \<and>
         mnemonic f (fold exec_op ops i) = f (iv_code (fold abs_op ops (view i)))"
  by (simp add: readers_view view_fold_valid [OF assms])

theorem table_readers_after_setters_witness:
  "op_count \<lparr>number_of_code_values = 2, op_count_table = [0, 2], memory_size_table = [0, 5, 0, 100]\<rparr> (fold exec_op [SetCode 1, SetIsBroadcast True] instruction_new) = Inr 2 \<and>
   memory_size \<lparr>number_of_code_values = 2, op_count_table = [0, 2], memory_size_table = [0, 5, 0, 100]\<rparr> (fold exec_op [SetCode 1, SetIsBroadcast True] instruction_new) = Inr (Abs_MemorySize 100) \<and>
   mnemonic id (fold exec_op [SetCode 1, SetIsBroadcast True] instruction_new) = 1"
  using table_readers_after_setters [where ops="[SetCode 1, SetIsBroadcast True]" and i=instruction_new
      and t="\<lparr>number_of_code_values = 2, op_count_table = [0, 2], memory_size_table = [0, 5, 0, 100]\<rparr>" and f=id]
  by (simp add: table_index_def)

text \<open>C28. The \<open>cfg\<close> conditions of the four \<open>Display\<close> impls are pairwise exclusive, so no
  feature set compiles two conflicting impls, and one of them holds exactly when some
  formatter feature is enabled.\<close>

theorem display_cfg_coherent:
  "\<not> (display_masm_cfg f \<and> display_nasm_cfg f) \<and> \<not> (display_masm_cfg f \<and> display_intel_cfg f) \<and>
   \<not> (display_masm_cfg f \<and> display_gas_cfg f) \<and> \<not> (display_nasm_cfg f \<and> display_intel_cfg f) \<and>
   \<not> (display_nasm_cfg f \<and> display_gas_cfg f) \<and> \<not> (display_intel_cfg f \<and> display_gas_cfg f) \<and>
   ((display_masm_cfg f \<or> display_nasm_cfg f \<or> display_intel_cfg f \<or> display_gas_cfg f) \<longleftrightarrow>
    masm_formatter f \<or> nasm_formatter f \<or> intel_formatter f \<or> gas_formatter f \<or> all_formatters f)"
  by (auto simp: display_masm_cfg_def display_nasm_cfg_def display_intel_cfg_def display_gas_cfg_def)

end
