(* ===== verification/Spec2Isabelle.thy ===== *)
theory Spec2Isabelle
  imports MemorySize Instruction_Address Instruction_Declare Instruction_Tables
begin

text \<open>
  \<^bold>\<open>A verification library for the iced-x86 instruction core.\<close>

  The modelled program is the data model of the iced-x86 disassembler/assembler
  (\<open>src/src/rust/iced-x86/src/x86/common/\<close>): three components that the decoder,
  encoder and formatters (not part of this slice) build on. \<open>Instruction\<close> stores
  registers as \<open>u8\<close> ordinals of \<open>Register\<close> and reads them back through the
  enum, and \<open>Register\<close> arithmetic is how it classifies registers (opmask, segment,
  VSIB index); \<open>MemorySize\<close> is a leaf.
  \<^item> \<open>register.rs\<close>: the enumeration \<open>Register\<close> of 241 registers, \<open>Register::add\<close>
    and \<open>Register::sub\<close>, and every operator impl that calls them (\<open>+\<close>, \<open>-\<close>, \<open>+=\<close>
    and \<open>-=\<close> with \<open>i32\<close> and \<open>u32\<close> offsets). Theory \<open>Register\<close>.
  \<^item> \<open>memorysize.rs\<close>: the enumeration \<open>MemorySize\<close> of 136 memory-operand shapes,
    the static table \<open>MEMORY_SIZE_INFOS\<close> and the accessors of \<open>MemorySizeInfo\<close> and
    \<open>MemorySize\<close>. Theory \<open>MemorySize\<close>.
  \<^item> \<open>instruction.rs\<close>: the fixed-size value \<open>Instruction\<close>, whose logical fields are
    packed into twelve machine integers, with a getter and a setter per field:
    \<open>Instruction\<close> (layout constants, the record, code, length, code size, IP views,
    prefixes, operand kinds, opmask and EVEX decoration, declare-data length, the two
    equalities); \<open>Instruction_Memory\<close> (memory operand fields, immediates, branch
    targets, register slots, the operand dispatchers \<open>op_kind\<close>/\<open>op_register\<close>);
    \<open>Instruction_Address\<close> (VSIB classification, \<open>ip_relative_memory_address\<close>,
    \<open>get_address_size_in_bytes\<close>, \<open>virtual_address\<close>); \<open>Instruction_Declare\<close>
    (the \<open>db\<close>/\<open>dw\<close>/\<open>dd\<close>/\<open>dq\<close> byte overlay, lines 1532-1775); \<open>Instruction_Tables\<close>
    (the table readers \<open>mnemonic\<close>, \<open>op_count\<close>, \<open>memory_size\<close> and the four
    \<open>cfg\<close>-selected \<open>Display\<close> impls).

  \<^bold>\<open>How the model corresponds to the code.\<close>
  \<^item> Rust integers are words of their width (\<open>Iced_Prelude\<close>): \<open>u8\<close> \<dots> \<open>u64\<close>;
    signed parameters (\<open>i8\<close> \<dots> \<open>i64\<close>) are \<open>int\<close> and enter the code through
    \<open>word_of_int\<close>, the bits of \<open>as u32\<close>. Arithmetic is the release build's wrapping
    arithmetic; where a debug build would panic on overflow a finding says so.
  \<^item> \<open>panic!\<close> is \<open>Inl\<close> of the type \<open>panic\<close>; a function that may panic returns
    \<open>'a result = panic + 'a\<close>, sequenced with \<open>rbind\<close>.
  \<^item> \<open>fn f(&self, ..)\<close> is a function of the record; \<open>fn set_f(&mut self, v)\<close> returns
    the updated record (or a \<open>result\<close> of it when it can panic); \<open>r += d\<close> returns the
    new value of the variable.
  \<^item> \<open>Register\<close> and \<open>MemorySize\<close> are \<^theory_text>\<open>typedef\<close>s of their ordinals with the
    generated enum bodies kept as tables of names; \<open>OpKind\<close>, \<open>CodeSize\<close> and
    \<open>RoundingControl\<close>, generated outside this slice, are datatypes modelled from the
    spec (\<open>Iced_Enums\<close>); \<open>Code\<close> is its 13-bit ordinal.
  \<^item> Every packed accessor is put into the form of two generic operations
    \<open>get_field\<close>/\<open>set_field\<close> (\<open>Iced_Prelude\<close>), whose lemmas (read back what was
    written, a write leaves disjoint fields alone) carry the component proofs.

  \<^bold>\<open>Abstract specifications.\<close>
  \<^item> \<open>Instruction_View\<close>: the record \<open>InstructionView\<close> of logical fields, the
    abstraction \<open>view\<close>, a datatype \<open>InstrOp\<close> of the public setters with \<open>exec_op\<close>
    (the code) and \<open>abs_op\<close> (a single-field update): every sequence of setters with
    representable arguments is simulated by the abstract updates.
  \<^item> \<open>Instruction_Declare\<close>: \<open>declare_bytes\<close>, the 16-byte buffer read through the byte
    getter, with \<open>le_word\<close>/\<open>word_bytes\<close> (little-endian concatenation and split) and
    \<open>set_declare_bytes\<close> (byte-by-byte writes): the word, dword and qword accessors
    refine splices of this buffer.
  \<^item> \<open>Register\<close>: \<open>reg_assign_run\<close> runs a straight-line sequence of compound
    assignments; its abstraction is integer addition of \<open>assign_delta\<close> with the
    range condition \<open>ordinals_in_range\<close> on every intermediate ordinal.
  \<^item> \<open>Instruction_Tables\<close>: the generated tables \<open>OP_COUNT\<close>, \<open>SIZES\<close> and the constant
    \<open>NUMBER_OF_CODE_VALUES\<close> (outside \<open>src/\<close>, contents not given by the spec) are a
    parameter \<open>t :: CodeTables\<close> and \<open>Code::to_mnemonic\<close> a function parameter, so
    every theorem about the readers holds for all table contents.
  \<^item> \<open>code()\<close> transmutes the 13-bit field to \<open>Code\<close>; a field that is not a \<open>Code\<close>
    can only be written with \<open>unsafe\<close> code and makes the transmute undefined
    behaviour. The model reads the field as a 13-bit word there and no theorem draws a
    conclusion about that case.

  \<^bold>\<open>What is proved\<close> (the claims C1-C37, each after a text block naming it).
  \<^item> Refinement and round trips of the setters (C1, C7-C10, C22-C27, C32-C35),
    including the values a field cannot hold (opmask \<open>K0\<close>, displacement sizes
    other than 0/1/2/4/8, which read back as 8, lengths of 16 and more).
  \<^item> \<open>Register\<close> arithmetic with signed offsets, its panics, the undoing of an
    addition and compound-assignment sequences (C2, C3, C13, C36).
  \<^item> Equalities, immediates (including the two encodings of an \<open>Immediate8to32\<close>
    value), operand dispatch, segment selection and the decoder's internal setters
    (C4, C5, C11, C12, C15-C17, C31).
  \<^item> Addresses: the IP-relative shortcut agrees with \<open>virtual_address\<close>, offsets stay
    within the address size, panics only on a bad operand number, the debug assertion
    holds, \<open>vsib()\<close> classifies by the index width the code's operand names (C6,
    C19-C21, C29).
  \<^item> Table readers and \<open>Display\<close>: after any setters the readers depend on the code and
    the broadcast flag only; the \<open>cfg\<close>s of the four \<open>Display\<close> impls are pairwise
    exclusive and cover the formatter features (C14, C28).
  \<^item> \<open>MemorySize\<close>: \<open>is_broadcast\<close> agrees with the table, element counts never divide by
    zero, element types are consistent and are the variant itself exactly for the
    non-packed, non-broadcast variants (C18, C30, C37).

  \<^bold>\<open>Bounds and fuel.\<close> No definition needs fuel: the source has no loops in this
  slice; \<open>reg_assign_run\<close> and \<open>set_declare_bytes\<close> recurse on their list. Index
  ranges (0-15 bytes, 0-7 words, 0-3 dwords, 0-1 qwords, operands 0-4) are
  enumerated case by case.

  \<^bold>\<open>Not modelled.\<close> The contents of the generated tables \<open>OP_COUNT\<close>, \<open>SIZES\<close>
  and \<open>MNEMONICS\<close> and the value of \<open>NUMBER_OF_CODE_VALUES\<close> (outside \<open>src/\<close>, not
  given by the spec); the \<open>Formatter\<close> side of
  \<open>Display\<close> (the impls are modelled by the text they write); the empty \<open>impl\<close>
  blocks marked TODO, which have no code; the decoder, encoder and formatters, which are
  not in this slice. Nothing else of the three source files is left out.
\<close>

end
